theory Spec2Isabelle
  imports Main "HOL-Library.Sublist"
begin

chapter \<open>Model\<close>

section \<open>JavaScript values used by the population scripts\<close>

text \<open>
  A property of a JSON payload that may be absent (\<open>undefined\<close>) or \<open>null\<close> is an
  \<open>option\<close>; both absent and \<open>null\<close> reach PostgreSQL as \<open>NULL\<close>.  A JavaScript string
  is truthy exactly when it is present and not empty.
\<close>

definition truthy :: "string option \<Rightarrow> bool" where
  "truthy v = (case v of None \<Rightarrow> False | Some s \<Rightarrow> s \<noteq> [])"

text \<open>\<open>a || d\<close> on strings: the left operand when truthy, the default otherwise.\<close>

definition orElse :: "string option \<Rightarrow> string \<Rightarrow> string" where
  "orElse v d = (if truthy v then the v else d)"

text \<open>
  \<open>String.prototype.toLowerCase\<close>, on the ASCII letters (a \<open>char\<close> is a byte here; the
  rules of \<open>inferChamber\<close> only look for ASCII letters).
\<close>

definition toLowerChar :: "char \<Rightarrow> char" where
  "toLowerChar c =
     (let n = (of_char c :: nat) in if 65 \<le> n \<and> n \<le> 90 then char_of (n + 32) else c)"

definition toLowerCase :: "string \<Rightarrow> string" where
  "toLowerCase s = map toLowerChar s"

definition startsWith :: "string \<Rightarrow> string \<Rightarrow> bool" where
  "startsWith s p = prefix p s"

definition includesStr :: "string \<Rightarrow> string \<Rightarrow> bool" where
  "includesStr s p = sublist p s"

section \<open>Chamber inference (bill population script)\<close>

text \<open>
  The committee objects of the upstream API, as the scripts read them: \<open>systemCode\<close>,
  \<open>name\<close>, \<open>chamber\<close>, \<open>committeeTypeCode\<close>, \<open>url\<close>, the system code of \<open>parent\<close>
  (\<open>committee.parent && committee.parent.systemCode\<close>) and, for the committees of a
  bill, the \<open>activities\<close> array (\<open>None\<close> when it is not an array; the date of an
  activity is the instant it denotes, in milliseconds).
\<close>

record activity =
  av_name :: "string option"
  av_date :: "int option"

record committee =
  cm_systemCode :: "string option"
  cm_name :: "string option"
  cm_chamber :: "string option"
  cm_committeeTypeCode :: "string option"
  cm_url :: "string"
  cm_parent :: "string option"
  cm_activities :: "activity list option"

text \<open>
  \<open>inferChamber\<close> as written.  When no rule applies and \<open>committee.chamber\<close> is falsy, the
  log line's template evaluates \<open>inferChamber(committee)\<close> again on the same object
  before \<open>'Unknown'\<close> is returned.  The function is therefore partial: \<open>None\<close> is a call
  that never returns (in Node the recursion ends in a \<open>RangeError\<close>, the call stack
  being exhausted).
\<close>

partial_function (option) inferChamber :: "committee \<Rightarrow> string option" where
  "inferChamber committee =
     (if truthy (cm_chamber committee) then cm_chamber committee
      else if startsWith (toLowerCase (orElse (cm_systemCode committee) [])) ''s''
              \<or> startsWith (toLowerCase (orElse (cm_systemCode committee) [])) ''ss''
           then Some ''Senate''
      else if startsWith (toLowerCase (orElse (cm_systemCode committee) [])) ''h''
              \<or> startsWith (toLowerCase (orElse (cm_systemCode committee) [])) ''hs''
           then Some ''House''
      else if includesStr (toLowerCase (orElse (cm_systemCode committee) [])) ''jt''
              \<or> includesStr (toLowerCase (orElse (cm_name committee) [])) ''joint''
           then Some ''Joint''
      else if includesStr (toLowerCase (orElse (cm_name committee) [])) ''senate''
              \<or> includesStr (toLowerCase (orElse (cm_name committee) [])) ''foreign relations''
           then Some ''Senate''
      else if includesStr (toLowerCase (orElse (cm_name committee) [])) ''house''
              \<or> includesStr (toLowerCase (orElse (cm_name committee) [])) ''representatives''
           then Some ''House''
      else if \<not> truthy (cm_chamber committee)
           then Option.bind (inferChamber committee) (\<lambda>logged. Some ''Unknown'')
      else Some ''Unknown'')"

text \<open>The rules that decide a chamber without the final default.\<close>

definition chamberRuleApplies :: "committee \<Rightarrow> bool" where
  "chamberRuleApplies committee =
     (truthy (cm_chamber committee)
      \<or> startsWith (toLowerCase (orElse (cm_systemCode committee) [])) ''s''
      \<or> startsWith (toLowerCase (orElse (cm_systemCode committee) [])) ''h''
      \<or> includesStr (toLowerCase (orElse (cm_systemCode committee) [])) ''jt''
      \<or> includesStr (toLowerCase (orElse (cm_name committee) [])) ''joint''
      \<or> includesStr (toLowerCase (orElse (cm_name committee) [])) ''senate''
      \<or> includesStr (toLowerCase (orElse (cm_name committee) [])) ''foreign relations''
      \<or> includesStr (toLowerCase (orElse (cm_name committee) [])) ''house''
      \<or> includesStr (toLowerCase (orElse (cm_name committee) [])) ''representatives'')"

section \<open>The relational store\<close>

text \<open>
  The tables of \<open>createTablesSQL\<close>, one record per table, one field per column.  A
  column declared \<open>NOT NULL\<close> (or a primary key) holds a value, any other column an
  \<open>option\<close> with \<open>None\<close> for \<open>NULL\<close>.  \<open>SERIAL\<close> keys are natural numbers.  A
  \<open>DATE\<close> or \<open>TIMESTAMPTZ\<close> value is the instant it denotes, in milliseconds since the
  epoch (the unit of \<open>Date.now()\<close>).
\<close>

type_synonym timestamp = int

record member_row =
  m_bioguide_id :: string
  m_direct_order_name :: "string option"
  m_inverted_order_name :: "string option"
  m_first_name :: "string option"
  m_middle_name :: "string option"
  m_last_name :: "string option"
  m_suffix_name :: "string option"
  m_nickname :: "string option"
  m_honorific_name :: "string option"
  m_birth_year :: "int option"
  m_death_year :: "int option"
  m_official_url :: "string option"
  m_depiction_image_url :: "string option"
  m_depiction_attribution :: "string option"
  m_is_current_member :: "bool option"
  m_updated_at :: "timestamp option"

record member_address_row =
  ma_id :: nat
  ma_member_bioguide_id :: string
  ma_office_address :: "string option"
  ma_city :: "string option"
  ma_district :: "string option"
  ma_zip_code :: "string option"
  ma_phone_number :: "string option"

record member_party_history_row =
  mp_id :: nat
  mp_member_bioguide_id :: string
  mp_party_name :: string
  mp_party_abbreviation :: "string option"
  mp_start_year :: int

record member_term_row =
  mt_id :: nat
  mt_member_bioguide_id :: string
  mt_congress :: int
  mt_chamber :: string
  mt_member_type :: "string option"
  mt_state_code :: string
  mt_state_name :: "string option"
  mt_district :: "int option"
  mt_start_year :: "int option"
  mt_end_year :: "int option"

record member_leadership_row =
  ml_id :: nat
  ml_member_bioguide_id :: string
  ml_congress :: int
  ml_leadership_type :: string
  ml_is_current :: "bool option"

record committee_row =
  c_system_code :: string
  c_name :: string
  c_chamber :: string
  c_committee_type_code :: "string option"
  c_parent_committee_system_code :: "string option"
  c_is_current :: "bool option"
  c_updated_at :: "timestamp option"

record committee_history_row =
  ch_id :: nat
  ch_committee_system_code :: string
  ch_official_name :: "string option"
  ch_start_date :: "timestamp option"
  ch_end_date :: "timestamp option"
  ch_establishing_authority :: "string option"

record bill_row =
  b_id :: nat
  b_congress :: int
  b_type :: string
  b_number :: int
  b_origin_chamber :: "string option"
  b_title :: "string option"
  b_introduced_date :: "timestamp option"
  b_policy_area_name :: "string option"
  b_sponsor_bioguide_id :: "string option"
  b_is_by_request :: "bool option"
  b_constitutional_authority_statement_text :: "string option"
  b_updated_at :: "timestamp option"
  b_updated_at_including_text :: "timestamp option"
  b_last_processed_at :: "timestamp option"

record bill_cosponsor_row =
  bc_bill_id :: nat
  bc_member_bioguide_id :: string
  bc_sponsorship_date :: timestamp
  bc_is_original_cosponsor :: bool
  bc_sponsorship_withdrawn_date :: "timestamp option"

record bill_action_row =
  ba_id :: nat
  ba_bill_id :: nat
  ba_action_date :: timestamp
  ba_text :: string
  ba_type :: "string option"
  ba_action_code :: "string option"
  ba_source_system_name :: "string option"

record bill_action_committee_row =
  bac_action_id :: nat
  bac_committee_system_code :: string

record bill_committee_row =
  bcm_id :: nat
  bcm_bill_id :: nat
  bcm_committee_system_code :: string
  bcm_activity_name :: string
  bcm_activity_date :: "timestamp option"

record cbo_cost_estimate_row =
  cbo_id :: nat
  cbo_bill_id :: nat
  cbo_url :: "string option"
  cbo_title :: "string option"
  cbo_description :: "string option"
  cbo_publication_date :: "timestamp option"

record bill_summary_row =
  bs_id :: nat
  bs_bill_id :: nat
  bs_version_code :: "string option"
  bs_action_description :: "string option"
  bs_action_date :: "timestamp option"
  bs_text :: "string option"
  bs_updated_at :: "timestamp option"

record bill_subject_row =
  bsu_id :: nat
  bsu_bill_id :: nat
  bsu_name :: string

record bill_title_row =
  bt_id :: nat
  bt_bill_id :: nat
  bt_title_type :: "string option"
  bt_title :: "string option"
  bt_chamber_code :: "string option"
  bt_chamber_name :: "string option"

record bill_text_version_row =
  btv_id :: nat
  btv_bill_id :: nat
  btv_type :: string
  btv_date :: "timestamp option"
  btv_url :: "string option"
  btv_format :: "string option"

record related_bill_row =
  rb_bill_id :: nat
  rb_related_bill_id :: nat
  rb_relationship_type :: string
  rb_identified_by :: string

record committee_report_row =
  cr_id :: nat
  cr_congress :: int
  cr_chamber :: string
  cr_type :: string
  cr_number :: int
  cr_part :: "int option"
  cr_citation :: "string option"
  cr_title :: "string option"
  cr_issue_date :: "timestamp option"
  cr_is_conference_report :: "bool option"
  cr_updated_at :: "timestamp option"

record report_committee_row =
  rc_report_id :: nat
  rc_committee_system_code :: string

record report_associated_bill_row =
  rab_report_id :: nat
  rab_bill_id :: nat

text \<open>
  The stored state: the rows of every table the population scripts write.  (The table
  \<open>laws\<close> is written by no script.)  Sequence counters are not part of the state: a
  fresh \<open>SERIAL\<close> key is any key not yet in the table.
\<close>

record db =
  members :: "member_row list"
  member_addresses :: "member_address_row list"
  member_party_history :: "member_party_history_row list"
  member_terms :: "member_term_row list"
  member_leadership :: "member_leadership_row list"
  committees :: "committee_row list"
  committee_history :: "committee_history_row list"
  bills :: "bill_row list"
  bill_cosponsors :: "bill_cosponsor_row list"
  bill_actions :: "bill_action_row list"
  bill_action_committees :: "bill_action_committee_row list"
  bill_committees :: "bill_committee_row list"
  cbo_cost_estimates :: "cbo_cost_estimate_row list"
  bill_summaries :: "bill_summary_row list"
  bill_subjects :: "bill_subject_row list"
  bill_titles :: "bill_title_row list"
  bill_text_versions :: "bill_text_version_row list"
  related_bills :: "related_bill_row list"
  committee_reports :: "committee_report_row list"
  report_committees :: "report_committee_row list"
  report_associated_bills :: "report_associated_bill_row list"

section \<open>The staleness filter of the bill script (\<open>fetchAndFilterBillUrls\<close>)\<close>

text \<open>
  The template literal \<open>`${congress}-${type}-${number}`\<close> prints the two integers in
  decimal, a negative one with a leading minus sign.
\<close>

definition digitChar :: "nat \<Rightarrow> char" where
  "digitChar d = char_of (48 + d)"

fun showNat :: "nat \<Rightarrow> string" where
  "showNat n = (if n < 10 then [digitChar n] else showNat (n div 10) @ [digitChar (n mod 10)])"

definition showInt :: "int \<Rightarrow> string" where
  "showInt i = (if i < 0 then CHR ''-'' # showNat (nat (- i)) else showNat (nat i))"

definition billKey :: "int \<Rightarrow> string \<Rightarrow> int \<Rightarrow> string" where
  "billKey c t n = showInt c @ ''-'' @ t @ ''-'' @ showInt n"

text \<open>An item of the bill list endpoint, with the properties the filter reads.\<close>

record api_bill =
  ab_congress :: int
  ab_type :: string
  ab_number :: int
  ab_url :: string

text \<open>
  \<open>SELECT congress, type, number, last_processed_at FROM bills WHERE (congress, type,
  number) IN (identifiers)\<close>, the identifiers being those of the page's bills.
\<close>

definition selectBillsIn :: "bill_row list \<Rightarrow> api_bill list \<Rightarrow> bill_row list" where
  "selectBillsIn rows apiBills =
     filter (\<lambda>r. list_ex (\<lambda>b. ab_congress b = b_congress r \<and> ab_type b = b_type r
                                  \<and> ab_number b = b_number r) apiBills) rows"

text \<open>\<open>new Map(entries)\<close>: of two entries with one key the later one stays.\<close>

definition newMap :: "('k \<times> 'v) list \<Rightarrow> 'k \<Rightarrow> 'v option" where
  "newMap entries = map_of (rev entries)"

definition dbBillMap :: "bill_row list \<Rightarrow> string \<Rightarrow> timestamp option option" where
  "dbBillMap rows =
     newMap (map (\<lambda>r. (billKey (b_congress r) (b_type r) (b_number r), b_last_processed_at r)) rows)"

definition sevenDays :: int where
  "sevenDays = 7 * 24 * 60 * 60 * 1000"

text \<open>
  The loop over the bills of one page.  \<open>dbBillMap.get(key)\<close> is \<open>undefined\<close> for a
  missing key (\<open>None\<close>), \<open>null\<close> for a stored \<open>NULL\<close> (\<open>Some None\<close>) and a \<open>Date\<close>
  otherwise; only a \<open>Date\<close> is truthy.  A bill that is not skipped has its URL pushed
  onto \<open>billUrlsToProcess\<close>.
\<close>

fun filterPage ::
  "(string \<Rightarrow> timestamp option option) \<Rightarrow> timestamp \<Rightarrow> string \<Rightarrow> api_bill list
     \<Rightarrow> string list \<Rightarrow> string list" where
  "filterPage m sevenDaysAgo apiKey [] billUrlsToProcess = billUrlsToProcess"
| "filterPage m sevenDaysAgo apiKey (apiBill # rest) billUrlsToProcess =
     (let key = billKey (ab_congress apiBill) (ab_type apiBill) (ab_number apiBill);
          lastProcessed = m key
      in if (case lastProcessed of Some (Some d) \<Rightarrow> sevenDaysAgo < d | _ \<Rightarrow> False)
         then filterPage m sevenDaysAgo apiKey rest billUrlsToProcess
         else filterPage m sevenDaysAgo apiKey rest
                (billUrlsToProcess @ [ab_url apiBill @ ''&api_key='' @ apiKey]))"

text \<open>
  The upstream list as the loop meets it: a finite chain of responses.  \<open>PageFailed\<close> is a
  request that throws or answers with a status that is not ok (or a page whose database
  query throws): the \<open>catch\<close> ends the loop with what was gathered.  \<open>LastPage bills now\<close>
  is a page without \<open>pagination.next\<close>, \<open>NextPage bills now rest\<close> a page followed by the
  response to its \<open>next\<close> URL; \<open>bills\<close> is \<open>data.bills\<close> (empty when absent) and \<open>now\<close> the
  value of \<open>Date.now()\<close> while the page is filtered.
\<close>

datatype bill_pages =
  PageFailed
  | LastPage "api_bill list" timestamp
  | NextPage "api_bill list" timestamp bill_pages

definition processPage ::
  "bill_row list \<Rightarrow> string \<Rightarrow> api_bill list \<Rightarrow> timestamp \<Rightarrow> string list \<Rightarrow> string list" where
  "processPage rows apiKey apiBills now billUrlsToProcess =
     (if apiBills \<noteq> []
      then filterPage (dbBillMap (selectBillsIn rows apiBills)) (now - sevenDays) apiKey apiBills
             billUrlsToProcess
      else billUrlsToProcess)"

fun walkBillPages :: "bill_row list \<Rightarrow> string \<Rightarrow> bill_pages \<Rightarrow> string list \<Rightarrow> string list" where
  "walkBillPages rows apiKey PageFailed billUrlsToProcess = billUrlsToProcess"
| "walkBillPages rows apiKey (LastPage apiBills now) billUrlsToProcess =
     processPage rows apiKey apiBills now billUrlsToProcess"
| "walkBillPages rows apiKey (NextPage apiBills now rest) billUrlsToProcess =
     walkBillPages rows apiKey rest (processPage rows apiKey apiBills now billUrlsToProcess)"

text \<open>
  \<open>fetchAndFilterBillUrls\<close>: nothing is fetched when \<open>CURRENT_CONGRESS\<close> is not set.
\<close>

definition fetchAndFilterBillUrls ::
  "string option \<Rightarrow> string \<Rightarrow> bill_row list \<Rightarrow> bill_pages \<Rightarrow> string list" where
  "fetchAndFilterBillUrls congressToFetch apiKey rows upstream =
     (if \<not> truthy congressToFetch then [] else walkBillPages rows apiKey upstream [])"

subsection \<open>The filter as the specification words it\<close>

text \<open>
  The stored watermark of an upstream bill is the \<open>last_processed_at\<close> of the row with
  its (congress, type, number); there is none when the row is absent or the column is
  \<open>NULL\<close>.  A bill is left out exactly when its watermark exists and is newer than seven
  days before now.
\<close>

definition storedWatermark :: "bill_row list \<Rightarrow> api_bill \<Rightarrow> timestamp option" where
  "storedWatermark rows b =
     (case find (\<lambda>r. b_congress r = ab_congress b \<and> b_type r = ab_type b
                        \<and> b_number r = ab_number b) rows of
        None \<Rightarrow> None
      | Some r \<Rightarrow> b_last_processed_at r)"

definition recentlyProcessed :: "bill_row list \<Rightarrow> timestamp \<Rightarrow> api_bill \<Rightarrow> bool" where
  "recentlyProcessed rows now b =
     (case storedWatermark rows b of None \<Rightarrow> False | Some d \<Rightarrow> now - sevenDays < d)"

fun candidates :: "bill_row list \<Rightarrow> bill_pages \<Rightarrow> api_bill list" where
  "candidates rows PageFailed = []"
| "candidates rows (LastPage apiBills now) =
     filter (\<lambda>b. \<not> recentlyProcessed rows now b) apiBills"
| "candidates rows (NextPage apiBills now rest) =
     filter (\<lambda>b. \<not> recentlyProcessed rows now b) apiBills @ candidates rows rest"

text \<open>
  Identifiers as the upstream and the store hold them: a type code without a hyphen and
  a number that is not negative.  The key of the lookup map then determines the
  identifier.
\<close>

definition plainIdent :: "string \<Rightarrow> int \<Rightarrow> bool" where
  "plainIdent t n = (CHR ''-'' \<notin> set t \<and> 0 \<le> n)"

fun pagesPlain :: "bill_pages \<Rightarrow> bool" where
  "pagesPlain PageFailed = True"
| "pagesPlain (LastPage apiBills now) = list_all (\<lambda>b. plainIdent (ab_type b) (ab_number b)) apiBills"
| "pagesPlain (NextPage apiBills now rest) =
     (list_all (\<lambda>b. plainIdent (ab_type b) (ab_number b)) apiBills \<and> pagesPlain rest)"

text \<open>The constraint \<open>UNIQUE (congress, type, number)\<close> of \<open>bills\<close>.\<close>

definition billsUnique :: "bill_row list \<Rightarrow> bool" where
  "billsUnique rows = distinct (map (\<lambda>r. (b_congress r, b_type r, b_number r)) rows)"

text \<open>The same for the stored rows.\<close>

definition rowsPlain :: "bill_row list \<Rightarrow> bool" where
  "rowsPlain rows = list_all (\<lambda>r. plainIdent (b_type r) (b_number r)) rows"

text \<open>
  A store and an upstream list to run the filter on: four stored bills, processed two
  days ago, never (\<open>NULL\<close>), nine days ago and exactly seven days ago at the time
  \<open>864000000\<close> (ten days after the epoch), and a fifth bill that is not stored.
\<close>

definition stubBillRow :: "nat \<Rightarrow> int \<Rightarrow> string \<Rightarrow> int \<Rightarrow> timestamp option \<Rightarrow> bill_row" where
  "stubBillRow i c t n w =
     \<lparr>b_id = i, b_congress = c, b_type = t, b_number = n, b_origin_chamber = None,
      b_title = None, b_introduced_date = None, b_policy_area_name = None,
      b_sponsor_bioguide_id = None, b_is_by_request = None,
      b_constitutional_authority_statement_text = None, b_updated_at = None,
      b_updated_at_including_text = None, b_last_processed_at = w\<rparr>"

definition exampleBillRows :: "bill_row list" where
  "exampleBillRows =
     [stubBillRow 1 119 ''HR'' 1 (Some 691200000),
      stubBillRow 2 119 ''HR'' 2 None,
      stubBillRow 3 119 ''S'' 1 (Some 86400000),
      stubBillRow 4 119 ''S'' 2 (Some 259200000)]"

definition exampleBillPages :: "bill_pages" where
  "exampleBillPages =
     NextPage
       [\<lparr>ab_congress = 119, ab_type = ''HR'', ab_number = 1, ab_url = ''u1?format=json''\<rparr>,
        \<lparr>ab_congress = 119, ab_type = ''HR'', ab_number = 2, ab_url = ''u2?format=json''\<rparr>,
        \<lparr>ab_congress = 119, ab_type = ''HR'', ab_number = 3, ab_url = ''u3?format=json''\<rparr>]
       864000000
       (LastPage
         [\<lparr>ab_congress = 119, ab_type = ''S'', ab_number = 1, ab_url = ''u4?format=json''\<rparr>,
          \<lparr>ab_congress = 119, ab_type = ''S'', ab_number = 2, ab_url = ''u5?format=json''\<rparr>]
         864000000)"

section \<open>Transactions on one pooled client\<close>

text \<open>
  What a script sees of a failure: a constraint of the schema that a statement violates,
  any other failure of a statement (\<open>StatementFailed\<close>: a type error, a lost
  connection), PostgreSQL's refusal of a statement after an earlier one failed in the same
  transaction, a \<open>fetch\<close> that rejects, and the \<open>RangeError\<close> of an exhausted call stack.
\<close>

datatype error =
  NotNullViolation
  | ForeignKeyViolation
  | UniqueViolation
  | StatementFailed
  | InFailedSqlTransaction
  | FetchFailed
  | RangeError

text \<open>
  The state of the client between \<open>BEGIN\<close> and \<open>COMMIT\<close>/\<open>ROLLBACK\<close>: the rows as the
  transaction sees them; whether a statement has failed (PostgreSQL then rejects every
  further statement until the transaction ends); the statements still to come that fail
  for a reason outside the schema (\<open>tx_faults\<close>: one flag per statement sent, \<open>True\<close> for
  a statement that fails; past the end of the list no statement fails that way); and a
  history of the statements sent so far (\<open>tx_log\<close>: \<open>True\<close> for a statement that failed).
\<close>

record tx =
  tx_db :: db
  tx_failed :: bool
  tx_faults :: "bool list"
  tx_log :: "bool list"

text \<open>
  An \<open>async\<close> computation on the client: it ends with a value (\<open>Inr\<close>) or with a thrown
  error (\<open>Inl\<close>), and leaves the client in a new state either way.
\<close>

type_synonym ('z, 'a) io = "'z tx_scheme \<Rightarrow> (error + 'a) \<times> 'z tx_scheme"

definition returnE :: "'a \<Rightarrow> ('z, 'a) io" where
  "returnE x = (\<lambda>t. (Inr x, t))"

definition throwE :: "error \<Rightarrow> ('z, 'a) io" where
  "throwE e = (\<lambda>t. (Inl e, t))"

definition bindE :: "('z, 'a) io \<Rightarrow> ('a \<Rightarrow> ('z, 'b) io) \<Rightarrow> ('z, 'b) io" where
  "bindE m f = (\<lambda>t. case m t of (Inl e, t') \<Rightarrow> (Inl e, t') | (Inr x, t') \<Rightarrow> f x t')"

text \<open>\<open>try { m } catch (error) { h }\<close>\<close>

definition catchE :: "('z, 'a) io \<Rightarrow> (error \<Rightarrow> ('z, 'a) io) \<Rightarrow> ('z, 'a) io" where
  "catchE m h = (\<lambda>t. case m t of (Inl e, t') \<Rightarrow> h e t' | (Inr x, t') \<Rightarrow> (Inr x, t'))"

text \<open>\<open>for (const x of xs) { f x }\<close>: a thrown error ends the loop.\<close>

primrec foreachE :: "'a list \<Rightarrow> ('a \<Rightarrow> ('z, unit) io) \<Rightarrow> ('z, unit) io" where
  "foreachE [] f = returnE ()"
| "foreachE (x # xs) f = bindE (f x) (\<lambda>u. foreachE xs f)"

definition whenE :: "bool \<Rightarrow> ('z, unit) io \<Rightarrow> ('z, unit) io" where
  "whenE c m = (if c then m else returnE ())"

text \<open>
  The state after a statement: one that passes and leaves the rows \<open>d\<close>, one that fails,
  and one that PostgreSQL refuses because the transaction has failed.
\<close>

definition passing :: "db \<Rightarrow> 'z tx_scheme \<Rightarrow> 'z tx_scheme" where
  "passing d t = t\<lparr>tx_db := d, tx_faults := tl (tx_faults t), tx_log := tx_log t @ [False]\<rparr>"

definition failing :: "'z tx_scheme \<Rightarrow> 'z tx_scheme" where
  "failing t = t\<lparr>tx_failed := True, tx_faults := tl (tx_faults t), tx_log := tx_log t @ [True]\<rparr>"

definition refused :: "'z tx_scheme \<Rightarrow> 'z tx_scheme" where
  "refused t = t\<lparr>tx_faults := tl (tx_faults t), tx_log := tx_log t @ [True]\<rparr>"

text \<open>
  \<open>await client.query(stmt)\<close>.  The statement is a function of the rows that yields an
  error or a result and the new rows.  A failed statement changes no row and marks the
  transaction as failed.
\<close>

definition query :: "(db \<Rightarrow> error + 'a \<times> db) \<Rightarrow> ('z, 'a) io" where
  "query stmt = (\<lambda>t.
     if tx_failed t then (Inl InFailedSqlTransaction, refused t)
     else if tx_faults t \<noteq> [] \<and> hd (tx_faults t) then (Inl StatementFailed, failing t)
     else (case stmt (tx_db t) of
             Inl e \<Rightarrow> (Inl e, failing t)
           | Inr (r, d) \<Rightarrow> (Inr r, passing d t)))"

text \<open>
  \<open>BEGIN\<close> opens the transaction on the stored rows.  \<open>COMMIT\<close> stores the rows of the
  transaction, unless a statement has failed: PostgreSQL then answers \<open>COMMIT\<close> with a
  rollback.  \<open>ROLLBACK\<close> keeps the stored rows.
\<close>

definition beginTx :: "db \<Rightarrow> bool list \<Rightarrow> tx" where
  "beginTx d faults = \<lparr>tx_db = d, tx_failed = False, tx_faults = faults, tx_log = []\<rparr>"

definition commit :: "db \<Rightarrow> 'z tx_scheme \<Rightarrow> db" where
  "commit stored t = (if tx_failed t then stored else tx_db t)"

definition rollback :: "db \<Rightarrow> 'z tx_scheme \<Rightarrow> db" where
  "rollback stored t = stored"

text \<open>Which of the two final log lines a script prints.\<close>

datatype outcome = Committed | RolledBack

subsection \<open>Helpers for statements\<close>

text \<open>
  \<open>INSERT ... ON CONFLICT ... DO UPDATE\<close> on one table: the row that conflicts with the
  new one is updated, and the new row is added when no row conflicts.  With
  \<open>DO NOTHING\<close> the update is the identity.
\<close>

definition upsertBy :: "('r \<Rightarrow> bool) \<Rightarrow> ('r \<Rightarrow> 'r) \<Rightarrow> 'r \<Rightarrow> 'r list \<Rightarrow> 'r list" where
  "upsertBy conflicts update new rows =
     (if list_ex conflicts rows then map (\<lambda>r. if conflicts r then update r else r) rows
      else rows @ [new])"

text \<open>A fresh \<open>SERIAL\<close> key for a table whose keys are \<open>ids\<close>.\<close>

definition freshId :: "nat list \<Rightarrow> nat" where
  "freshId ids = Suc (fold max ids 0)"

text \<open>
  Equality as a unique index sees it: a \<open>NULL\<close> equals nothing, so a row with a \<open>NULL\<close> in
  a column of the index conflicts with no row.
\<close>

definition sameKey :: "'a option \<Rightarrow> 'a option \<Rightarrow> bool" where
  "sameKey a b = (a \<noteq> None \<and> a = b)"

definition memberStored :: "db \<Rightarrow> string \<Rightarrow> bool" where
  "memberStored d bioguideId = list_ex (\<lambda>r. m_bioguide_id r = bioguideId) (members d)"

definition committeeStored :: "db \<Rightarrow> string \<Rightarrow> bool" where
  "committeeStored d systemCode = list_ex (\<lambda>r. c_system_code r = systemCode) (committees d)"

section \<open>The committee script: \<open>upsertBaseCommittees\<close>\<close>

text \<open>
  Pass 1, one statement per committee: \<open>INSERT INTO committees (system_code, name,
  chamber, committee_type_code) VALUES ($1, $2, $3, $4) ON CONFLICT (system_code) DO
  UPDATE SET name = EXCLUDED.name, chamber = EXCLUDED.chamber, committee_type_code =
  EXCLUDED.committee_type_code\<close>.
\<close>

definition insertBaseCommittee :: "committee \<Rightarrow> db \<Rightarrow> error + unit \<times> db" where
  "insertBaseCommittee committee d =
     (case (cm_systemCode committee, cm_name committee, cm_chamber committee) of
        (Some systemCode, Some name, Some chamber) \<Rightarrow>
          Inr ((), d\<lparr>committees :=
            upsertBy (\<lambda>r. c_system_code r = systemCode)
              (\<lambda>r. r\<lparr>c_name := name, c_chamber := chamber,
                     c_committee_type_code := cm_committeeTypeCode committee\<rparr>)
              \<lparr>c_system_code = systemCode, c_name = name, c_chamber = chamber,
               c_committee_type_code = cm_committeeTypeCode committee,
               c_parent_committee_system_code = None, c_is_current = None,
               c_updated_at = None\<rparr>
              (committees d)\<rparr>)
      | _ \<Rightarrow> Inl NotNullViolation)"

text \<open>
  Pass 2: \<open>UPDATE committees SET parent_committee_system_code = $1 WHERE system_code =
  $2\<close>.  The foreign key on the parent is checked for the rows the statement updates.
\<close>

definition updateCommitteeParent :: "string \<Rightarrow> string option \<Rightarrow> db \<Rightarrow> error + unit \<times> db" where
  "updateCommitteeParent parent systemCode d =
     (if list_ex (\<lambda>r. Some (c_system_code r) = systemCode) (committees d)
         \<and> \<not> committeeStored d parent
      then Inl ForeignKeyViolation
      else Inr ((), d\<lparr>committees :=
             map (\<lambda>r. if Some (c_system_code r) = systemCode
                        then r\<lparr>c_parent_committee_system_code := Some parent\<rparr> else r)
               (committees d)\<rparr>))"

text \<open>The local variable \<open>detailUrls\<close> lives beside the client.\<close>

record upsert_state = tx +
  detailUrls :: "string list"

definition pushDetailUrl :: "string \<Rightarrow> (\<lparr>detailUrls :: string list\<rparr>, unit) io" where
  "pushDetailUrl url = (\<lambda>t. (Inr (), t\<lparr>detailUrls := detailUrls t @ [url]\<rparr>))"

definition committeePass1 ::
  "string \<Rightarrow> committee list \<Rightarrow> (\<lparr>detailUrls :: string list\<rparr>, unit) io" where
  "committeePass1 apiKey committeesData =
     foreachE committeesData (\<lambda>committee.
       bindE (pushDetailUrl (cm_url committee @ ''&api_key='' @ apiKey)) (\<lambda>u.
       query (insertBaseCommittee committee)))"

definition committeePass2 :: "committee list \<Rightarrow> (\<lparr>detailUrls :: string list\<rparr>, unit) io" where
  "committeePass2 committeesData =
     foreachE committeesData (\<lambda>committee.
       whenE (truthy (cm_parent committee))
         (query (updateCommitteeParent (the (cm_parent committee)) (cm_systemCode committee))))"

text \<open>
  \<open>upsertBaseCommittees\<close> returns \<open>detailUrls\<close>; the model returns with it the stored rows
  afterwards and the log line printed.
\<close>

definition upsertBaseCommittees ::
  "string \<Rightarrow> bool list \<Rightarrow> committee list \<Rightarrow> db \<Rightarrow> string list \<times> db \<times> outcome" where
  "upsertBaseCommittees apiKey faults committeesData stored =
     (case bindE (committeePass1 apiKey committeesData) (\<lambda>u. committeePass2 committeesData)
             \<lparr>tx_db = stored, tx_failed = False, tx_faults = faults, tx_log = [],
               detailUrls = []\<rparr> of
        (Inr u, t) \<Rightarrow> (detailUrls t, commit stored t, Committed)
      | (Inl e, t) \<Rightarrow> (detailUrls t, rollback stored t, RolledBack))"

text \<open>The stored parent pointer and the stored chamber of a system code.\<close>

definition parentOf :: "db \<Rightarrow> string \<Rightarrow> string option" where
  "parentOf d systemCode =
     (case find (\<lambda>r. c_system_code r = systemCode) (committees d) of
        None \<Rightarrow> None | Some r \<Rightarrow> c_parent_committee_system_code r)"

definition chamberOf :: "db \<Rightarrow> string \<Rightarrow> string option" where
  "chamberOf d systemCode =
     (case find (\<lambda>r. c_system_code r = systemCode) (committees d) of
        None \<Rightarrow> None | Some r \<Rightarrow> Some (c_chamber r))"

text \<open>The stored state with no rows.\<close>

definition emptyDb :: db where
  "emptyDb = \<lparr>members = [], member_addresses = [], member_party_history = [],
     member_terms = [], member_leadership = [], committees = [], committee_history = [],
     bills = [], bill_cosponsors = [], bill_actions = [], bill_action_committees = [],
     bill_committees = [], cbo_cost_estimates = [], bill_summaries = [], bill_subjects = [],
     bill_titles = [], bill_text_versions = [], related_bills = [], committee_reports = [],
     report_committees = [], report_associated_bills = []\<rparr>"

section \<open>Reasoning about computations on the client\<close>

text \<open>
  \<open>ioValid P m Q E\<close>: started in a state that satisfies \<open>P\<close>, the computation \<open>m\<close> ends
  with a value \<open>x\<close> in a state that satisfies \<open>Q x\<close>, or with a thrown error in a state
  that satisfies \<open>E\<close>.
\<close>

definition ioValid ::
  "('z tx_scheme \<Rightarrow> bool) \<Rightarrow> ('z, 'a) io \<Rightarrow> ('a \<Rightarrow> 'z tx_scheme \<Rightarrow> bool)
     \<Rightarrow> ('z tx_scheme \<Rightarrow> bool) \<Rightarrow> bool" where
  "ioValid P m Q E =
     (\<forall>t. P t \<longrightarrow> (case m t of (Inr x, t') \<Rightarrow> Q x t' | (Inl e, t') \<Rightarrow> E t'))"

text \<open>
  A page of the committee list in which the subcommittee \<open>HSAG00\<close> comes before its
  parent \<open>HSAG\<close>.
\<close>

definition exampleCommittees :: "committee list" where
  "exampleCommittees =
     [\<lparr>cm_systemCode = Some ''HSAG00'', cm_name = Some ''Agriculture Subcommittee'',
       cm_chamber = Some ''House'', cm_committeeTypeCode = Some ''Subcommittee'',
       cm_url = ''c/HSAG00?format=json'', cm_parent = Some ''HSAG'', cm_activities = None\<rparr>,
      \<lparr>cm_systemCode = Some ''HSAG'', cm_name = Some ''Agriculture Committee'',
       cm_chamber = Some ''House'', cm_committeeTypeCode = Some ''Standing'',
       cm_url = ''c/HSAG?format=json'', cm_parent = None, cm_activities = None\<rparr>]"

text \<open>
  The same page followed by a subcommittee whose parent \<open>SSXX\<close> is neither on the page
  nor stored.
\<close>

definition exampleWithOrphan :: "committee list" where
  "exampleWithOrphan = exampleCommittees @
     [\<lparr>cm_systemCode = Some ''SSXX01'', cm_name = Some ''Orphan Subcommittee'',
       cm_chamber = Some ''Senate'', cm_committeeTypeCode = Some ''Subcommittee'',
       cm_url = ''c/SSXX01?format=json'', cm_parent = Some ''SSXX'', cm_activities = None\<rparr>]"

section \<open>The bill script: \<open>ensureCommitteeExists\<close>\<close>

text \<open>
  \<open>INSERT INTO committees (system_code, name, chamber) VALUES ($1, $2, $3) ON CONFLICT
  (system_code) DO UPDATE SET name = COALESCE(EXCLUDED.name, committees.name), chamber =
  CASE WHEN committees.chamber = 'Unknown' THEN EXCLUDED.chamber ELSE committees.chamber
  END\<close>.  The three values are never \<open>NULL\<close>: the system code is truthy, the name has a
  default and the chamber is a result of \<open>inferChamber\<close>.
\<close>

definition insertCommitteeStub :: "string \<Rightarrow> string \<Rightarrow> string \<Rightarrow> db \<Rightarrow> error + unit \<times> db" where
  "insertCommitteeStub systemCode name chamber d =
     Inr ((), d\<lparr>committees :=
       upsertBy (\<lambda>r. c_system_code r = systemCode)
         (\<lambda>r. r\<lparr>c_name := name,
                c_chamber := (if c_chamber r = ''Unknown'' then chamber else c_chamber r)\<rparr>)
         \<lparr>c_system_code = systemCode, c_name = name, c_chamber = chamber,
          c_committee_type_code = None, c_parent_committee_system_code = None,
          c_is_current = None, c_updated_at = None\<rparr>
         (committees d)\<rparr>)"

text \<open>
  \<open>ensureCommitteeExists\<close>.  The values of the statement are computed before it is sent,
  inside the \<open>try\<close>: a call of \<open>inferChamber\<close> that does not return throws there, and the
  \<open>catch\<close> logs whatever is thrown and returns.
\<close>

definition ensureCommitteeExists :: "committee \<Rightarrow> ('z, unit) io" where
  "ensureCommitteeExists committee =
     (if \<not> truthy (cm_systemCode committee) then returnE ()
      else catchE
             (case inferChamber committee of
                None \<Rightarrow> throwE RangeError
              | Some chamber \<Rightarrow>
                  query (insertCommitteeStub (the (cm_systemCode committee))
                           (orElse (cm_name committee) ''Unknown Committee'') chamber))
             (\<lambda>e. returnE ()))"

text \<open>
  A store that holds the committee \<open>HSAG\<close> with the chamber \<open>House\<close>, and a payload for
  the same committee whose chamber is \<open>Unknown\<close>.
\<close>

definition storedHouse :: db where
  "storedHouse = emptyDb\<lparr>committees :=
     [\<lparr>c_system_code = ''HSAG'', c_name = ''Agriculture Committee'', c_chamber = ''House'',
       c_committee_type_code = None, c_parent_committee_system_code = None,
       c_is_current = None, c_updated_at = None\<rparr>]\<rparr>"

definition payloadUnknown :: committee where
  "payloadUnknown = \<lparr>cm_systemCode = Some ''HSAG'', cm_name = Some ''Agriculture Committee'',
     cm_chamber = Some ''Unknown'', cm_committeeTypeCode = None, cm_url = ''c/HSAG?format=json'',
     cm_parent = None, cm_activities = None\<rparr>"

section \<open>The bill script: payloads\<close>

text \<open>
  The answer to a \<open>fetch\<close> of a detail endpoint: the promise rejects (or the body is not
  JSON), the status is not ok, or the status is ok and the body is read.
\<close>

datatype 'a response = FetchRejects | StatusNotOk | StatusOk 'a

text \<open>
  The objects the bill script reads, each with the properties it reads.  An array that
  the script tests with \<open>Array.isArray\<close> (or for truthiness) is \<open>None\<close> when the test
  fails.  The lists \<open>bl_actions\<close>, \<open>bl_committees\<close>, \<open>bl_cosponsors\<close>, \<open>bl_relatedBills\<close>,
  \<open>bl_summaries\<close>, \<open>bl_subjects\<close>, \<open>bl_titles\<close> and \<open>bl_textVersions\<close> of a bill are the
  items that \<open>fetchPaginatedSubEndpoint\<close> returns for the URL of that sub-resource, and
  \<open>None\<close> when the bill has no such URL; \<open>rs_detail\<close> is the answer to the fetch of a
  report's URL.
\<close>

record sponsor =
  sp_bioguideId :: "string option"
  sp_isByRequest :: "string option"

record action =
  ac_actionDate :: "timestamp option"
  ac_text :: "string option"
  ac_type :: "string option"
  ac_actionCode :: "string option"
  ac_sourceSystemName :: "string option"
  ac_committees :: "committee list option"

record cosponsor =
  co_bioguideId :: "string option"
  co_sponsorshipDate :: "timestamp option"
  co_isOriginalCosponsor :: "bool option"
  co_sponsorshipWithdrawnDate :: "timestamp option"

record member_detail =
  md_bioguideId :: "string option"
  md_firstName :: "string option"
  md_lastName :: "string option"
  md_currentMember :: "bool option"
  md_updateDate :: "timestamp option"

record report_detail =
  rd_congress :: "int option"
  rd_chamber :: "string option"
  rd_type :: "string option"
  rd_number :: "int option"
  rd_part :: "int option"
  rd_citation :: "string option"
  rd_title :: "string option"
  rd_issueDate :: "timestamp option"
  rd_isConferenceReport :: "bool option"
  rd_updateDate :: "timestamp option"

record report_stub =
  rs_url :: "string option"
  rs_citation :: "string option"
  rs_detail :: "report_detail option response"

record relationship =
  rl_type :: "string option"
  rl_identifiedBy :: "string option"

record related_bill =
  rel_congress :: "int option"
  rel_type :: "string option"
  rel_number :: "int option"
  rel_title :: "string option"
  rel_relationshipDetails :: "relationship list option"

record summary =
  su_versionCode :: "string option"
  su_actionDesc :: "string option"
  su_actionDate :: "timestamp option"
  su_text :: "string option"
  su_updateDate :: "timestamp option"

record subject =
  sj_name :: "string option"

record bill_title =
  ti_titleType :: "string option"
  ti_title :: "string option"
  ti_chamberCode :: "string option"
  ti_chamberName :: "string option"

record text_format =
  tf_url :: "string option"
  tf_type :: "string option"

record text_version =
  tv_type :: "string option"
  tv_date :: "timestamp option"
  tv_formats :: "text_format list option"

record cbo_estimate =
  ce_url :: "string option"
  ce_title :: "string option"
  ce_description :: "string option"
  ce_pubDate :: "timestamp option"

record bill =
  bl_congress :: "int option"
  bl_type :: "string option"
  bl_number :: "int option"
  bl_originChamber :: "string option"
  bl_title :: "string option"
  bl_introducedDate :: "timestamp option"
  bl_policyAreaName :: "string option"
  bl_sponsors :: "sponsor list option"
  bl_constitutionalAuthorityStatementText :: "string option"
  bl_updateDate :: "timestamp option"
  bl_updateDateIncludingText :: "timestamp option"
  bl_actions :: "action list option"
  bl_committees :: "committee list option"
  bl_cosponsors :: "cosponsor list option"
  bl_committeeReports :: "report_stub list option"
  bl_relatedBills :: "related_bill list option"
  bl_summaries :: "summary list option"
  bl_subjects :: "subject list option list option"
  bl_titles :: "bill_title list option"
  bl_textVersions :: "text_version list option"
  bl_cboCostEstimates :: "cbo_estimate list option"

section \<open>The bill script: statements of \<open>saveBillBatchToDb\<close>\<close>

text \<open>\<open>SELECT bioguide_id FROM members WHERE bioguide_id = ANY($1::TEXT[])\<close>\<close>

definition selectMembers :: "string list \<Rightarrow> db \<Rightarrow> error + string list \<times> db" where
  "selectMembers ids d = Inr (filter (\<lambda>i. i \<in> set ids) (map m_bioguide_id (members d)), d)"

text \<open>
  \<open>INSERT INTO members (bioguide_id, first_name, last_name, is_current_member,
  updated_at) VALUES ($1, $2, $3, $4, $5) ON CONFLICT DO NOTHING\<close>
\<close>

definition insertMemberStub :: "member_detail \<Rightarrow> db \<Rightarrow> error + unit \<times> db" where
  "insertMemberStub member d =
     (case md_bioguideId member of
        None \<Rightarrow> Inl NotNullViolation
      | Some bioguideId \<Rightarrow>
          Inr ((), d\<lparr>members :=
            upsertBy (\<lambda>r. m_bioguide_id r = bioguideId) (\<lambda>r. r)
              \<lparr>m_bioguide_id = bioguideId, m_direct_order_name = None,
               m_inverted_order_name = None,
               m_first_name = Some (orElse (md_firstName member) ''Unknown''),
               m_middle_name = None,
               m_last_name = Some (orElse (md_lastName member) ''Unknown''),
               m_suffix_name = None, m_nickname = None, m_honorific_name = None,
               m_birth_year = None, m_death_year = None, m_official_url = None,
               m_depiction_image_url = None, m_depiction_attribution = None,
               m_is_current_member = md_currentMember member,
               m_updated_at = md_updateDate member\<rparr>
              (members d)\<rparr>))"

text \<open>
  \<open>bill.sponsors && bill.sponsors.length > 0 ? bill.sponsors[0].bioguideId : null\<close>, the
  value stored in \<open>sponsor_bioguide_id\<close>.
\<close>

definition billSponsorId :: "bill \<Rightarrow> string option" where
  "billSponsorId bill =
     (case bl_sponsors bill of Some (s # rest) \<Rightarrow> sp_bioguideId s | _ \<Rightarrow> None)"

definition billIsByRequest :: "bill \<Rightarrow> bool" where
  "billIsByRequest bill =
     (case bl_sponsors bill of Some (s # rest) \<Rightarrow> sp_isByRequest s = Some ''Y'' | _ \<Rightarrow> False)"

text \<open>
  The upsert of the bill itself: \<open>INSERT INTO bills (congress, type, number,
  origin_chamber, title, introduced_date, policy_area_name, sponsor_bioguide_id,
  is_by_request, constitutional_authority_statement_text, updated_at,
  updated_at_including_text, last_processed_at) VALUES ($1, ..., $12, NOW()) ON CONFLICT
  (congress, type, number) DO UPDATE SET\<close> every column but the three of the key to its
  \<open>EXCLUDED\<close> value, \<open>last_processed_at = NOW() RETURNING id\<close>.  \<open>NOW()\<close> is the time
  at which the transaction began.
\<close>

definition upsertBill :: "timestamp \<Rightarrow> bill \<Rightarrow> db \<Rightarrow> error + nat \<times> db" where
  "upsertBill now bill d =
     (case (bl_congress bill, bl_type bill, bl_number bill) of
        (Some congress, Some ty, Some number) \<Rightarrow>
          (if (case billSponsorId bill of None \<Rightarrow> False | Some s \<Rightarrow> \<not> memberStored d s)
           then Inl ForeignKeyViolation
           else
             let new = \<lparr>b_id = freshId (map b_id (bills d)), b_congress = congress,
                        b_type = ty, b_number = number,
                        b_origin_chamber = bl_originChamber bill,
                        b_title = Some (orElse (bl_title bill) ''Untitled Bill''),
                        b_introduced_date = bl_introducedDate bill,
                        b_policy_area_name = bl_policyAreaName bill,
                        b_sponsor_bioguide_id = billSponsorId bill,
                        b_is_by_request = Some (billIsByRequest bill),
                        b_constitutional_authority_statement_text =
                          bl_constitutionalAuthorityStatementText bill,
                        b_updated_at = bl_updateDate bill,
                        b_updated_at_including_text = bl_updateDateIncludingText bill,
                        b_last_processed_at = Some now\<rparr>;
                 same = (\<lambda>r. b_congress r = congress \<and> b_type r = ty \<and> b_number r = number)
             in Inr (case find same (bills d) of Some r \<Rightarrow> b_id r | None \<Rightarrow> b_id new,
                     d\<lparr>bills := upsertBy same (\<lambda>r. new\<lparr>b_id := b_id r\<rparr>) new (bills d)\<rparr>))
      | _ \<Rightarrow> Inl NotNullViolation)"

text \<open>
  \<open>INSERT INTO bill_actions (bill_id, action_date, text, type, action_code,
  source_system_name) VALUES ($1, ..., $6) ON CONFLICT (bill_id, action_date, text) DO
  UPDATE SET type = EXCLUDED.type RETURNING id\<close>
\<close>

definition insertAction :: "nat \<Rightarrow> action \<Rightarrow> db \<Rightarrow> error + nat \<times> db" where
  "insertAction billId action d =
     (case ac_actionDate action of
        None \<Rightarrow> Inl NotNullViolation
      | Some actionDate \<Rightarrow>
          let new = \<lparr>ba_id = freshId (map ba_id (bill_actions d)), ba_bill_id = billId,
                     ba_action_date = actionDate,
                     ba_text = orElse (ac_text action) ''No description'',
                     ba_type = ac_type action, ba_action_code = ac_actionCode action,
                     ba_source_system_name = ac_sourceSystemName action\<rparr>;
              same = (\<lambda>r. ba_bill_id r = billId \<and> ba_action_date r = actionDate
                            \<and> ba_text r = ba_text new)
          in Inr (case find same (bill_actions d) of Some r \<Rightarrow> ba_id r | None \<Rightarrow> ba_id new,
                  d\<lparr>bill_actions :=
                      upsertBy same (\<lambda>r. r\<lparr>ba_type := ac_type action\<rparr>) new (bill_actions d)\<rparr>))"

text \<open>
  \<open>INSERT INTO bill_action_committees (action_id, committee_system_code) VALUES ($1, $2)
  ON CONFLICT DO NOTHING\<close>
\<close>

definition insertActionCommittee :: "nat \<Rightarrow> string \<Rightarrow> db \<Rightarrow> error + unit \<times> db" where
  "insertActionCommittee actionId systemCode d =
     (if list_ex (\<lambda>r. bac_action_id r = actionId \<and> bac_committee_system_code r = systemCode)
           (bill_action_committees d)
      then Inr ((), d)
      else if \<not> committeeStored d systemCode then Inl ForeignKeyViolation
      else Inr ((), d\<lparr>bill_action_committees := bill_action_committees d @
             [\<lparr>bac_action_id = actionId, bac_committee_system_code = systemCode\<rparr>]\<rparr>))"

text \<open>
  \<open>INSERT INTO bill_committees (bill_id, committee_system_code, activity_name,
  activity_date) VALUES ($1, $2, $3, $4) ON CONFLICT(bill_id, committee_system_code,
  activity_name, activity_date) DO NOTHING\<close>
\<close>

definition insertBillCommittee :: "nat \<Rightarrow> string option \<Rightarrow> activity \<Rightarrow> db \<Rightarrow> error + unit \<times> db" where
  "insertBillCommittee billId systemCode activity d =
     (case (systemCode, av_name activity) of
        (Some code, Some name) \<Rightarrow>
          (if list_ex (\<lambda>r. bcm_bill_id r = billId \<and> bcm_committee_system_code r = code
                           \<and> bcm_activity_name r = name
                           \<and> sameKey (bcm_activity_date r) (av_date activity))
                (bill_committees d)
           then Inr ((), d)
           else if \<not> committeeStored d code then Inl ForeignKeyViolation
           else Inr ((), d\<lparr>bill_committees := bill_committees d @
                  [\<lparr>bcm_id = freshId (map bcm_id (bill_committees d)), bcm_bill_id = billId,
                    bcm_committee_system_code = code, bcm_activity_name = name,
                    bcm_activity_date = av_date activity\<rparr>]\<rparr>))
      | _ \<Rightarrow> Inl NotNullViolation)"

text \<open>
  \<open>INSERT INTO bill_cosponsors (bill_id, member_bioguide_id, sponsorship_date,
  is_original_cosponsor, sponsorship_withdrawn_date) VALUES ($1, ..., $5) ON CONFLICT DO
  NOTHING\<close>.  The conflict clause covers the primary key, not the foreign key on the
  member.
\<close>

definition insertCosponsor :: "nat \<Rightarrow> string \<Rightarrow> cosponsor \<Rightarrow> db \<Rightarrow> error + unit \<times> db" where
  "insertCosponsor billId bioguideId cosponsor d =
     (case (co_sponsorshipDate cosponsor, co_isOriginalCosponsor cosponsor) of
        (Some sponsorshipDate, Some isOriginal) \<Rightarrow>
          (if list_ex (\<lambda>r. bc_bill_id r = billId \<and> bc_member_bioguide_id r = bioguideId)
                (bill_cosponsors d)
           then Inr ((), d)
           else if \<not> memberStored d bioguideId then Inl ForeignKeyViolation
           else Inr ((), d\<lparr>bill_cosponsors := bill_cosponsors d @
                  [\<lparr>bc_bill_id = billId, bc_member_bioguide_id = bioguideId,
                    bc_sponsorship_date = sponsorshipDate,
                    bc_is_original_cosponsor = isOriginal,
                    bc_sponsorship_withdrawn_date = co_sponsorshipWithdrawnDate cosponsor\<rparr>]\<rparr>))
      | _ \<Rightarrow> Inl NotNullViolation)"

text \<open>
  \<open>INSERT INTO committee_reports (congress, chamber, type, number, part, citation, title,
  issue_date, is_conference_report, updated_at) VALUES ($1, ..., $10) ON CONFLICT
  (citation) DO UPDATE SET\<close> every column but \<open>citation\<close> to its \<open>EXCLUDED\<close> value
  \<open>RETURNING id\<close>.  The table has a second constraint, \<open>UNIQUE (congress, type, number,
  part)\<close>, that the conflict clause does not cover.
\<close>

definition upsertCommitteeReport :: "report_detail \<Rightarrow> db \<Rightarrow> error + nat \<times> db" where
  "upsertCommitteeReport report d =
     (case (rd_congress report, rd_type report, rd_number report) of
        (Some congress, Some ty, Some number) \<Rightarrow>
          let new = \<lparr>cr_id = freshId (map cr_id (committee_reports d)), cr_congress = congress,
                     cr_chamber = orElse (rd_chamber report) ''Unknown'', cr_type = ty,
                     cr_number = number, cr_part = rd_part report,
                     cr_citation = rd_citation report,
                     cr_title = Some (orElse (rd_title report) ''Untitled Report''),
                     cr_issue_date = rd_issueDate report,
                     cr_is_conference_report = rd_isConferenceReport report,
                     cr_updated_at = rd_updateDate report\<rparr>;
              same = (\<lambda>r. sameKey (cr_citation r) (rd_citation report))
          in if list_ex (\<lambda>r. \<not> same r \<and> cr_congress r = congress \<and> cr_type r = ty
                              \<and> cr_number r = number \<and> sameKey (cr_part r) (rd_part report))
                  (committee_reports d)
             then Inl UniqueViolation
             else Inr (case find same (committee_reports d) of
                         Some r \<Rightarrow> cr_id r | None \<Rightarrow> cr_id new,
                       d\<lparr>committee_reports :=
                           upsertBy same (\<lambda>r. new\<lparr>cr_id := cr_id r\<rparr>) new (committee_reports d)\<rparr>)
      | _ \<Rightarrow> Inl NotNullViolation)"

text \<open>
  \<open>INSERT INTO report_associated_bills (bill_id, report_id) VALUES ($1, $2) ON CONFLICT
  DO NOTHING\<close>
\<close>

definition insertReportAssociatedBill :: "nat \<Rightarrow> nat \<Rightarrow> db \<Rightarrow> error + unit \<times> db" where
  "insertReportAssociatedBill billId reportId d =
     Inr ((), d\<lparr>report_associated_bills :=
       upsertBy (\<lambda>r. rab_report_id r = reportId \<and> rab_bill_id r = billId) (\<lambda>r. r)
         \<lparr>rab_report_id = reportId, rab_bill_id = billId\<rparr> (report_associated_bills d)\<rparr>)"

text \<open>
  The stub of a related bill: \<open>INSERT INTO bills (congress, type, number, title) VALUES
  ($1, $2, $3, $4) ON CONFLICT (congress, type, number) DO UPDATE SET title =
  EXCLUDED.title RETURNING id\<close>
\<close>

definition upsertRelatedBillStub :: "related_bill \<Rightarrow> db \<Rightarrow> error + nat \<times> db" where
  "upsertRelatedBillStub relatedBill d =
     (case (rel_congress relatedBill, rel_type relatedBill, rel_number relatedBill) of
        (Some congress, Some ty, Some number) \<Rightarrow>
          let title = Some (orElse (rel_title relatedBill) ''Untitled Bill'');
              new = \<lparr>b_id = freshId (map b_id (bills d)), b_congress = congress,
                     b_type = ty, b_number = number, b_origin_chamber = None,
                     b_title = title, b_introduced_date = None, b_policy_area_name = None,
                     b_sponsor_bioguide_id = None, b_is_by_request = None,
                     b_constitutional_authority_statement_text = None, b_updated_at = None,
                     b_updated_at_including_text = None, b_last_processed_at = None\<rparr>;
              same = (\<lambda>r. b_congress r = congress \<and> b_type r = ty \<and> b_number r = number)
          in Inr (case find same (bills d) of Some r \<Rightarrow> b_id r | None \<Rightarrow> b_id new,
                  d\<lparr>bills := upsertBy same (\<lambda>r. r\<lparr>b_title := title\<rparr>) new (bills d)\<rparr>)
      | _ \<Rightarrow> Inl NotNullViolation)"

text \<open>
  \<open>INSERT INTO related_bills (bill_id, related_bill_id, relationship_type, identified_by)
  VALUES ($1, $2, $3, $4) ON CONFLICT DO NOTHING\<close>
\<close>

definition insertRelatedBill :: "nat \<Rightarrow> nat \<Rightarrow> relationship \<Rightarrow> db \<Rightarrow> error + unit \<times> db" where
  "insertRelatedBill billId relatedBillId relationship d =
     (case (rl_type relationship, rl_identifiedBy relationship) of
        (Some ty, Some identifiedBy) \<Rightarrow>
          Inr ((), d\<lparr>related_bills :=
            upsertBy (\<lambda>r. rb_bill_id r = billId \<and> rb_related_bill_id r = relatedBillId
                          \<and> rb_identified_by r = identifiedBy) (\<lambda>r. r)
              \<lparr>rb_bill_id = billId, rb_related_bill_id = relatedBillId,
               rb_relationship_type = ty, rb_identified_by = identifiedBy\<rparr>
              (related_bills d)\<rparr>)
      | _ \<Rightarrow> Inl NotNullViolation)"
text \<open>
  \<open>INSERT INTO bill_summaries (bill_id, version_code, action_description, action_date,
  text, updated_at) VALUES ($1, ..., $6) ON CONFLICT (bill_id, version_code, action_date)
  DO NOTHING\<close>
\<close>

definition insertSummary :: "nat \<Rightarrow> summary \<Rightarrow> db \<Rightarrow> error + unit \<times> db" where
  "insertSummary billId summary d =
     Inr ((), d\<lparr>bill_summaries :=
       upsertBy (\<lambda>r. bs_bill_id r = billId \<and> sameKey (bs_version_code r) (su_versionCode summary)
                     \<and> sameKey (bs_action_date r) (su_actionDate summary)) (\<lambda>r. r)
         \<lparr>bs_id = freshId (map bs_id (bill_summaries d)), bs_bill_id = billId,
          bs_version_code = su_versionCode summary, bs_action_description = su_actionDesc summary,
          bs_action_date = su_actionDate summary, bs_text = su_text summary,
          bs_updated_at = su_updateDate summary\<rparr>
         (bill_summaries d)\<rparr>)"

text \<open>
  \<open>INSERT INTO bill_subjects (bill_id, name) VALUES ($1, $2) ON CONFLICT (bill_id, name)
  DO NOTHING\<close>
\<close>

definition insertSubject :: "nat \<Rightarrow> subject \<Rightarrow> db \<Rightarrow> error + unit \<times> db" where
  "insertSubject billId subject d =
     (case sj_name subject of
        None \<Rightarrow> Inl NotNullViolation
      | Some name \<Rightarrow>
          Inr ((), d\<lparr>bill_subjects :=
            upsertBy (\<lambda>r. bsu_bill_id r = billId \<and> bsu_name r = name) (\<lambda>r. r)
              \<lparr>bsu_id = freshId (map bsu_id (bill_subjects d)), bsu_bill_id = billId,
               bsu_name = name\<rparr>
              (bill_subjects d)\<rparr>))"

text \<open>
  \<open>INSERT INTO bill_titles (bill_id, title_type, title, chamber_code, chamber_name)
  VALUES ($1, ..., $5) ON CONFLICT (bill_id, title_type, title) DO NOTHING\<close>
\<close>

definition insertTitle :: "nat \<Rightarrow> bill_title \<Rightarrow> db \<Rightarrow> error + unit \<times> db" where
  "insertTitle billId title d =
     Inr ((), d\<lparr>bill_titles :=
       upsertBy (\<lambda>r. bt_bill_id r = billId \<and> sameKey (bt_title_type r) (ti_titleType title)
                     \<and> sameKey (bt_title r) (ti_title title)) (\<lambda>r. r)
         \<lparr>bt_id = freshId (map bt_id (bill_titles d)), bt_bill_id = billId,
          bt_title_type = ti_titleType title, bt_title = ti_title title,
          bt_chamber_code = ti_chamberCode title, bt_chamber_name = ti_chamberName title\<rparr>
         (bill_titles d)\<rparr>)"

text \<open>
  \<open>INSERT INTO bill_text_versions (bill_id, type, date, url, format) VALUES ($1, ..., $5)
  ON CONFLICT (bill_id, type, format) DO NOTHING\<close>
\<close>

definition insertTextVersion :: "nat \<Rightarrow> text_version \<Rightarrow> text_format \<Rightarrow> db \<Rightarrow> error + unit \<times> db" where
  "insertTextVersion billId text format d =
     (case tv_type text of
        None \<Rightarrow> Inl NotNullViolation
      | Some ty \<Rightarrow>
          Inr ((), d\<lparr>bill_text_versions :=
            upsertBy (\<lambda>r. btv_bill_id r = billId \<and> btv_type r = ty
                          \<and> sameKey (btv_format r) (tf_type format)) (\<lambda>r. r)
              \<lparr>btv_id = freshId (map btv_id (bill_text_versions d)), btv_bill_id = billId,
               btv_type = ty, btv_date = tv_date text, btv_url = tf_url format,
               btv_format = tf_type format\<rparr>
              (bill_text_versions d)\<rparr>))"

text \<open>
  \<open>INSERT INTO cbo_cost_estimates (bill_id, url, title, description, publication_date)
  VALUES ($1, ..., $5) ON CONFLICT(url) DO UPDATE SET title=EXCLUDED.title\<close>
\<close>

definition insertCboCostEstimate :: "nat \<Rightarrow> cbo_estimate \<Rightarrow> db \<Rightarrow> error + unit \<times> db" where
  "insertCboCostEstimate billId cbo d =
     Inr ((), d\<lparr>cbo_cost_estimates :=
       upsertBy (\<lambda>r. sameKey (cbo_url r) (ce_url cbo)) (\<lambda>r. r\<lparr>cbo_title := ce_title cbo\<rparr>)
         \<lparr>cbo_id = freshId (map cbo_id (cbo_cost_estimates d)), cbo_bill_id = billId,
          cbo_url = ce_url cbo, cbo_title = ce_title cbo, cbo_description = ce_description cbo,
          cbo_publication_date = ce_pubDate cbo\<rparr>
         (cbo_cost_estimates d)\<rparr>)"

section \<open>The bill script: \<open>saveBillBatchToDb\<close>\<close>

text \<open>
  The members a batch or a bill refers to and the store lacks are fetched one by one
  from the member endpoint and inserted as stubs.  A fetch whose status is not ok, or
  whose body has no \<open>member\<close>, inserts nothing and raises nothing.  (The script has the
  same lines twice, once for the sponsors of the batch and once for the cosponsors of a
  bill.)
\<close>

definition insertMissingMembers ::
  "(string \<Rightarrow> member_detail option response) \<Rightarrow> string list \<Rightarrow> ('z, unit) io" where
  "insertMissingMembers fetchMember ids =
     whenE (ids \<noteq> [])
       (bindE (query (selectMembers ids)) (\<lambda>existingIds.
          foreachE (filter (\<lambda>i. i \<notin> set existingIds) ids) (\<lambda>missingId.
            case fetchMember missingId of
              FetchRejects \<Rightarrow> throwE FetchFailed
            | StatusNotOk \<Rightarrow> returnE ()
            | StatusOk None \<Rightarrow> returnE ()
            | StatusOk (Some member) \<Rightarrow> query (insertMemberStub member))))"

text \<open>
  \<open>[...new Set(billDataBatch.map(b => b.sponsors?.[0]?.bioguideId).filter(id => id))]\<close>:
  the truthy sponsor identifiers of the batch, each once, in the order of their first
  occurrence.
\<close>

definition sponsorIds :: "bill list \<Rightarrow> string list" where
  "sponsorIds billDataBatch =
     rev (remdups (rev (map the (filter truthy (map billSponsorId billDataBatch)))))"

definition saveActions :: "nat \<Rightarrow> bill \<Rightarrow> ('z, unit) io" where
  "saveActions billId bill =
     (case bl_actions bill of
        None \<Rightarrow> returnE ()
      | Some actions \<Rightarrow>
          foreachE actions (\<lambda>action.
            bindE (query (insertAction billId action)) (\<lambda>actionId.
              case ac_committees action of
                None \<Rightarrow> returnE ()
              | Some actionCommittees \<Rightarrow>
                  foreachE actionCommittees (\<lambda>committee.
                    bindE (ensureCommitteeExists committee) (\<lambda>u.
                      whenE (truthy (cm_systemCode committee))
                        (query (insertActionCommittee actionId
                                  (the (cm_systemCode committee)))))))))"

definition saveBillCommittees :: "nat \<Rightarrow> bill \<Rightarrow> ('z, unit) io" where
  "saveBillCommittees billId bill =
     (case bl_committees bill of
        None \<Rightarrow> returnE ()
      | Some billCommittees \<Rightarrow>
          foreachE billCommittees (\<lambda>committee.
            bindE (ensureCommitteeExists committee) (\<lambda>u.
              case cm_activities committee of
                None \<Rightarrow> returnE ()
              | Some activities \<Rightarrow>
                  foreachE activities (\<lambda>activity.
                    query (insertBillCommittee billId (cm_systemCode committee) activity)))))"

definition saveCosponsors ::
  "(string \<Rightarrow> member_detail option response) \<Rightarrow> nat \<Rightarrow> bill \<Rightarrow> ('z, unit) io" where
  "saveCosponsors fetchMember billId bill =
     (case bl_cosponsors bill of
        None \<Rightarrow> returnE ()
      | Some cosponsors \<Rightarrow>
          bindE (insertMissingMembers fetchMember
                   (map the (filter truthy (map co_bioguideId cosponsors)))) (\<lambda>u.
            foreachE cosponsors (\<lambda>cosponsor.
              whenE (truthy (co_bioguideId cosponsor))
                (query (insertCosponsor billId (the (co_bioguideId cosponsor)) cosponsor)))))"

definition saveCommitteeReports :: "nat \<Rightarrow> bill \<Rightarrow> ('z, unit) io" where
  "saveCommitteeReports billId bill =
     (case bl_committeeReports bill of
        None \<Rightarrow> returnE ()
      | Some reportStubs \<Rightarrow>
          foreachE reportStubs (\<lambda>reportStub.
            if \<not> truthy (rs_url reportStub) then returnE ()
            else case rs_detail reportStub of
                   FetchRejects \<Rightarrow> throwE FetchFailed
                 | StatusNotOk \<Rightarrow> returnE ()
                 | StatusOk None \<Rightarrow> returnE ()
                 | StatusOk (Some committeeReport) \<Rightarrow>
                     bindE (query (upsertCommitteeReport committeeReport)) (\<lambda>reportId.
                       query (insertReportAssociatedBill billId reportId))))"

definition saveRelatedBills :: "nat \<Rightarrow> bill \<Rightarrow> ('z, unit) io" where
  "saveRelatedBills billId bill =
     (case bl_relatedBills bill of
        None \<Rightarrow> returnE ()
      | Some relatedBills \<Rightarrow>
          foreachE relatedBills (\<lambda>relatedBill.
            bindE (query (upsertRelatedBillStub relatedBill)) (\<lambda>relatedBillId.
              case rel_relationshipDetails relatedBill of
                None \<Rightarrow> returnE ()
              | Some relationships \<Rightarrow>
                  foreachE relationships (\<lambda>relationship.
                    query (insertRelatedBill billId relatedBillId relationship)))))"

definition saveSummaries :: "nat \<Rightarrow> bill \<Rightarrow> ('z, unit) io" where
  "saveSummaries billId bill =
     (case bl_summaries bill of
        None \<Rightarrow> returnE ()
      | Some summaries \<Rightarrow> foreachE summaries (\<lambda>summary. query (insertSummary billId summary)))"

text \<open>
  \<open>if (subjectsData.length > 0 && subjectsData[0].legislativeSubjects)\<close>: only the first
  item is read.
\<close>

definition saveSubjects :: "nat \<Rightarrow> bill \<Rightarrow> ('z, unit) io" where
  "saveSubjects billId bill =
     (case bl_subjects bill of
        Some (Some legislativeSubjects # rest) \<Rightarrow>
          foreachE legislativeSubjects (\<lambda>subject. query (insertSubject billId subject))
      | _ \<Rightarrow> returnE ())"

definition saveTitles :: "nat \<Rightarrow> bill \<Rightarrow> ('z, unit) io" where
  "saveTitles billId bill =
     (case bl_titles bill of
        None \<Rightarrow> returnE ()
      | Some titles \<Rightarrow> foreachE titles (\<lambda>title. query (insertTitle billId title)))"

definition saveTextVersions :: "nat \<Rightarrow> bill \<Rightarrow> ('z, unit) io" where
  "saveTextVersions billId bill =
     (case bl_textVersions bill of
        None \<Rightarrow> returnE ()
      | Some texts \<Rightarrow>
          foreachE texts (\<lambda>text.
            case tv_formats text of
              None \<Rightarrow> returnE ()
            | Some formats \<Rightarrow>
                foreachE formats (\<lambda>format. query (insertTextVersion billId text format))))"

definition saveCboCostEstimates :: "nat \<Rightarrow> bill \<Rightarrow> ('z, unit) io" where
  "saveCboCostEstimates billId bill =
     (case bl_cboCostEstimates bill of
        None \<Rightarrow> returnE ()
      | Some estimates \<Rightarrow> foreachE estimates (\<lambda>cbo. query (insertCboCostEstimate billId cbo)))"

text \<open>What follows the upsert of a bill in the loop over the batch, in the script's order.\<close>

definition saveSubResources ::
  "(string \<Rightarrow> member_detail option response) \<Rightarrow> nat \<Rightarrow> bill \<Rightarrow> ('z, unit) io" where
  "saveSubResources fetchMember billId bill =
     bindE (saveActions billId bill) (\<lambda>u.
     bindE (saveBillCommittees billId bill) (\<lambda>u.
     bindE (saveCosponsors fetchMember billId bill) (\<lambda>u.
     bindE (saveCommitteeReports billId bill) (\<lambda>u.
     bindE (saveRelatedBills billId bill) (\<lambda>u.
     bindE (saveSummaries billId bill) (\<lambda>u.
     bindE (saveSubjects billId bill) (\<lambda>u.
     bindE (saveTitles billId bill) (\<lambda>u.
     bindE (saveTextVersions billId bill) (\<lambda>u.
     saveCboCostEstimates billId bill)))))))))"

definition saveBill ::
  "timestamp \<Rightarrow> (string \<Rightarrow> member_detail option response) \<Rightarrow> bill \<Rightarrow> ('z, unit) io" where
  "saveBill now fetchMember bill =
     bindE (query (upsertBill now bill)) (\<lambda>billId. saveSubResources fetchMember billId bill)"

text \<open>The statements between \<open>BEGIN\<close> and \<open>COMMIT\<close>.\<close>

definition saveBatch ::
  "timestamp \<Rightarrow> (string \<Rightarrow> member_detail option response) \<Rightarrow> bill list \<Rightarrow> ('z, unit) io" where
  "saveBatch now fetchMember billDataBatch =
     bindE (insertMissingMembers fetchMember (sponsorIds billDataBatch)) (\<lambda>u.
       foreachE billDataBatch (saveBill now fetchMember))"

text \<open>
  \<open>saveBillBatchToDb\<close>, given the time \<open>now\<close> at which the transaction begins, the member
  endpoint, the statements that fail for outside reasons, the batch and the stored rows:
  the stored rows afterwards, and the log line printed (none for an empty batch).
\<close>

definition saveBillBatchToDb ::
  "timestamp \<Rightarrow> (string \<Rightarrow> member_detail option response) \<Rightarrow> bool list \<Rightarrow> bill list \<Rightarrow> db
     \<Rightarrow> db \<times> outcome option" where
  "saveBillBatchToDb now fetchMember faults billDataBatch stored =
     (if billDataBatch = [] then (stored, None)
      else case saveBatch now fetchMember billDataBatch (beginTx stored faults) of
             (Inr u, t) \<Rightarrow> (commit stored t, Some Committed)
           | (Inl e, t) \<Rightarrow> (rollback stored t, Some RolledBack))"

section \<open>Watermarks\<close>

text \<open>
  The stored watermark of a bill identifier (congress, type, number): the
  \<open>last_processed_at\<close> of its row, and none when there is no row or the column is
  \<open>NULL\<close>.
\<close>

definition watermarkOf :: "db \<Rightarrow> int \<times> string \<times> int \<Rightarrow> timestamp option" where
  "watermarkOf d k =
     (case find (\<lambda>r. (b_congress r, b_type r, b_number r) = k) (bills d) of
        None \<Rightarrow> None
      | Some r \<Rightarrow> b_last_processed_at r)"

text \<open>Whether a batch holds a bill with a given identifier.\<close>

definition inBatch :: "bill list \<Rightarrow> int \<times> string \<times> int \<Rightarrow> bool" where
  "inBatch billDataBatch k =
     list_ex (\<lambda>b. bl_congress b = Some (fst k) \<and> bl_type b = Some (fst (snd k))
                  \<and> bl_number b = Some (snd (snd k))) billDataBatch"

text \<open>
  The committee script stores a stub for every bill a report is associated with
  (\<open>processCommitteeReports\<close>): \<open>INSERT INTO bills (congress, type, number) VALUES ($1,
  $2, $3) ON CONFLICT (congress, type, number) DO UPDATE SET congress = EXCLUDED.congress
  RETURNING id\<close>
\<close>

record associated_bill =
  as_congress :: "int option"
  as_type :: "string option"
  as_number :: "int option"

definition upsertAssociatedBillStub :: "associated_bill \<Rightarrow> db \<Rightarrow> error + nat \<times> db" where
  "upsertAssociatedBillStub associatedBill d =
     (case (as_congress associatedBill, as_type associatedBill, as_number associatedBill) of
        (Some congress, Some ty, Some number) \<Rightarrow>
          let new = \<lparr>b_id = freshId (map b_id (bills d)), b_congress = congress,
                     b_type = ty, b_number = number, b_origin_chamber = None,
                     b_title = None, b_introduced_date = None, b_policy_area_name = None,
                     b_sponsor_bioguide_id = None, b_is_by_request = None,
                     b_constitutional_authority_statement_text = None, b_updated_at = None,
                     b_updated_at_including_text = None, b_last_processed_at = None\<rparr>;
              same = (\<lambda>r. b_congress r = congress \<and> b_type r = ty \<and> b_number r = number)
          in Inr (case find same (bills d) of Some r \<Rightarrow> b_id r | None \<Rightarrow> b_id new,
                  d\<lparr>bills := upsertBy same (\<lambda>r. r\<lparr>b_congress := congress\<rparr>) new (bills d)\<rparr>)
      | _ \<Rightarrow> Inl NotNullViolation)"

text \<open>\<open>keeps I m\<close>: the computation \<open>m\<close> keeps \<open>I\<close>, however it ends.\<close>

definition keeps :: "('z tx_scheme \<Rightarrow> bool) \<Rightarrow> ('z, 'a) io \<Rightarrow> bool" where
  "keeps I m = ioValid I m (\<lambda>x. I) I"

text \<open>
  A property of a transaction that reads only its failure flag and the watermarks of its
  rows.
\<close>

definition observe ::
  "(bool \<Rightarrow> (int \<times> string \<times> int \<Rightarrow> timestamp option) \<Rightarrow> bool) \<Rightarrow> 'z tx_scheme \<Rightarrow> bool" where
  "observe Q t = Q (tx_failed t) (watermarkOf (tx_db t))"

text \<open>
  \<open>qstable I\<close>: the property \<open>I\<close> of a transaction survives every statement that leaves
  the watermarks as they are, whether the statement passes, fails or is refused.
  \<open>fstable I\<close>: it survives every statement.
\<close>

definition qstable :: "('z tx_scheme \<Rightarrow> bool) \<Rightarrow> bool" where
  "qstable I =
     (\<forall>t. I t \<longrightarrow>
        (if tx_failed t then I (refused t)
         else I (failing t)
              \<and> (\<forall>d. (tx_faults t = [] \<or> \<not> hd (tx_faults t))
                       \<and> watermarkOf d = watermarkOf (tx_db t) \<longrightarrow> I (passing d t))))"

definition fstable :: "('z tx_scheme \<Rightarrow> bool) \<Rightarrow> bool" where
  "fstable I =
     (\<forall>t. I t \<longrightarrow>
        (if tx_failed t then I (refused t)
         else I (failing t)
              \<and> (\<forall>d. tx_faults t = [] \<or> \<not> hd (tx_faults t) \<longrightarrow> I (passing d t))))"

text \<open>
  Some statement of the transaction of a batch failed, for whatever reason; and: the
  transaction of a batch was committed (it ran to its \<open>COMMIT\<close> and no statement had
  failed).
\<close>

definition batchWriteFailed ::
  "timestamp \<Rightarrow> (string \<Rightarrow> member_detail option response) \<Rightarrow> bool list \<Rightarrow> bill list \<Rightarrow> db
     \<Rightarrow> bool" where
  "batchWriteFailed now fetchMember faults billDataBatch stored =
     (True \<in> set (tx_log (snd (saveBatch now fetchMember billDataBatch (beginTx stored faults)))))"

definition batchThrew ::
  "timestamp \<Rightarrow> (string \<Rightarrow> member_detail option response) \<Rightarrow> bool list \<Rightarrow> bill list \<Rightarrow> db
     \<Rightarrow> bool" where
  "batchThrew now fetchMember faults billDataBatch stored =
     isl (fst (saveBatch now fetchMember billDataBatch (beginTx stored faults)))"

definition batchCommitted ::
  "timestamp \<Rightarrow> (string \<Rightarrow> member_detail option response) \<Rightarrow> bool list \<Rightarrow> bill list \<Rightarrow> db
     \<Rightarrow> bool" where
  "batchCommitted now fetchMember faults billDataBatch stored =
     (case saveBatch now fetchMember billDataBatch (beginTx stored faults) of
        (Inr u, t) \<Rightarrow> \<not> tx_failed t
      | (Inl e, t) \<Rightarrow> False)"
text \<open>
  Inputs to run the batch writer on: a bill with nothing but its identifier, and a
  member endpoint that knows no member.
\<close>

definition plainBill :: "int option \<Rightarrow> string \<Rightarrow> int \<Rightarrow> bill" where
  "plainBill congress ty number =
     \<lparr>bl_congress = congress, bl_type = Some ty, bl_number = Some number,
      bl_originChamber = None, bl_title = None, bl_introducedDate = None,
      bl_policyAreaName = None, bl_sponsors = None,
      bl_constitutionalAuthorityStatementText = None, bl_updateDate = None,
      bl_updateDateIncludingText = None, bl_actions = None, bl_committees = None,
      bl_cosponsors = None, bl_committeeReports = None, bl_relatedBills = None,
      bl_summaries = None, bl_subjects = None, bl_titles = None, bl_textVersions = None,
      bl_cboCostEstimates = None\<rparr>"

definition noMember :: "string \<Rightarrow> member_detail option response" where
  "noMember bioguideId = StatusNotOk"

text \<open>A committee of a bill, without activities, as the committees sub-resource lists it.\<close>

definition houseCommittee :: committee where
  "houseCommittee = \<lparr>cm_systemCode = Some ''hsag00'', cm_name = Some ''Agriculture'',
     cm_chamber = Some ''House'', cm_committeeTypeCode = None, cm_url = [], cm_parent = None,
     cm_activities = None\<rparr>"

text \<open>
  A store with one bill, \<open>S 5\<close> of the 119th congress, processed at the time \<open>500\<close>, and
  a bill \<open>HR 1\<close> to save that lists \<open>S 5\<close> among its related bills.
\<close>

definition storedS5 :: db where
  "storedS5 = emptyDb\<lparr>bills := [stubBillRow 1 119 ''S'' 5 (Some 500)]\<rparr>"

definition billWithRelated :: bill where
  "billWithRelated = (plainBill (Some 119) ''HR'' 1)\<lparr>bl_relatedBills :=
     Some [\<lparr>rel_congress = Some 119, rel_type = Some ''S'', rel_number = Some 5,
            rel_title = Some ''A related bill'', rel_relationshipDetails = None\<rparr>]\<rparr>"

text \<open>
  A bill sponsored by the member \<open>S000001\<close>, a bill cosponsored by the member
  \<open>C000001\<close>, and a member endpoint that knows both.
\<close>

definition billWithSponsor :: bill where
  "billWithSponsor = (plainBill (Some 119) ''HR'' 2)\<lparr>bl_sponsors :=
     Some [\<lparr>sp_bioguideId = Some ''S000001'', sp_isByRequest = Some ''N''\<rparr>]\<rparr>"

definition billWithCosponsor :: bill where
  "billWithCosponsor = (plainBill (Some 119) ''HR'' 3)\<lparr>bl_cosponsors :=
     Some [\<lparr>co_bioguideId = Some ''C000001'', co_sponsorshipDate = Some 100,
            co_isOriginalCosponsor = Some True, co_sponsorshipWithdrawnDate = None\<rparr>]\<rparr>"

definition knownMember :: "string \<Rightarrow> member_detail option response" where
  "knownMember bioguideId =
     StatusOk (Some \<lparr>md_bioguideId = Some bioguideId, md_firstName = None,
                     md_lastName = Some ''Doe'', md_currentMember = Some True,
                     md_updateDate = None\<rparr>)"

section \<open>The member script: \<open>processMemberBatch\<close>\<close>

text \<open>The \<open>member\<close> object of the member detail endpoint, with the properties the script reads.\<close>

record address_information =
  ai_officeAddress :: "string option"
  ai_city :: "string option"
  ai_district :: "string option"
  ai_zipCode :: "string option"
  ai_phoneNumber :: "string option"

record party =
  pa_partyName :: "string option"
  pa_partyAbbreviation :: "string option"
  pa_startYear :: "int option"

record member_term =
  te_congress :: "int option"
  te_chamber :: "string option"
  te_memberType :: "string option"
  te_stateCode :: "string option"
  te_stateName :: "string option"
  te_district :: "int option"
  te_startYear :: "int option"
  te_endYear :: "int option"

record leadership_role =
  lr_congress :: "int option"
  lr_type :: "string option"
  lr_current :: "bool option"

record member =
  mb_bioguideId :: "string option"
  mb_directOrderName :: "string option"
  mb_invertedOrderName :: "string option"
  mb_firstName :: "string option"
  mb_middleName :: "string option"
  mb_lastName :: "string option"
  mb_suffixName :: "string option"
  mb_nickName :: "string option"
  mb_honorificName :: "string option"
  mb_birthYear :: "int option"
  mb_deathYear :: "int option"
  mb_officialWebsiteUrl :: "string option"
  mb_depictionImageUrl :: "string option"
  mb_depictionAttribution :: "string option"
  mb_currentMember :: "bool option"
  mb_updateDate :: "timestamp option"
  mb_addressInformation :: "address_information option"
  mb_partyHistory :: "party list option"
  mb_terms :: "member_term list option"
  mb_leadership :: "leadership_role list option"

text \<open>
  \<open>INSERT INTO members (bioguide_id, direct_order_name, ..., updated_at) VALUES ($1, ...,
  $16) ON CONFLICT (bioguide_id) DO UPDATE SET\<close> every other column to its \<open>EXCLUDED\<close>
  value.
\<close>

definition upsertMember :: "member \<Rightarrow> db \<Rightarrow> error + unit \<times> db" where
  "upsertMember member d =
     (case mb_bioguideId member of
        None \<Rightarrow> Inl NotNullViolation
      | Some bioguideId \<Rightarrow>
          let new = \<lparr>m_bioguide_id = bioguideId,
                     m_direct_order_name = mb_directOrderName member,
                     m_inverted_order_name = mb_invertedOrderName member,
                     m_first_name = mb_firstName member, m_middle_name = mb_middleName member,
                     m_last_name = mb_lastName member, m_suffix_name = mb_suffixName member,
                     m_nickname = mb_nickName member,
                     m_honorific_name = mb_honorificName member,
                     m_birth_year = mb_birthYear member, m_death_year = mb_deathYear member,
                     m_official_url = mb_officialWebsiteUrl member,
                     m_depiction_image_url = mb_depictionImageUrl member,
                     m_depiction_attribution = mb_depictionAttribution member,
                     m_is_current_member = mb_currentMember member,
                     m_updated_at = mb_updateDate member\<rparr>
          in Inr ((), d\<lparr>members :=
                 upsertBy (\<lambda>r. m_bioguide_id r = bioguideId) (\<lambda>r. new) new (members d)\<rparr>))"

text \<open>
  \<open>INSERT INTO member_addresses (member_bioguide_id, office_address, city, district,
  zip_code, phone_number) VALUES ($1, ..., $6) ON CONFLICT (member_bioguide_id) DO UPDATE
  SET\<close> the five other columns to their \<open>EXCLUDED\<close> values.
\<close>

definition upsertMemberAddress ::
  "string option \<Rightarrow> address_information \<Rightarrow> db \<Rightarrow> error + unit \<times> db" where
  "upsertMemberAddress bioguideId addr d =
     (case bioguideId of
        None \<Rightarrow> Inl NotNullViolation
      | Some memberId \<Rightarrow>
          if \<not> memberStored d memberId then Inl ForeignKeyViolation
          else Inr ((), d\<lparr>member_addresses :=
                 upsertBy (\<lambda>r. ma_member_bioguide_id r = memberId)
                   (\<lambda>r. r\<lparr>ma_office_address := ai_officeAddress addr, ma_city := ai_city addr,
                          ma_district := ai_district addr, ma_zip_code := ai_zipCode addr,
                          ma_phone_number := ai_phoneNumber addr\<rparr>)
                   \<lparr>ma_id = freshId (map ma_id (member_addresses d)),
                    ma_member_bioguide_id = memberId,
                    ma_office_address = ai_officeAddress addr, ma_city = ai_city addr,
                    ma_district = ai_district addr, ma_zip_code = ai_zipCode addr,
                    ma_phone_number = ai_phoneNumber addr\<rparr>
                   (member_addresses d)\<rparr>))"

text \<open>
  \<open>INSERT INTO member_party_history (member_bioguide_id, party_name, party_abbreviation,
  start_year) VALUES ($1, $2, $3, $4) ON CONFLICT (member_bioguide_id, party_name,
  start_year) DO NOTHING\<close>
\<close>

definition insertPartyHistory :: "string option \<Rightarrow> party \<Rightarrow> db \<Rightarrow> error + unit \<times> db" where
  "insertPartyHistory bioguideId party d =
     (case (bioguideId, pa_partyName party, pa_startYear party) of
        (Some memberId, Some partyName, Some startYear) \<Rightarrow>
          if \<not> memberStored d memberId then Inl ForeignKeyViolation
          else Inr ((), d\<lparr>member_party_history :=
                 upsertBy (\<lambda>r. mp_member_bioguide_id r = memberId \<and> mp_party_name r = partyName
                               \<and> mp_start_year r = startYear) (\<lambda>r. r)
                   \<lparr>mp_id = freshId (map mp_id (member_party_history d)),
                    mp_member_bioguide_id = memberId, mp_party_name = partyName,
                    mp_party_abbreviation = pa_partyAbbreviation party,
                    mp_start_year = startYear\<rparr>
                   (member_party_history d)\<rparr>)
      | _ \<Rightarrow> Inl NotNullViolation)"

text \<open>
  \<open>INSERT INTO member_terms (member_bioguide_id, congress, chamber, member_type,
  state_code, state_name, district, start_year, end_year) VALUES ($1, ..., $9) ON CONFLICT
  (member_bioguide_id, congress, chamber, district) DO UPDATE SET member_type =
  EXCLUDED.member_type, state_code = EXCLUDED.state_code, state_name =
  EXCLUDED.state_name, start_year = EXCLUDED.start_year, end_year = EXCLUDED.end_year\<close>.
  The column \<open>district\<close> of the unique constraint may be \<open>NULL\<close>.
\<close>

definition upsertTerm :: "string option \<Rightarrow> member_term \<Rightarrow> db \<Rightarrow> error + unit \<times> db" where
  "upsertTerm bioguideId memberTerm d =
     (case (bioguideId, te_congress memberTerm, te_chamber memberTerm, te_stateCode memberTerm) of
        (Some memberId, Some congress, Some chamber, Some stateCode) \<Rightarrow>
          if \<not> memberStored d memberId then Inl ForeignKeyViolation
          else Inr ((), d\<lparr>member_terms :=
                 upsertBy (\<lambda>r. mt_member_bioguide_id r = memberId \<and> mt_congress r = congress
                               \<and> mt_chamber r = chamber
                               \<and> sameKey (mt_district r) (te_district memberTerm))
                   (\<lambda>r. r\<lparr>mt_member_type := te_memberType memberTerm, mt_state_code := stateCode,
                          mt_state_name := te_stateName memberTerm,
                          mt_start_year := te_startYear memberTerm, mt_end_year := te_endYear memberTerm\<rparr>)
                   \<lparr>mt_id = freshId (map mt_id (member_terms d)),
                    mt_member_bioguide_id = memberId, mt_congress = congress,
                    mt_chamber = chamber, mt_member_type = te_memberType memberTerm,
                    mt_state_code = stateCode, mt_state_name = te_stateName memberTerm,
                    mt_district = te_district memberTerm, mt_start_year = te_startYear memberTerm,
                    mt_end_year = te_endYear memberTerm\<rparr>
                   (member_terms d)\<rparr>)
      | _ \<Rightarrow> Inl NotNullViolation)"

text \<open>
  \<open>INSERT INTO member_leadership (member_bioguide_id, congress, leadership_type,
  is_current) VALUES ($1, $2, $3, $4) ON CONFLICT (member_bioguide_id, congress,
  leadership_type) DO UPDATE SET is_current = EXCLUDED.is_current\<close>
\<close>

definition upsertLeadership :: "string option \<Rightarrow> leadership_role \<Rightarrow> db \<Rightarrow> error + unit \<times> db" where
  "upsertLeadership bioguideId role d =
     (case (bioguideId, lr_congress role, lr_type role) of
        (Some memberId, Some congress, Some ty) \<Rightarrow>
          if \<not> memberStored d memberId then Inl ForeignKeyViolation
          else Inr ((), d\<lparr>member_leadership :=
                 upsertBy (\<lambda>r. ml_member_bioguide_id r = memberId \<and> ml_congress r = congress
                               \<and> ml_leadership_type r = ty)
                   (\<lambda>r. r\<lparr>ml_is_current := lr_current role\<rparr>)
                   \<lparr>ml_id = freshId (map ml_id (member_leadership d)),
                    ml_member_bioguide_id = memberId, ml_congress = congress,
                    ml_leadership_type = ty, ml_is_current = lr_current role\<rparr>
                   (member_leadership d)\<rparr>)
      | _ \<Rightarrow> Inl NotNullViolation)"

definition saveMember :: "member \<Rightarrow> ('z, unit) io" where
  "saveMember member =
     bindE (query (upsertMember member)) (\<lambda>u.
     bindE (case mb_addressInformation member of
              None \<Rightarrow> returnE ()
            | Some addr \<Rightarrow> query (upsertMemberAddress (mb_bioguideId member) addr)) (\<lambda>u.
     bindE (case mb_partyHistory member of
              None \<Rightarrow> returnE ()
            | Some partyHistory \<Rightarrow>
                foreachE partyHistory (\<lambda>party.
                  query (insertPartyHistory (mb_bioguideId member) party))) (\<lambda>u.
     bindE (case mb_terms member of
              None \<Rightarrow> returnE ()
            | Some terms \<Rightarrow>
                foreachE terms (\<lambda>memberTerm. query (upsertTerm (mb_bioguideId member) memberTerm))) (\<lambda>u.
     (case mb_leadership member of
        None \<Rightarrow> returnE ()
      | Some leadership \<Rightarrow>
          foreachE leadership (\<lambda>role.
            query (upsertLeadership (mb_bioguideId member) role)))))))"

text \<open>
  \<open>processMemberBatch\<close>: the stored rows afterwards and the log line printed (none for an
  empty batch).
\<close>

definition processMemberBatch :: "bool list \<Rightarrow> member list \<Rightarrow> db \<Rightarrow> db \<times> outcome option" where
  "processMemberBatch faults membersData stored =
     (if membersData = [] then (stored, None)
      else case foreachE membersData saveMember (beginTx stored faults) of
             (Inr u, t) \<Rightarrow> (commit stored t, Some Committed)
           | (Inl e, t) \<Rightarrow> (rollback stored t, Some RolledBack))"

text \<open>A senator as the member endpoint describes one: a term without a district.\<close>

definition senator :: member where
  "senator =
     \<lparr>mb_bioguideId = Some ''D000001'', mb_directOrderName = Some ''Jane Doe'',
      mb_invertedOrderName = Some ''Doe, Jane'', mb_firstName = Some ''Jane'',
      mb_middleName = None, mb_lastName = Some ''Doe'', mb_suffixName = None,
      mb_nickName = None, mb_honorificName = Some ''Ms.'', mb_birthYear = Some 1960,
      mb_deathYear = None, mb_officialWebsiteUrl = None, mb_depictionImageUrl = None,
      mb_depictionAttribution = None, mb_currentMember = Some True,
      mb_updateDate = Some 1700000000000, mb_addressInformation = None,
      mb_partyHistory =
        Some [\<lparr>pa_partyName = Some ''Independent'', pa_partyAbbreviation = Some ''I'',
                pa_startYear = Some 1991\<rparr>],
      mb_terms =
        Some [\<lparr>te_congress = Some 119, te_chamber = Some ''Senate'',
                te_memberType = Some ''Senator'', te_stateCode = Some ''VT'',
                te_stateName = Some ''Vermont'', te_district = None,
                te_startYear = Some 2025, te_endYear = None\<rparr>],
      mb_leadership = None\<rparr>"

section \<open>The committee script: the history of a committee\<close>

text \<open>
  \<open>processCommitteeDetailsBatch\<close> stores every item of \<open>committee.history\<close> that has an
  official name: \<open>INSERT INTO committee_history (committee_system_code, official_name,
  start_date, end_date) VALUES ($1, $2, $3, $4) ON CONFLICT DO NOTHING\<close>.  The only
  constraint of the table that a row can conflict with is its \<open>SERIAL\<close> key.
\<close>

record history_item =
  hi_officialName :: "string option"
  hi_startDate :: "timestamp option"
  hi_endDate :: "timestamp option"

definition insertCommitteeHistory ::
  "string option \<Rightarrow> history_item \<Rightarrow> db \<Rightarrow> error + unit \<times> db" where
  "insertCommitteeHistory systemCode historyItem d =
     (case systemCode of
        None \<Rightarrow> Inl NotNullViolation
      | Some code \<Rightarrow>
          if \<not> committeeStored d code then Inl ForeignKeyViolation
          else Inr ((), d\<lparr>committee_history := committee_history d @
                 [\<lparr>ch_id = freshId (map ch_id (committee_history d)),
                   ch_committee_system_code = code,
                   ch_official_name = hi_officialName historyItem,
                   ch_start_date = hi_startDate historyItem,
                   ch_end_date = hi_endDate historyItem,
                   ch_establishing_authority = None\<rparr>]\<rparr>))"

definition historyItem1 :: history_item where
  "historyItem1 = \<lparr>hi_officialName = Some ''Committee on Agriculture'',
     hi_startDate = Some 0, hi_endDate = None\<rparr>"

section \<open>The batch loops of \<open>main\<close> (bill script and member script)\<close>

text \<open>
  What the fan-out of detail fetches yields for one URL: the string \<open>'RATE_LIMIT'\<close> for
  a status 429, \<open>null\<close> for any other status that is not ok and for a network error,
  and the object of the body otherwise.
\<close>

datatype 'a fetched = RATE_LIMIT | NoData | Data 'a

definition fetchedData :: "'a fetched list \<Rightarrow> 'a list" where
  "fetchedData results = List.map_filter (\<lambda>r. case r of Data x \<Rightarrow> Some x | _ \<Rightarrow> None) results"

text \<open>\<open>Array.prototype.slice(a, b)\<close>, a negative index counting from the end.\<close>

definition jsSlice :: "'a list \<Rightarrow> int \<Rightarrow> int \<Rightarrow> 'a list" where
  "jsSlice xs a b =
     (let n = int (length xs);
          first = (if a < 0 then max (n + a) 0 else min a n);
          last = (if b < 0 then max (n + b) 0 else min b n)
      in take (nat (last - first)) (drop (nat first) xs))"

text \<open>
  The state of a loop: the index \<open>i\<close>, the stored rows, and the pauses taken so far
  (the arguments of \<open>sleep\<close>, in milliseconds).
\<close>

record main_state =
  ms_i :: int
  ms_stored :: db
  ms_slept :: "int list"

text \<open>
  What the outside answers during one iteration of the bill loop: the fan-out result for
  each URL, the time at which the transaction of the batch begins, the member endpoint
  and the statements that fail for outside reasons.
\<close>

record bill_round =
  br_fetch :: "string \<Rightarrow> bill fetched"
  br_now :: timestamp
  br_fetchMember :: "string \<Rightarrow> member_detail option response"
  br_faults :: "bool list"

definition billBatchSize :: int where
  "billBatchSize = 15"

text \<open>
  One iteration of the \<open>for\<close> loop of the bill script, with the \<open>i += BATCH_SIZE\<close> that
  ends it (also after \<open>continue\<close>).
\<close>

definition billIteration :: "string list \<Rightarrow> bill_round \<Rightarrow> main_state \<Rightarrow> main_state" where
  "billIteration billUrls round s =
     (let batchUrls = jsSlice billUrls (ms_i s) (ms_i s + billBatchSize);
          results = map (br_fetch round) batchUrls
      in if RATE_LIMIT \<in> set results
         then s\<lparr>ms_slept := ms_slept s @ [3601000],
                ms_i := (ms_i s - billBatchSize) + billBatchSize\<rparr>
         else s\<lparr>ms_stored := fst (saveBillBatchToDb (br_now round) (br_fetchMember round)
                                    (br_faults round) (fetchedData results) (ms_stored s)),
                ms_slept := ms_slept s @ [2000],
                ms_i := ms_i s + billBatchSize\<rparr>)"

text \<open>
  The loop, one answer of the outside per iteration.  \<open>None\<close>: the answers given do not
  bring the loop to its end.
\<close>

fun billLoop :: "string list \<Rightarrow> bill_round list \<Rightarrow> main_state \<Rightarrow> main_state option" where
  "billLoop billUrls [] s = (if ms_i s < int (length billUrls) then None else Some s)"
| "billLoop billUrls (round # rounds) s =
     (if ms_i s < int (length billUrls)
      then billLoop billUrls rounds (billIteration billUrls round s)
      else Some s)"

definition billMain ::
  "string option \<Rightarrow> string \<Rightarrow> bill_pages \<Rightarrow> bill_round list \<Rightarrow> db \<Rightarrow> main_state option" where
  "billMain congressToFetch apiKey upstream rounds stored =
     (let billUrls = fetchAndFilterBillUrls congressToFetch apiKey (bills stored) upstream
      in if billUrls = [] then Some \<lparr>ms_i = 0, ms_stored = stored, ms_slept = []\<rparr>
         else billLoop billUrls rounds \<lparr>ms_i = 0, ms_stored = stored, ms_slept = []\<rparr>)"

text \<open>The same for the member script, whose batches hold 50 URLs.\<close>

record member_round =
  mr_fetch :: "string \<Rightarrow> member fetched"
  mr_faults :: "bool list"

definition memberBatchSize :: int where
  "memberBatchSize = 50"

definition memberIteration :: "string list \<Rightarrow> member_round \<Rightarrow> main_state \<Rightarrow> main_state" where
  "memberIteration allMemberUrls round s =
     (let batchUrls = jsSlice allMemberUrls (ms_i s) (ms_i s + memberBatchSize);
          results = map (mr_fetch round) batchUrls
      in if RATE_LIMIT \<in> set results
         then s\<lparr>ms_slept := ms_slept s @ [10000],
                ms_i := (ms_i s - memberBatchSize) + memberBatchSize\<rparr>
         else s\<lparr>ms_stored := (if fetchedData results \<noteq> []
                               then fst (processMemberBatch (mr_faults round)
                                           (fetchedData results) (ms_stored s))
                               else ms_stored s),
                ms_slept := ms_slept s @ [1000],
                ms_i := ms_i s + memberBatchSize\<rparr>)"

fun memberLoop :: "string list \<Rightarrow> member_round list \<Rightarrow> main_state \<Rightarrow> main_state option" where
  "memberLoop allMemberUrls [] s = (if ms_i s < int (length allMemberUrls) then None else Some s)"
| "memberLoop allMemberUrls (round # rounds) s =
     (if ms_i s < int (length allMemberUrls)
      then memberLoop allMemberUrls rounds (memberIteration allMemberUrls round s)
      else Some s)"

definition memberMain :: "string list \<Rightarrow> member_round list \<Rightarrow> db \<Rightarrow> main_state option" where
  "memberMain allMemberUrls rounds stored =
     (if allMemberUrls \<noteq> []
      then memberLoop allMemberUrls rounds \<lparr>ms_i = 0, ms_stored = stored, ms_slept = []\<rparr>
      else Some \<lparr>ms_i = 0, ms_stored = stored, ms_slept = []\<rparr>)"

text \<open>
  Answers of the outside in which the second URL of three is rate-limited, and answers
  in which no URL has data.
\<close>

definition limitedBillRound :: bill_round where
  "limitedBillRound = \<lparr>br_fetch = (\<lambda>url. if url = ''u2'' then RATE_LIMIT else NoData),
     br_now = 1000, br_fetchMember = noMember, br_faults = []\<rparr>"

definition quietBillRound :: bill_round where
  "quietBillRound = \<lparr>br_fetch = (\<lambda>url. NoData), br_now = 2000, br_fetchMember = noMember,
     br_faults = []\<rparr>"

definition limitedMemberRound :: member_round where
  "limitedMemberRound = \<lparr>mr_fetch = (\<lambda>url. if url = ''u2'' then RATE_LIMIT else NoData),
     mr_faults = []\<rparr>"

definition quietMemberRound :: member_round where
  "quietMemberRound = \<lparr>mr_fetch = (\<lambda>url. NoData), mr_faults = []\<rparr>"

chapter \<open>Results\<close>

section \<open>Chamber inference\<close>

lemma startsWith_longer:
  "startsWith s ''ss'' \<Longrightarrow> startsWith s ''s''" "startsWith s ''hs'' \<Longrightarrow> startsWith s ''h''"
  by (auto simp: startsWith_def prefix_def)

lemma inferChamber_returns_rule:
  assumes ret: "inferChamber committee = Some r"
  shows "chamberRuleApplies committee"
proof (rule inferChamber.raw_induct [where P = "\<lambda>c r. chamberRuleApplies c", OF _ ret])
  fix f :: "committee \<Rightarrow> string option" and c r
  assume ih: "\<And>c r. f c = Some r \<Longrightarrow> chamberRuleApplies c"
    and body: "(if truthy (cm_chamber c) then cm_chamber c
      else if startsWith (toLowerCase (orElse (cm_systemCode c) [])) ''s''
              \<or> startsWith (toLowerCase (orElse (cm_systemCode c) [])) ''ss''
           then Some ''Senate''
      else if startsWith (toLowerCase (orElse (cm_systemCode c) [])) ''h''
              \<or> startsWith (toLowerCase (orElse (cm_systemCode c) [])) ''hs''
           then Some ''House''
      else if includesStr (toLowerCase (orElse (cm_systemCode c) [])) ''jt''
              \<or> includesStr (toLowerCase (orElse (cm_name c) [])) ''joint''
           then Some ''Joint''
      else if includesStr (toLowerCase (orElse (cm_name c) [])) ''senate''
              \<or> includesStr (toLowerCase (orElse (cm_name c) [])) ''foreign relations''
           then Some ''Senate''
      else if includesStr (toLowerCase (orElse (cm_name c) [])) ''house''
              \<or> includesStr (toLowerCase (orElse (cm_name c) [])) ''representatives''
           then Some ''House''
      else if \<not> truthy (cm_chamber c)
           then Option.bind (f c) (\<lambda>logged. Some ''Unknown'')
      else Some ''Unknown'') = Some r"
  show "chamberRuleApplies c"
  proof (rule ccontr)
    assume no: "\<not> chamberRuleApplies c"
    with body obtain l where "f c = Some l"
      by (auto simp: chamberRuleApplies_def dest: startsWith_longer
            split: if_splits Option.bind_splits)
    with ih no show False by blast
  qed
qed

lemma inferChamber_no_rule:
  "\<not> chamberRuleApplies committee \<Longrightarrow> inferChamber committee = None"
  using inferChamber_returns_rule by (cases "inferChamber committee") auto

text \<open>
  A call that returns without a chamber in the payload returns one of the three inferred
  chambers: the default \<open>Unknown\<close> is never reached.
\<close>

lemma inferChamber_inferred:
  assumes ret: "inferChamber committee = Some r" and absent: "\<not> truthy (cm_chamber committee)"
  shows "r = ''Senate'' \<or> r = ''House'' \<or> r = ''Joint''"
proof -
  have "chamberRuleApplies committee
        \<and> (\<not> truthy (cm_chamber committee) \<longrightarrow> r = ''Senate'' \<or> r = ''House'' \<or> r = ''Joint'')"
  proof (rule inferChamber.raw_induct
      [where P = "\<lambda>c r. chamberRuleApplies c
         \<and> (\<not> truthy (cm_chamber c) \<longrightarrow> r = ''Senate'' \<or> r = ''House'' \<or> r = ''Joint'')",
       OF _ ret])
    fix f :: "committee \<Rightarrow> string option" and c r
    assume ih: "\<And>c r. f c = Some r \<Longrightarrow> chamberRuleApplies c
         \<and> (\<not> truthy (cm_chamber c) \<longrightarrow> r = ''Senate'' \<or> r = ''House'' \<or> r = ''Joint'')"
      and body: "(if truthy (cm_chamber c) then cm_chamber c
      else if startsWith (toLowerCase (orElse (cm_systemCode c) [])) ''s''
              \<or> startsWith (toLowerCase (orElse (cm_systemCode c) [])) ''ss''
           then Some ''Senate''
      else if startsWith (toLowerCase (orElse (cm_systemCode c) [])) ''h''
              \<or> startsWith (toLowerCase (orElse (cm_systemCode c) [])) ''hs''
           then Some ''House''
      else if includesStr (toLowerCase (orElse (cm_systemCode c) [])) ''jt''
              \<or> includesStr (toLowerCase (orElse (cm_name c) [])) ''joint''
           then Some ''Joint''
      else if includesStr (toLowerCase (orElse (cm_name c) [])) ''senate''
              \<or> includesStr (toLowerCase (orElse (cm_name c) [])) ''foreign relations''
           then Some ''Senate''
      else if includesStr (toLowerCase (orElse (cm_name c) [])) ''house''
              \<or> includesStr (toLowerCase (orElse (cm_name c) [])) ''representatives''
           then Some ''House''
      else if \<not> truthy (cm_chamber c)
           then Option.bind (f c) (\<lambda>logged. Some ''Unknown'')
      else Some ''Unknown'') = Some r"
    show "chamberRuleApplies c
         \<and> (\<not> truthy (cm_chamber c) \<longrightarrow> r = ''Senate'' \<or> r = ''House'' \<or> r = ''Joint'')"
    proof (cases "chamberRuleApplies c")
      case True
      with body show ?thesis
        by (auto simp: chamberRuleApplies_def dest: startsWith_longer split: if_splits)
    next
      case False
      with body obtain l where "f c = Some l"
        by (auto simp: chamberRuleApplies_def dest: startsWith_longer
              split: if_splits Option.bind_splits)
      with ih False show ?thesis by blast
    qed
  qed
  with absent show ?thesis by simp
qed

text \<open>
  Claim C10.  For a committee object without a chamber, whose system code is \<open>xx00\<close> and
  whose name is \<open>Library\<close>, no rule applies and the call of \<open>inferChamber\<close> does not
  return: it yields none of \<open>Unknown\<close>, \<open>House\<close>, \<open>Senate\<close>, \<open>Joint\<close>.
\<close>

theorem inferChamber_unknown_diverges:
  "inferChamber \<lparr>cm_systemCode = Some ''xx00'', cm_name = Some ''Library'',
      cm_chamber = None, cm_committeeTypeCode = None, cm_url = [], cm_parent = None,
      cm_activities = None\<rparr> = None"
  by (rule inferChamber_no_rule) code_simp

section \<open>The staleness filter\<close>

declare showNat.simps [simp del]

lemma digitChar_inj: "a < 10 \<Longrightarrow> b < 10 \<Longrightarrow> digitChar a = digitChar b \<Longrightarrow> a = b"
proof -
  assume a: "a < 10" and b: "b < 10" and e: "digitChar a = digitChar b"
  from e have "(of_char (digitChar a) :: nat) = of_char (digitChar b)" by simp
  with a b show ?thesis by (simp add: digitChar_def)
qed

lemma digitChar_not_hyphen: "d < 10 \<Longrightarrow> digitChar d \<noteq> CHR ''-''"
proof
  assume d: "d < 10" and e: "digitChar d = CHR ''-''"
  from e have "(of_char (digitChar d) :: nat) = of_char (CHR ''-'')" by simp
  with d show False by (simp add: digitChar_def)
qed

lemma showNat_nonempty: "showNat n \<noteq> []"
  by (subst showNat.simps) simp

lemma showNat_no_hyphen: "CHR ''-'' \<notin> set (showNat n)"
proof (induction n rule: showNat.induct)
  case (1 n)
  show ?case
  proof (cases "n < 10")
    case True
    then show ?thesis using digitChar_not_hyphen [of n] by (subst showNat.simps) auto
  next
    case False
    then show ?thesis using 1 digitChar_not_hyphen [of "n mod 10"]
      by (subst showNat.simps) auto
  qed
qed

lemma showNat_inj: "showNat n = showNat m \<Longrightarrow> n = m"
proof (induction n arbitrary: m rule: showNat.induct)
  case (1 n)
  show ?case
  proof (cases "n < 10")
    case n: True
    show ?thesis
    proof (cases "m < 10")
      case True
      with n 1(2) show ?thesis
        by (simp add: showNat.simps [of n] showNat.simps [of m] digitChar_inj)
    next
      case False
      with n 1(2) showNat_nonempty [of "m div 10"] show ?thesis
        by (simp add: showNat.simps [of n] showNat.simps [of m])
    qed
  next
    case n: False
    show ?thesis
    proof (cases "m < 10")
      case True
      with n 1(2) showNat_nonempty [of "n div 10"] show ?thesis
        by (simp add: showNat.simps [of n] showNat.simps [of m])
    next
      case False
      with n 1(2) have e: "showNat (n div 10) = showNat (m div 10)"
        and d: "digitChar (n mod 10) = digitChar (m mod 10)"
        by (simp_all add: showNat.simps [of n] showNat.simps [of m])
      from 1(1) [OF n e] have "n div 10 = m div 10" .
      moreover from d have "n mod 10 = m mod 10" by (simp add: digitChar_inj)
      ultimately show ?thesis by (metis div_mult_mod_eq)
    qed
  qed
qed

lemma showInt_inj: "showInt i = showInt j \<Longrightarrow> i = j"
proof -
  assume e: "showInt i = showInt j"
  have h: "\<And>n. hd (showNat n) \<noteq> CHR ''-''"
    using showNat_no_hyphen showNat_nonempty by (metis list.set_sel(1))
  show ?thesis
  proof (cases "i < 0"; cases "j < 0")
    assume "i < 0" "j < 0"
    with e have "nat (- i) = nat (- j)" by (simp add: showInt_def showNat_inj)
    with \<open>i < 0\<close> \<open>j < 0\<close> show ?thesis by simp
  next
    assume "i < 0" "\<not> j < 0"
    with e h [of "nat j"] show ?thesis by (auto simp: showInt_def dest: arg_cong [where f = hd])
  next
    assume "\<not> i < 0" "j < 0"
    with e h [of "nat i"] show ?thesis by (auto simp: showInt_def dest: arg_cong [where f = hd])
  next
    assume "\<not> i < 0" "\<not> j < 0"
    with e have "nat i = nat j" by (simp add: showInt_def showNat_inj)
    with \<open>\<not> i < 0\<close> \<open>\<not> j < 0\<close> show ?thesis by simp
  qed
qed

lemma split_at_separator:
  "a \<notin> set xs \<Longrightarrow> a \<notin> set xs' \<Longrightarrow> xs @ a # ys = xs' @ a # ys' \<Longrightarrow> xs = xs' \<and> ys = ys'"
proof (induction xs arbitrary: xs')
  case Nil
  then show ?case by (cases xs') auto
next
  case (Cons x xs)
  then show ?case by (cases xs') auto
qed

lemma billKey_inj:
  assumes "CHR ''-'' \<notin> set t" "CHR ''-'' \<notin> set t'" "0 \<le> n" "0 \<le> n'"
    and e: "billKey c t n = billKey c' t' n'"
  shows "c = c' \<and> t = t' \<and> n = n'"
proof -
  have nn: "CHR ''-'' \<notin> set (showInt n)" "CHR ''-'' \<notin> set (showInt n')"
    using assms showNat_no_hyphen by (simp_all add: showInt_def)
  from e have "rev (showInt n) @ CHR ''-'' # (rev t @ CHR ''-'' # rev (showInt c))
      = rev (showInt n') @ CHR ''-'' # (rev t' @ CHR ''-'' # rev (showInt c'))"
    by (simp add: billKey_def) (metis rev_append rev.simps append_assoc append_Cons append_Nil rev_rev_ident)
  with nn have a: "rev (showInt n) = rev (showInt n')"
    and b: "rev t @ CHR ''-'' # rev (showInt c) = rev t' @ CHR ''-'' # rev (showInt c')"
    using split_at_separator [of "CHR ''-''" "rev (showInt n)" "rev (showInt n')"]
    by auto
  from b assms(1,2) have "rev t = rev t'" "rev (showInt c) = rev (showInt c')"
    using split_at_separator [of "CHR ''-''" "rev t" "rev t'"] by auto
  with a show ?thesis by (simp add: showInt_inj)
qed

lemma newMap_distinct: "distinct (map fst entries) \<Longrightarrow> newMap entries = map_of entries"
  unfolding newMap_def
  by (subst map_of_inject_set) (simp_all add: rev_map [symmetric])

lemma map_of_find:
  assumes "\<And>r. r \<in> set rows \<Longrightarrow> (k r = kb) = P r"
  shows "map_of (map (\<lambda>r. (k r, v r)) rows) kb = map_option v (find P rows)"
  using assms by (induction rows) auto

lemma find_filter_keep:
  assumes "\<And>r. r \<in> set rows \<Longrightarrow> P r \<Longrightarrow> Q r"
  shows "find P (filter Q rows) = find P rows"
  using assms by (induction rows) auto

lemma rowKeys_distinct:
  assumes u: "billsUnique rows" and p: "rowsPlain rows"
  shows "distinct (map (\<lambda>r. billKey (b_congress r) (b_type r) (b_number r)) rows)"
proof -
  have inj: "inj_on (\<lambda>i. billKey (fst i) (fst (snd i)) (snd (snd i)))
               (set (map (\<lambda>r. (b_congress r, b_type r, b_number r)) rows))"
  proof (rule inj_onI)
    fix x y
    assume x: "x \<in> set (map (\<lambda>r. (b_congress r, b_type r, b_number r)) rows)"
      and y: "y \<in> set (map (\<lambda>r. (b_congress r, b_type r, b_number r)) rows)"
      and e: "billKey (fst x) (fst (snd x)) (snd (snd x)) = billKey (fst y) (fst (snd y)) (snd (snd y))"
    from x p have px: "plainIdent (fst (snd x)) (snd (snd x))"
      by (auto simp: rowsPlain_def list_all_iff)
    from y p have py: "plainIdent (fst (snd y)) (snd (snd y))"
      by (auto simp: rowsPlain_def list_all_iff)
    from billKey_inj [OF _ _ _ _ e] px py show "x = y"
      by (simp add: plainIdent_def prod_eq_iff)
  qed
  from u have "distinct (map (\<lambda>i. billKey (fst i) (fst (snd i)) (snd (snd i)))
                 (map (\<lambda>r. (b_congress r, b_type r, b_number r)) rows))"
    unfolding billsUnique_def by (simp only: distinct_map) (use inj in simp)
  then show ?thesis by (simp add: comp_def)
qed

lemma dbBillMap_lookup:
  assumes u: "billsUnique rows" and p: "rowsPlain rows"
    and b: "b \<in> set apiBills" and pb: "plainIdent (ab_type b) (ab_number b)"
  shows "dbBillMap (selectBillsIn rows apiBills) (billKey (ab_congress b) (ab_type b) (ab_number b))
         = map_option b_last_processed_at
             (find (\<lambda>r. b_congress r = ab_congress b \<and> b_type r = ab_type b
                          \<and> b_number r = ab_number b) rows)"
proof -
  let ?sel = "selectBillsIn rows apiBills"
  let ?P = "\<lambda>r. b_congress r = ab_congress b \<and> b_type r = ab_type b \<and> b_number r = ab_number b"
  have su: "billsUnique ?sel" using u
    by (simp add: billsUnique_def selectBillsIn_def distinct_map_filter)
  have sp: "rowsPlain ?sel" using p
    by (simp add: rowsPlain_def selectBillsIn_def list_all_iff)
  have d: "distinct (map fst (map (\<lambda>r. (billKey (b_congress r) (b_type r) (b_number r),
              b_last_processed_at r)) ?sel))"
    using rowKeys_distinct [OF su sp] by (simp add: comp_def)
  have k: "\<And>r. r \<in> set ?sel \<Longrightarrow>
      (billKey (b_congress r) (b_type r) (b_number r)
        = billKey (ab_congress b) (ab_type b) (ab_number b)) = ?P r"
  proof -
    fix r assume "r \<in> set ?sel"
    with sp have pr: "plainIdent (b_type r) (b_number r)"
      by (auto simp: rowsPlain_def list_all_iff)
    show "(billKey (b_congress r) (b_type r) (b_number r)
        = billKey (ab_congress b) (ab_type b) (ab_number b)) = ?P r"
      using billKey_inj [of "b_type r" "ab_type b" "b_number r" "ab_number b" "b_congress r" "ab_congress b"]
        pr pb by (auto simp: plainIdent_def)
  qed
  have f: "find ?P ?sel = find ?P rows"
    unfolding selectBillsIn_def
    by (rule find_filter_keep) (use b in \<open>auto simp: list_ex_iff\<close>)
  show ?thesis
    unfolding dbBillMap_def newMap_distinct [OF d]
    using map_of_find [of ?sel "\<lambda>r. billKey (b_congress r) (b_type r) (b_number r)"
        "billKey (ab_congress b) (ab_type b) (ab_number b)" ?P b_last_processed_at] k f
    by simp
qed

lemma filterPage_eq:
  "filterPage m s k bs acc =
     acc @ map (\<lambda>b. ab_url b @ ''&api_key='' @ k)
             (filter (\<lambda>b. \<not> (case m (billKey (ab_congress b) (ab_type b) (ab_number b)) of
                                  Some (Some d) \<Rightarrow> s < d | _ \<Rightarrow> False)) bs)"
  by (induction bs arbitrary: acc) (simp_all add: Let_def)

lemma processPage_eq:
  assumes u: "billsUnique rows" and p: "rowsPlain rows"
    and pb: "list_all (\<lambda>b. plainIdent (ab_type b) (ab_number b)) apiBills"
  shows "processPage rows k apiBills now acc =
     acc @ map (\<lambda>b. ab_url b @ ''&api_key='' @ k)
             (filter (\<lambda>b. \<not> recentlyProcessed rows now b) apiBills)"
proof -
  have "filter (\<lambda>b. \<not> (case dbBillMap (selectBillsIn rows apiBills)
                  (billKey (ab_congress b) (ab_type b) (ab_number b)) of
                Some (Some d) \<Rightarrow> now - sevenDays < d | _ \<Rightarrow> False)) apiBills
        = filter (\<lambda>b. \<not> recentlyProcessed rows now b) apiBills"
  proof (rule filter_cong [OF refl])
    fix b assume b: "b \<in> set apiBills"
    with pb have "plainIdent (ab_type b) (ab_number b)" by (simp add: list_all_iff)
    from dbBillMap_lookup [OF u p b this]
    show "(\<not> (case dbBillMap (selectBillsIn rows apiBills)
                  (billKey (ab_congress b) (ab_type b) (ab_number b)) of
                Some (Some d) \<Rightarrow> now - sevenDays < d | _ \<Rightarrow> False))
          = (\<not> recentlyProcessed rows now b)"
      by (simp add: recentlyProcessed_def storedWatermark_def split: option.splits)
  qed
  then show ?thesis by (simp add: processPage_def filterPage_eq)
qed

lemma walkBillPages_eq:
  assumes u: "billsUnique rows" and p: "rowsPlain rows"
  shows "pagesPlain upstream \<Longrightarrow>
    walkBillPages rows k upstream acc =
      acc @ map (\<lambda>b. ab_url b @ ''&api_key='' @ k) (candidates rows upstream)"
  by (induction upstream arbitrary: acc) (simp_all add: processPage_eq [OF u p])

text \<open>
  Claim C2.  With \<open>CURRENT_CONGRESS\<close> set, a store that satisfies its uniqueness
  constraint and identifiers without hyphens or negative numbers, the work list of
  \<open>fetchAndFilterBillUrls\<close> is, in upstream order, the URL of every bill of every page
  reached except the bills whose stored \<open>last_processed_at\<close> exists and is newer than seven
  days before now: a bill with no row or with a \<open>NULL\<close> watermark is always listed.
\<close>

theorem staleness_filter:
  assumes "truthy congressToFetch" and "billsUnique rows" and "rowsPlain rows"
    and "pagesPlain upstream"
  shows "fetchAndFilterBillUrls congressToFetch apiKey rows upstream =
           map (\<lambda>b. ab_url b @ ''&api_key='' @ apiKey) (candidates rows upstream)"
  using assms by (simp add: fetchAndFilterBillUrls_def walkBillPages_eq)

theorem staleness_filter_witness:
  "truthy (Some ''119'') \<and> billsUnique exampleBillRows \<and> rowsPlain exampleBillRows
   \<and> pagesPlain exampleBillPages
   \<and> recentlyProcessed exampleBillRows 864000000
        \<lparr>ab_congress = 119, ab_type = ''HR'', ab_number = 1, ab_url = ''u1?format=json''\<rparr>
   \<and> fetchAndFilterBillUrls (Some ''119'') ''KEY'' exampleBillRows exampleBillPages =
       [''u2?format=json&api_key=KEY'', ''u3?format=json&api_key=KEY'',
        ''u4?format=json&api_key=KEY'', ''u5?format=json&api_key=KEY'']"
proof -
  have h1: "truthy (Some ''119'')" by (simp add: truthy_def)
  have h2: "billsUnique exampleBillRows"
    by (simp add: billsUnique_def exampleBillRows_def stubBillRow_def)
  have h3: "rowsPlain exampleBillRows"
    by (simp add: rowsPlain_def plainIdent_def exampleBillRows_def stubBillRow_def)
  have h4: "pagesPlain exampleBillPages"
    by (simp add: exampleBillPages_def plainIdent_def)
  have c: "candidates exampleBillRows exampleBillPages =
     [\<lparr>ab_congress = 119, ab_type = ''HR'', ab_number = 2, ab_url = ''u2?format=json''\<rparr>,
      \<lparr>ab_congress = 119, ab_type = ''HR'', ab_number = 3, ab_url = ''u3?format=json''\<rparr>,
      \<lparr>ab_congress = 119, ab_type = ''S'', ab_number = 1, ab_url = ''u4?format=json''\<rparr>,
      \<lparr>ab_congress = 119, ab_type = ''S'', ab_number = 2, ab_url = ''u5?format=json''\<rparr>]"
    by (simp add: exampleBillPages_def exampleBillRows_def stubBillRow_def
          recentlyProcessed_def storedWatermark_def sevenDays_def)
  have r: "recentlyProcessed exampleBillRows 864000000
        \<lparr>ab_congress = 119, ab_type = ''HR'', ab_number = 1, ab_url = ''u1?format=json''\<rparr>"
    by (simp add: exampleBillRows_def stubBillRow_def
          recentlyProcessed_def storedWatermark_def sevenDays_def)
  from staleness_filter [OF h1 h2 h3 h4, of "''KEY''"] c h1 h2 h3 h4 r show ?thesis by simp
qed

section \<open>Rules for computations on the client\<close>

lemma ioValidI:
  assumes "\<And>t x t'. P t \<Longrightarrow> m t = (Inr x, t') \<Longrightarrow> Q x t'"
    and "\<And>t e t'. P t \<Longrightarrow> m t = (Inl e, t') \<Longrightarrow> E t'"
  shows "ioValid P m Q E"
  unfolding ioValid_def using assms by (auto split: prod.splits sum.splits)

lemma ioValidD_value: "ioValid P m Q E \<Longrightarrow> P t \<Longrightarrow> m t = (Inr x, t') \<Longrightarrow> Q x t'"
  unfolding ioValid_def by (drule spec [of _ t]) simp

lemma ioValidD_error: "ioValid P m Q E \<Longrightarrow> P t \<Longrightarrow> m t = (Inl e, t') \<Longrightarrow> E t'"
  unfolding ioValid_def by (drule spec [of _ t]) simp

lemma ioValid_weaken:
  assumes v: "ioValid P' m Q' E'"
    and "\<And>t. P t \<Longrightarrow> P' t" and "\<And>x t. Q' x t \<Longrightarrow> Q x t" and "\<And>t. E' t \<Longrightarrow> E t"
  shows "ioValid P m Q E"
proof (rule ioValidI)
  fix t x t' assume a: "P t" "m t = (Inr x, t')"
  from a(1) have "P' t" by (rule assms(2))
  from ioValidD_value [OF v this a(2)] show "Q x t'" by (rule assms(3))
next
  fix t e t' assume a: "P t" "m t = (Inl e, t')"
  from a(1) have "P' t" by (rule assms(2))
  from ioValidD_error [OF v this a(2)] show "E t'" by (rule assms(4))
qed

lemma ioValid_pre:
  assumes "ioValid P' m Q E" and "\<And>t. P t \<Longrightarrow> P' t"
  shows "ioValid P m Q E"
  using assms unfolding ioValid_def by simp

lemma ioValid_returnE: "(\<And>t. P t \<Longrightarrow> Q x t) \<Longrightarrow> ioValid P (returnE x) Q E"
  unfolding ioValid_def returnE_def by simp

lemma ioValid_throwE: "(\<And>t. P t \<Longrightarrow> E t) \<Longrightarrow> ioValid P (throwE e) Q E"
  unfolding ioValid_def throwE_def by simp

lemma ioValid_bindE:
  assumes m: "ioValid P m R E" and f: "\<And>x. ioValid (R x) (f x) Q E"
  shows "ioValid P (bindE m f) Q E"
  unfolding ioValid_def
proof (intro allI impI)
  fix t assume p: "P t"
  obtain r t1 where mt: "m t = (r, t1)" by (cases "m t")
  show "case bindE m f t of (Inl e, t') \<Rightarrow> E t' | (Inr x, t') \<Rightarrow> Q x t'"
  proof (cases r)
    case (Inl e)
    with mt ioValidD_error [OF m p] show ?thesis by (simp add: bindE_def)
  next
    case (Inr x)
    with mt ioValidD_value [OF m p] have "R x t1" by simp
    with f [of x] have "case f x t1 of (Inl e, t') \<Rightarrow> E t' | (Inr y, t') \<Rightarrow> Q y t'"
      unfolding ioValid_def by simp
    with mt Inr show ?thesis by (simp add: bindE_def)
  qed
qed

lemma ioValid_catchE:
  assumes m: "ioValid P m Q R" and h: "\<And>e. ioValid R (h e) Q E"
  shows "ioValid P (catchE m h) Q E"
  unfolding ioValid_def
proof (intro allI impI)
  fix t assume p: "P t"
  obtain r t1 where mt: "m t = (r, t1)" by (cases "m t")
  show "case catchE m h t of (Inl e, t') \<Rightarrow> E t' | (Inr x, t') \<Rightarrow> Q x t'"
  proof (cases r)
    case (Inr x)
    with mt ioValidD_value [OF m p] show ?thesis by (simp add: catchE_def)
  next
    case (Inl e)
    with mt ioValidD_error [OF m p] have "R t1" by simp
    with h [of e] have "case h e t1 of (Inl e, t') \<Rightarrow> E t' | (Inr y, t') \<Rightarrow> Q y t'"
      unfolding ioValid_def by simp
    with mt Inl show ?thesis by (simp add: catchE_def)
  qed
qed

lemma ioValid_whenE:
  assumes "c \<Longrightarrow> ioValid P m Q E" and "\<And>t. \<not> c \<Longrightarrow> P t \<Longrightarrow> Q () t"
  shows "ioValid P (whenE c m) Q E"
  using assms unfolding whenE_def by (auto intro: ioValid_returnE)

lemma ioValid_foreachE:
  assumes "\<And>x. x \<in> set xs \<Longrightarrow> ioValid I (f x) (\<lambda>u. I) E"
  shows "ioValid I (foreachE xs f) (\<lambda>u. I) E"
  using assms
proof (induction xs)
  case Nil
  show ?case by (simp add: ioValid_returnE)
next
  case (Cons x xs)
  show ?case
    unfolding foreachE.simps
    by (rule ioValid_bindE [where R = "\<lambda>u. I"]) (simp_all add: Cons)
qed

lemma passing_simps [simp]:
  "tx_db (passing d t) = d" "tx_failed (passing d t) = tx_failed t"
  "tx_faults (passing d t) = tl (tx_faults t)" "tx_log (passing d t) = tx_log t @ [False]"
  by (simp_all add: passing_def)

lemma failing_simps [simp]:
  "tx_db (failing t) = tx_db t" "tx_failed (failing t)"
  "tx_faults (failing t) = tl (tx_faults t)" "tx_log (failing t) = tx_log t @ [True]"
  by (simp_all add: failing_def)

lemma refused_simps [simp]:
  "tx_db (refused t) = tx_db t" "tx_failed (refused t) = tx_failed t"
  "tx_faults (refused t) = tl (tx_faults t)" "tx_log (refused t) = tx_log t @ [True]"
  by (simp_all add: refused_def)

lemma ioValid_query:
  assumes ok: "\<And>t r d. P t \<Longrightarrow> \<not> tx_failed t \<Longrightarrow> tx_faults t = [] \<or> \<not> hd (tx_faults t)
                 \<Longrightarrow> stmt (tx_db t) = Inr (r, d) \<Longrightarrow> Q r (passing d t)"
    and refused: "\<And>t. P t \<Longrightarrow> tx_failed t \<Longrightarrow> E (refused t)"
    and failed: "\<And>t. P t \<Longrightarrow> \<not> tx_failed t \<Longrightarrow> E (failing t)"
  shows "ioValid P (query stmt) Q E"
  unfolding ioValid_def
proof (intro allI impI)
  fix t assume p: "P t"
  show "case query stmt t of (Inl e, t') \<Rightarrow> E t' | (Inr x, t') \<Rightarrow> Q x t'"
  proof (cases "tx_failed t")
    case True
    with refused [OF p] show ?thesis by (simp add: query_def)
  next
    case nf: False
    show ?thesis
    proof (cases "tx_faults t \<noteq> [] \<and> hd (tx_faults t)")
      case True
      with nf failed [OF p] show ?thesis by (simp add: query_def)
    next
      case False
      show ?thesis
      proof (cases "stmt (tx_db t)")
        case (Inl e)
        with nf False failed [OF p] show ?thesis by (simp add: query_def)
      next
        case (Inr rd)
        obtain r d where "rd = (r, d)" by (cases rd)
        with Inr nf False ok [OF p, of r d] show ?thesis by (auto simp: query_def)
      qed
    qed
  qed
qed

section \<open>The two passes of the committee upsert\<close>

lemma ioValid_foreachE_prefix:
  assumes step: "\<And>before x after. xs = before @ x # after
                   \<Longrightarrow> ioValid (I before) (f x) (\<lambda>u. I (before @ [x])) E"
  shows "ioValid (I []) (foreachE xs f) (\<lambda>u. I xs) E"
proof -
  have "\<And>before. xs = before @ ys \<Longrightarrow> ioValid (I before) (foreachE ys f) (\<lambda>u. I xs) E" for ys
  proof (induction ys)
    case Nil
    then show ?case by (simp add: ioValid_returnE)
  next
    case (Cons y ys)
    have s: "ioValid (I before) (f y) (\<lambda>u. I (before @ [y])) E"
      by (rule step) (rule Cons.prems)
    have r: "ioValid (I (before @ [y])) (foreachE ys f) (\<lambda>u. I xs) E"
      by (rule Cons.IH) (simp add: Cons.prems)
    show ?case
      unfolding foreachE.simps
      by (rule ioValid_bindE [where R = "\<lambda>u. I (before @ [y])"]) (rule s, rule r)
  qed
  from this [of "[]" xs] show ?thesis by simp
qed

lemma find_map_same:
  assumes "\<And>r. P (g r) = P r"
  shows "find P (map g rows) = map_option g (find P rows)"
  using assms by (induction rows) auto

lemma find_append_new:
  "find P (rows @ [new]) =
     (case find P rows of Some r \<Rightarrow> Some r | None \<Rightarrow> if P new then Some new else None)"
  by (induction rows) auto

lemma find_None_list_ex: "(find P rows = None) = (\<not> list_ex P rows)"
  by (induction rows) auto

lemma list_ex_map_same:
  assumes "\<And>r. P (g r) = P r"
  shows "list_ex P (map g rows) = list_ex P rows"
  using assms by (induction rows) auto

lemma list_ex_upsertBy:
  assumes "\<And>r. P (upd r) = P r"
  shows "list_ex P (upsertBy c upd new rows) = (list_ex P rows \<or> (\<not> list_ex c rows \<and> P new))"
proof (cases "list_ex c rows")
  case True
  have "list_ex P (map (\<lambda>r. if c r then upd r else r) rows) = list_ex P rows"
    by (rule list_ex_map_same) (simp add: assms)
  with True show ?thesis by (simp add: upsertBy_def)
next
  case False
  then show ?thesis by (simp add: upsertBy_def)
qed

lemma find_upsertBy:
  assumes "\<And>r. P (upd r) = P r"
  shows "find P (upsertBy c upd new rows) =
     (if list_ex c rows then map_option (\<lambda>r. if c r then upd r else r) (find P rows)
      else case find P rows of Some r \<Rightarrow> Some r | None \<Rightarrow> if P new then Some new else None)"
proof (cases "list_ex c rows")
  case True
  have "find P (map (\<lambda>r. if c r then upd r else r) rows)
          = map_option (\<lambda>r. if c r then upd r else r) (find P rows)"
    by (rule find_map_same) (simp add: assms)
  with True show ?thesis by (simp add: upsertBy_def)
next
  case False
  then show ?thesis by (simp add: upsertBy_def find_append_new)
qed

lemma insertBaseCommittee_Inr:
  assumes "insertBaseCommittee c d = Inr (u, d')"
  obtains sc nm ch where "cm_systemCode c = Some sc" "cm_name c = Some nm" "cm_chamber c = Some ch"
    "committees d' = upsertBy (\<lambda>r. c_system_code r = sc)
              (\<lambda>r. r\<lparr>c_name := nm, c_chamber := ch,
                     c_committee_type_code := cm_committeeTypeCode c\<rparr>)
              \<lparr>c_system_code = sc, c_name = nm, c_chamber = ch,
               c_committee_type_code = cm_committeeTypeCode c,
               c_parent_committee_system_code = None, c_is_current = None,
               c_updated_at = None\<rparr>
              (committees d)"
  using assms by (auto simp: insertBaseCommittee_def split: option.splits)

lemma insertBaseCommittee_parentOf:
  assumes "insertBaseCommittee c d = Inr (u, d')"
  shows "parentOf d' code = parentOf d code"
proof -
  from assms obtain sc nm ch where c: "cm_systemCode c = Some sc"
    and d': "committees d' = upsertBy (\<lambda>r. c_system_code r = sc)
              (\<lambda>r. r\<lparr>c_name := nm, c_chamber := ch,
                     c_committee_type_code := cm_committeeTypeCode c\<rparr>)
              \<lparr>c_system_code = sc, c_name = nm, c_chamber = ch,
               c_committee_type_code = cm_committeeTypeCode c,
               c_parent_committee_system_code = None, c_is_current = None,
               c_updated_at = None\<rparr>
              (committees d)"
    by (rule insertBaseCommittee_Inr)
  have n: "\<not> list_ex (\<lambda>r. c_system_code r = sc) (committees d) \<Longrightarrow> code = sc \<Longrightarrow>
      find (\<lambda>r. c_system_code r = code) (committees d) = None"
    by (simp add: find_None_list_ex)
  show ?thesis
    unfolding parentOf_def d'
    by (subst find_upsertBy) (auto split: option.splits dest: n)
qed

lemma insertBaseCommittee_stored:
  assumes "insertBaseCommittee c d = Inr (u, d')"
  shows "committeeStored d' code = (committeeStored d code \<or> cm_systemCode c = Some code)"
proof -
  from assms obtain sc nm ch where c: "cm_systemCode c = Some sc"
    and d': "committees d' = upsertBy (\<lambda>r. c_system_code r = sc)
              (\<lambda>r. r\<lparr>c_name := nm, c_chamber := ch,
                     c_committee_type_code := cm_committeeTypeCode c\<rparr>)
              \<lparr>c_system_code = sc, c_name = nm, c_chamber = ch,
               c_committee_type_code = cm_committeeTypeCode c,
               c_parent_committee_system_code = None, c_is_current = None,
               c_updated_at = None\<rparr>
              (committees d)"
    by (rule insertBaseCommittee_Inr)
  show ?thesis
    unfolding committeeStored_def d'
    by (subst list_ex_upsertBy) (auto simp: c)
qed

lemma updateCommitteeParent_Inr:
  assumes "updateCommitteeParent p sc d = Inr (u, d')"
  shows "committees d' =
      map (\<lambda>r. if Some (c_system_code r) = sc
                 then r\<lparr>c_parent_committee_system_code := Some p\<rparr> else r) (committees d)"
  using assms by (auto simp: updateCommitteeParent_def split: if_splits)

lemma updateCommitteeParent_stored:
  assumes "updateCommitteeParent p sc d = Inr (u, d')"
  shows "committeeStored d' code = committeeStored d code"
  unfolding committeeStored_def updateCommitteeParent_Inr [OF assms]
  by (rule list_ex_map_same) simp

lemma updateCommitteeParent_parentOf:
  assumes "updateCommitteeParent p sc d = Inr (u, d')"
  shows "parentOf d' code =
           (if sc = Some code \<and> committeeStored d code then Some p else parentOf d code)"
proof -
  have f: "find (\<lambda>r. c_system_code r = code) (map (\<lambda>r. if Some (c_system_code r) = sc
                 then r\<lparr>c_parent_committee_system_code := Some p\<rparr> else r) (committees d))
        = map_option (\<lambda>r. if Some (c_system_code r) = sc
                 then r\<lparr>c_parent_committee_system_code := Some p\<rparr> else r)
            (find (\<lambda>r. c_system_code r = code) (committees d))"
    by (rule find_map_same) simp
  have s: "committeeStored d code = (find (\<lambda>r. c_system_code r = code) (committees d) \<noteq> None)"
    by (simp add: committeeStored_def find_None_list_ex)
  have k: "\<And>r. find (\<lambda>r. c_system_code r = code) (committees d) = Some r \<Longrightarrow> c_system_code r = code"
    by (auto simp: find_Some_iff)
  show ?thesis
    unfolding parentOf_def updateCommitteeParent_Inr [OF assms] f s
    by (auto split: option.splits dest: k)
qed

lemma ioValid_pushDetailUrl:
  assumes "\<And>t. P t \<Longrightarrow> Q () (t\<lparr>detailUrls := detailUrls t @ [url]\<rparr>)"
  shows "ioValid P (pushDetailUrl url) Q E"
  unfolding ioValid_def pushDetailUrl_def using assms by simp

lemma committeePass1_keeps_parents:
  "ioValid (\<lambda>t. \<forall>code. parentOf (tx_db t) code = par code)
     (committeePass1 apiKey committeesData)
     (\<lambda>u t. \<forall>code. parentOf (tx_db t) code = par code)
     (\<lambda>t. \<forall>code. parentOf (tx_db t) code = par code)"
  unfolding committeePass1_def
proof (rule ioValid_foreachE)
  fix c
  show "ioValid (\<lambda>t. \<forall>code. parentOf (tx_db t) code = par code)
     (bindE (pushDetailUrl (cm_url c @ ''&api_key='' @ apiKey)) (\<lambda>u. query (insertBaseCommittee c)))
     (\<lambda>u t. \<forall>code. parentOf (tx_db t) code = par code)
     (\<lambda>t. \<forall>code. parentOf (tx_db t) code = par code)"
  proof (rule ioValid_bindE [where R = "\<lambda>u t. \<forall>code. parentOf (tx_db t) code = par code"])
    show "ioValid (\<lambda>t. \<forall>code. parentOf (tx_db t) code = par code)
            (pushDetailUrl (cm_url c @ ''&api_key='' @ apiKey))
            (\<lambda>u t. \<forall>code. parentOf (tx_db t) code = par code)
            (\<lambda>t. \<forall>code. parentOf (tx_db t) code = par code)"
      by (rule ioValid_pushDetailUrl) simp
  next
    fix u :: unit
    show "ioValid (\<lambda>t. \<forall>code. parentOf (tx_db t) code = par code)
            (query (insertBaseCommittee c))
            (\<lambda>u t. \<forall>code. parentOf (tx_db t) code = par code)
            (\<lambda>t. \<forall>code. parentOf (tx_db t) code = par code)"
      by (rule ioValid_query) (simp_all add: insertBaseCommittee_parentOf)
  qed
qed

lemma committeePass1_valid:
  "ioValid (\<lambda>t. \<not> tx_failed t)
     (committeePass1 apiKey committeesData)
     (\<lambda>u t. \<not> tx_failed t
        \<and> (\<forall>c \<in> set committeesData. \<exists>code. cm_systemCode c = Some code
               \<and> committeeStored (tx_db t) code))
     (\<lambda>t. True)"
proof -
  let ?I = "\<lambda>(before :: committee list) (t :: \<lparr>detailUrls :: string list\<rparr> tx_scheme).
        \<not> tx_failed t
        \<and> (\<forall>c \<in> set before. \<exists>code. cm_systemCode c = Some code
               \<and> committeeStored (tx_db t) code)"
  have "ioValid (?I []) (committeePass1 apiKey committeesData) (\<lambda>u. ?I committeesData) (\<lambda>t. True)"
    unfolding committeePass1_def
  proof (rule ioValid_foreachE_prefix [where I = ?I])
    fix before c after
    show "ioValid (?I before)
       (bindE (pushDetailUrl (cm_url c @ ''&api_key='' @ apiKey)) (\<lambda>u. query (insertBaseCommittee c)))
       (\<lambda>u. ?I (before @ [c])) (\<lambda>t. True)"
    proof (rule ioValid_bindE [where R = "\<lambda>u. ?I before"])
      show "ioValid (?I before) (pushDetailUrl (cm_url c @ ''&api_key='' @ apiKey))
              (\<lambda>u. ?I before) (\<lambda>t. True)"
        by (rule ioValid_pushDetailUrl) simp
    next
      fix u :: unit
      show "ioValid (?I before) (query (insertBaseCommittee c)) (\<lambda>u. ?I (before @ [c])) (\<lambda>t. True)"
      proof (rule ioValid_query)
        fix t :: "\<lparr>detailUrls :: string list\<rparr> tx_scheme" and r d
        assume i: "?I before t" and nf: "\<not> tx_failed t"
          and s: "insertBaseCommittee c (tx_db t) = Inr (r, d)"
        from s obtain sc where sc: "cm_systemCode c = Some sc"
          by (auto elim: insertBaseCommittee_Inr)
        from i sc show "?I (before @ [c]) (passing d t)"
          by (auto simp: insertBaseCommittee_stored [OF s])
      qed simp_all
    qed
  qed
  then show ?thesis by (rule ioValid_weaken) simp_all
qed

lemma committeePass2_valid:
  assumes dist: "distinct (map cm_systemCode committeesData)"
  shows "ioValid (\<lambda>t. \<not> tx_failed t
        \<and> (\<forall>c \<in> set committeesData. \<exists>code. cm_systemCode c = Some code
               \<and> committeeStored (tx_db t) code))
     (committeePass2 committeesData)
     (\<lambda>u t. \<not> tx_failed t
        \<and> (\<forall>c \<in> set committeesData. \<exists>code. cm_systemCode c = Some code
               \<and> committeeStored (tx_db t) code
               \<and> (truthy (cm_parent c) \<longrightarrow> parentOf (tx_db t) code = cm_parent c)))
     (\<lambda>t. True)"
proof -
  let ?S = "\<lambda>t :: \<lparr>detailUrls :: string list\<rparr> tx_scheme. \<not> tx_failed t
        \<and> (\<forall>c \<in> set committeesData. \<exists>code. cm_systemCode c = Some code
               \<and> committeeStored (tx_db t) code)"
  let ?I = "\<lambda>(before :: committee list) t. ?S t
        \<and> (\<forall>c \<in> set before. truthy (cm_parent c)
              \<longrightarrow> parentOf (tx_db t) (the (cm_systemCode c)) = cm_parent c)"
  have "ioValid (?I []) (committeePass2 committeesData) (\<lambda>u. ?I committeesData) (\<lambda>t. True)"
    unfolding committeePass2_def
  proof (rule ioValid_foreachE_prefix [where I = ?I])
    fix before c after
    assume split: "committeesData = before @ c # after"
    with dist have "cm_systemCode c \<notin> cm_systemCode ` set before"
      by simp
    then have others: "\<And>b. b \<in> set before \<Longrightarrow> cm_systemCode b \<noteq> cm_systemCode c"
      by (metis imageI)
    from split have cin: "c \<in> set committeesData" and bin: "set before \<subseteq> set committeesData"
      by auto
    show "ioValid (?I before)
       (whenE (truthy (cm_parent c))
         (query (updateCommitteeParent (the (cm_parent c)) (cm_systemCode c))))
       (\<lambda>u. ?I (before @ [c])) (\<lambda>t. True)"
    proof (rule ioValid_whenE)
      assume tp: "truthy (cm_parent c)"
      then have pc: "cm_parent c = Some (the (cm_parent c))"
        by (cases "cm_parent c") (simp_all add: truthy_def)
      show "ioValid (?I before)
         (query (updateCommitteeParent (the (cm_parent c)) (cm_systemCode c)))
         (\<lambda>u. ?I (before @ [c])) (\<lambda>t. True)"
      proof (rule ioValid_query)
        fix t :: "\<lparr>detailUrls :: string list\<rparr> tx_scheme" and r d
        assume i: "?I before t" and nf: "\<not> tx_failed t"
          and s: "updateCommitteeParent (the (cm_parent c)) (cm_systemCode c) (tx_db t) = Inr (r, d)"
        from i cin obtain sc where sc: "cm_systemCode c = Some sc"
          and st: "committeeStored (tx_db t) sc" by auto
        have a: "?S (passing d t)"
          using i by (simp add: updateCommitteeParent_stored [OF s])
        have b: "parentOf d sc = cm_parent c"
          using st sc pc by (simp add: updateCommitteeParent_parentOf [OF s])
        have c: "\<And>b. b \<in> set before \<Longrightarrow> truthy (cm_parent b) \<Longrightarrow>
                 parentOf d (the (cm_systemCode b)) = cm_parent b"
        proof -
          fix b assume b: "b \<in> set before" and tb: "truthy (cm_parent b)"
          with bin i obtain sb where sb: "cm_systemCode b = Some sb" by blast
          from others [OF b] sb have "cm_systemCode c \<noteq> Some sb" by simp
          moreover from i b tb have "parentOf (tx_db t) (the (cm_systemCode b)) = cm_parent b"
            by blast
          ultimately show "parentOf d (the (cm_systemCode b)) = cm_parent b"
            using sb by (simp add: updateCommitteeParent_parentOf [OF s])
        qed
        from a b c sc show "?I (before @ [c]) (passing d t)"
          by auto
      qed simp_all
    next
      fix t :: "\<lparr>detailUrls :: string list\<rparr> tx_scheme"
      assume "\<not> truthy (cm_parent c)" and "?I before t"
      then show "?I (before @ [c]) t" by auto
    qed
  qed
  then show ?thesis
  proof (rule ioValid_weaken)
    fix u :: unit and t :: "\<lparr>detailUrls :: string list\<rparr> tx_scheme"
    assume i: "?I committeesData t"
    show "\<not> tx_failed t
        \<and> (\<forall>c \<in> set committeesData. \<exists>code. cm_systemCode c = Some code
               \<and> committeeStored (tx_db t) code
               \<and> (truthy (cm_parent c) \<longrightarrow> parentOf (tx_db t) code = cm_parent c))"
    proof (intro conjI ballI)
      from i show "\<not> tx_failed t" by simp
    next
      fix c assume c: "c \<in> set committeesData"
      with i obtain code where code: "cm_systemCode c = Some code"
        "committeeStored (tx_db t) code" by blast
      from i c have "truthy (cm_parent c)
         \<longrightarrow> parentOf (tx_db t) (the (cm_systemCode c)) = cm_parent c" by blast
      with code show "\<exists>code. cm_systemCode c = Some code
               \<and> committeeStored (tx_db t) code
               \<and> (truthy (cm_parent c) \<longrightarrow> parentOf (tx_db t) code = cm_parent c)"
        by simp
    qed
  qed simp_all
qed

lemma ioValid_query_passes:
  assumes ok: "\<And>t. P t \<Longrightarrow> \<not> tx_failed t \<and> True \<notin> set (tx_faults t)"
    and st: "\<And>t. P t \<Longrightarrow> \<exists>r d. stmt (tx_db t) = Inr (r, d) \<and> Q r (passing d t)"
  shows "ioValid P (query stmt) Q E"
  unfolding ioValid_def
proof (intro allI impI)
  fix t assume p: "P t"
  from ok [OF p] have nf: "\<not> tx_failed t" and nt: "True \<notin> set (tx_faults t)" by simp_all
  from nt have h: "\<not> (tx_faults t \<noteq> [] \<and> hd (tx_faults t))"
    by (cases "tx_faults t") auto
  from st [OF p] obtain r d where s: "stmt (tx_db t) = Inr (r, d)" and q: "Q r (passing d t)"
    by blast
  from nf h s q show "case query stmt t of (Inl e, t') \<Rightarrow> E t' | (Inr x, t') \<Rightarrow> Q x t'"
    by (auto simp: query_def)
qed

lemma no_fault_tl: "True \<notin> set xs \<Longrightarrow> True \<notin> set (tl xs)"
  by (cases xs) auto

lemma committeePass1_passes:
  assumes columns: "\<forall>c \<in> set committeesData.
      cm_systemCode c \<noteq> None \<and> cm_name c \<noteq> None \<and> cm_chamber c \<noteq> None"
  shows "ioValid (\<lambda>t. \<not> tx_failed t \<and> True \<notin> set (tx_faults t)
        \<and> (\<forall>code. committeeStored (tx_db t) code = old code))
     (committeePass1 apiKey committeesData)
     (\<lambda>u t. \<not> tx_failed t \<and> True \<notin> set (tx_faults t)
        \<and> (\<forall>code. committeeStored (tx_db t) code
               = (old code \<or> Some code \<in> cm_systemCode ` set committeesData)))
     (\<lambda>t. False)"
proof -
  let ?I = "\<lambda>(before :: committee list) (t :: \<lparr>detailUrls :: string list\<rparr> tx_scheme).
        \<not> tx_failed t \<and> True \<notin> set (tx_faults t)
        \<and> (\<forall>code. committeeStored (tx_db t) code
               = (old code \<or> Some code \<in> cm_systemCode ` set before))"
  have "ioValid (?I []) (committeePass1 apiKey committeesData) (\<lambda>u. ?I committeesData) (\<lambda>t. False)"
    unfolding committeePass1_def
  proof (rule ioValid_foreachE_prefix [where I = ?I])
    fix before c after
    assume split: "committeesData = before @ c # after"
    then have "c \<in> set committeesData" by simp
    with columns obtain sc nm ch where c: "cm_systemCode c = Some sc" "cm_name c = Some nm"
      "cm_chamber c = Some ch" by blast
    show "ioValid (?I before)
       (bindE (pushDetailUrl (cm_url c @ ''&api_key='' @ apiKey)) (\<lambda>u. query (insertBaseCommittee c)))
       (\<lambda>u. ?I (before @ [c])) (\<lambda>t. False)"
    proof (rule ioValid_bindE [where R = "\<lambda>u. ?I before"])
      show "ioValid (?I before) (pushDetailUrl (cm_url c @ ''&api_key='' @ apiKey))
              (\<lambda>u. ?I before) (\<lambda>t. False)"
        by (rule ioValid_pushDetailUrl) simp
    next
      fix u :: unit
      show "ioValid (?I before) (query (insertBaseCommittee c)) (\<lambda>u. ?I (before @ [c])) (\<lambda>t. False)"
      proof (rule ioValid_query_passes)
        fix t :: "\<lparr>detailUrls :: string list\<rparr> tx_scheme"
        assume i: "?I before t"
        then show "\<not> tx_failed t \<and> True \<notin> set (tx_faults t)" by simp
        from c obtain d where s: "insertBaseCommittee c (tx_db t) = Inr ((), d)"
          by (simp add: insertBaseCommittee_def)
        from i c have "?I (before @ [c]) (passing d t)"
          by (auto simp: insertBaseCommittee_stored [OF s] no_fault_tl)
        with s show "\<exists>r d. insertBaseCommittee c (tx_db t) = Inr (r, d)
                       \<and> ?I (before @ [c]) (passing d t)"
          by blast
      qed
    qed
  qed
  then show ?thesis by (rule ioValid_weaken) simp_all
qed

lemma committeePass2_passes:
  assumes parents: "\<forall>c \<in> set committeesData. truthy (cm_parent c) \<longrightarrow>
      cm_parent c \<in> cm_systemCode ` set committeesData \<or> old (the (cm_parent c))"
  shows "ioValid (\<lambda>t. \<not> tx_failed t \<and> True \<notin> set (tx_faults t)
        \<and> (\<forall>code. committeeStored (tx_db t) code
               = (old code \<or> Some code \<in> cm_systemCode ` set committeesData)))
     (committeePass2 committeesData)
     (\<lambda>u t. \<not> tx_failed t \<and> True \<notin> set (tx_faults t)
        \<and> (\<forall>code. committeeStored (tx_db t) code
               = (old code \<or> Some code \<in> cm_systemCode ` set committeesData)))
     (\<lambda>t. False)"
  unfolding committeePass2_def
proof (rule ioValid_foreachE)
  let ?J = "\<lambda>t :: \<lparr>detailUrls :: string list\<rparr> tx_scheme.
        \<not> tx_failed t \<and> True \<notin> set (tx_faults t)
        \<and> (\<forall>code. committeeStored (tx_db t) code
               = (old code \<or> Some code \<in> cm_systemCode ` set committeesData))"
  fix c assume cin: "c \<in> set committeesData"
  show "ioValid ?J
     (whenE (truthy (cm_parent c))
        (query (updateCommitteeParent (the (cm_parent c)) (cm_systemCode c))))
     (\<lambda>u. ?J) (\<lambda>t. False)"
  proof (rule ioValid_whenE)
    assume tp: "truthy (cm_parent c)"
    then have pc: "cm_parent c = Some (the (cm_parent c))"
      by (cases "cm_parent c") (simp_all add: truthy_def)
    from parents cin tp
    have known: "Some (the (cm_parent c)) \<in> cm_systemCode ` set committeesData
                   \<or> old (the (cm_parent c))"
      using pc by auto
    show "ioValid ?J (query (updateCommitteeParent (the (cm_parent c)) (cm_systemCode c)))
            (\<lambda>u. ?J) (\<lambda>t. False)"
    proof (rule ioValid_query_passes)
      fix t :: "\<lparr>detailUrls :: string list\<rparr> tx_scheme"
      assume j: "?J t"
      then show "\<not> tx_failed t \<and> True \<notin> set (tx_faults t)" by simp
      from j known have "committeeStored (tx_db t) (the (cm_parent c))" by blast
      then obtain d where s: "updateCommitteeParent (the (cm_parent c)) (cm_systemCode c) (tx_db t)
                                = Inr ((), d)"
        by (simp add: updateCommitteeParent_def)
      from j have "?J (passing d t)"
        by (simp add: updateCommitteeParent_stored [OF s] no_fault_tl)
      with s show "\<exists>r d. updateCommitteeParent (the (cm_parent c)) (cm_systemCode c) (tx_db t)
                           = Inr (r, d) \<and> ?J (passing d t)"
        by blast
    qed
  qed simp
qed


lemma well_formed_batch_commits:
  assumes columns: "\<forall>c \<in> set committeesData.
      cm_systemCode c \<noteq> None \<and> cm_name c \<noteq> None \<and> cm_chamber c \<noteq> None"
    and parents: "\<forall>c \<in> set committeesData. truthy (cm_parent c) \<longrightarrow>
      cm_parent c \<in> cm_systemCode ` set committeesData
      \<or> committeeStored stored (the (cm_parent c))"
    and faults: "True \<notin> set faults"
  shows "\<exists>urls stored'.
      upsertBaseCommittees apiKey faults committeesData stored = (urls, stored', Committed)
      \<and> (\<forall>code. committeeStored stored' code
            = (committeeStored stored code \<or> Some code \<in> cm_systemCode ` set committeesData))"
proof -
  let ?t0 = "\<lparr>tx_db = stored, tx_failed = False, tx_faults = faults, tx_log = [],
      detailUrls = []\<rparr>"
  let ?body = "bindE (committeePass1 apiKey committeesData) (\<lambda>u. committeePass2 committeesData)"
  let ?J = "\<lambda>t :: \<lparr>detailUrls :: string list\<rparr> tx_scheme.
        \<not> tx_failed t \<and> True \<notin> set (tx_faults t)
        \<and> (\<forall>code. committeeStored (tx_db t) code
               = (committeeStored stored code \<or> Some code \<in> cm_systemCode ` set committeesData))"
  have v: "ioValid (\<lambda>t. \<not> tx_failed t \<and> True \<notin> set (tx_faults t)
        \<and> (\<forall>code. committeeStored (tx_db t) code = committeeStored stored code))
       ?body (\<lambda>u. ?J) (\<lambda>t. False)"
    by (rule ioValid_bindE [OF committeePass1_passes [OF columns] committeePass2_passes [OF parents]])
  have p0: "\<not> tx_failed ?t0 \<and> True \<notin> set (tx_faults ?t0)
        \<and> (\<forall>code. committeeStored (tx_db ?t0) code = committeeStored stored code)"
    using faults by simp
  obtain r t' where body: "?body ?t0 = (r, t')" by (cases "?body ?t0")
  show ?thesis
  proof (cases r)
    case (Inl e)
    with ioValidD_error [OF v p0 body [unfolded Inl]] show ?thesis by simp
  next
    case (Inr u)
    from ioValidD_value [OF v p0 body [unfolded Inr]] have j: "?J t'" .
    then have nf: "\<not> tx_failed t'" by simp
    from body Inr nf
    have run: "upsertBaseCommittees apiKey faults committeesData stored
                 = (detailUrls t', tx_db t', Committed)"
      by (simp add: upsertBaseCommittees_def commit_def)
    from j have "\<forall>code. committeeStored (tx_db t') code
       = (committeeStored stored code \<or> Some code \<in> cm_systemCode ` set committeesData)"
      by simp
    with run show ?thesis by blast
  qed
qed

lemma committed_batch_is_linked:
  assumes run: "upsertBaseCommittees apiKey faults committeesData stored = (urls, stored', Committed)"
    and dist: "distinct (map cm_systemCode committeesData)"
    and child: "child \<in> set committeesData" and declared: "truthy (cm_parent child)"
  shows "\<exists>childCode. cm_systemCode child = Some childCode
            \<and> committeeStored stored' childCode
            \<and> parentOf stored' childCode = cm_parent child"
proof -
  let ?t0 = "\<lparr>tx_db = stored, tx_failed = False, tx_faults = faults, tx_log = [],
      detailUrls = []\<rparr>"
  let ?body = "bindE (committeePass1 apiKey committeesData) (\<lambda>u. committeePass2 committeesData)"
  from run obtain u t' where body: "?body ?t0 = (Inr u, t')" and st: "stored' = commit stored t'"
    by (auto simp: upsertBaseCommittees_def split: prod.splits sum.splits)
  have "ioValid (\<lambda>t. \<not> tx_failed t) ?body
     (\<lambda>u t. \<not> tx_failed t
        \<and> (\<forall>c \<in> set committeesData. \<exists>code. cm_systemCode c = Some code
               \<and> committeeStored (tx_db t) code
               \<and> (truthy (cm_parent c) \<longrightarrow> parentOf (tx_db t) code = cm_parent c)))
     (\<lambda>t. True)"
    by (rule ioValid_bindE [OF committeePass1_valid committeePass2_valid [OF dist]])
  from ioValidD_value [OF this _ body]
  have nf: "\<not> tx_failed t'"
    and all: "\<forall>c \<in> set committeesData. \<exists>code. cm_systemCode c = Some code
               \<and> committeeStored (tx_db t') code
               \<and> (truthy (cm_parent c) \<longrightarrow> parentOf (tx_db t') code = cm_parent c)"
    by simp_all
  from nf st have s': "stored' = tx_db t'" by (simp add: commit_def)
  from all child declared show ?thesis unfolding s' by blast
qed

lemma committeePass1_sets_no_parent:
  "parentOf (tx_db (snd (committeePass1 apiKey committeesData t))) code = parentOf (tx_db t) code"
proof -
  obtain r t' where p1: "committeePass1 apiKey committeesData t = (r, t')"
    by (cases "committeePass1 apiKey committeesData t")
  have v: "ioValid (\<lambda>s. \<forall>code. parentOf (tx_db s) code = parentOf (tx_db t) code)
     (committeePass1 apiKey committeesData)
     (\<lambda>u s. \<forall>code. parentOf (tx_db s) code = parentOf (tx_db t) code)
     (\<lambda>s. \<forall>code. parentOf (tx_db s) code = parentOf (tx_db t) code)"
    by (rule committeePass1_keeps_parents)
  have "parentOf (tx_db t') code = parentOf (tx_db t) code"
  proof (cases r)
    case (Inl e)
    with ioValidD_error [OF v _ p1 [unfolded Inl]] show ?thesis by simp
  next
    case (Inr x)
    with ioValidD_value [OF v _ p1 [unfolded Inr]] show ?thesis by simp
  qed
  with p1 show ?thesis by simp
qed

text \<open>
  Claim C7.  Take a batch with the \<open>NOT NULL\<close> columns of every committee present, every
  declared parent in the batch or already stored, distinct system codes, and no failure
  from outside the schema.  Then \<open>upsertBaseCommittees\<close> commits it, in whatever order the
  committees stand in the batch, and for every committee of the batch that declares a
  parent present in the batch both rows are stored and the stored parent pointer of the
  child is the system code of the parent.  Pass 1, however it ends, changes the parent
  pointer of no system code.
\<close>

theorem two_pass_links_parent:
  assumes columns: "\<forall>c \<in> set committeesData.
      cm_systemCode c \<noteq> None \<and> cm_name c \<noteq> None \<and> cm_chamber c \<noteq> None"
    and parents: "\<forall>c \<in> set committeesData. truthy (cm_parent c) \<longrightarrow>
      cm_parent c \<in> cm_systemCode ` set committeesData
      \<or> committeeStored stored (the (cm_parent c))"
    and faults: "True \<notin> set faults"
    and dist: "distinct (map cm_systemCode committeesData)"
    and child: "child \<in> set committeesData" and parent: "parent \<in> set committeesData"
    and declared: "truthy (cm_parent child)" "cm_parent child = cm_systemCode parent"
  shows "snd (snd (upsertBaseCommittees apiKey faults committeesData stored)) = Committed
         \<and> (\<exists>childCode parentCode.
            cm_systemCode child = Some childCode \<and> cm_systemCode parent = Some parentCode
            \<and> committeeStored (fst (snd (upsertBaseCommittees apiKey faults committeesData stored)))
                childCode
            \<and> committeeStored (fst (snd (upsertBaseCommittees apiKey faults committeesData stored)))
                parentCode
            \<and> parentOf (fst (snd (upsertBaseCommittees apiKey faults committeesData stored)))
                childCode = Some parentCode)
         \<and> parentOf (tx_db (snd (committeePass1 apiKey committeesData t))) code
             = parentOf (tx_db t) code"
proof -
  from well_formed_batch_commits [OF columns parents faults, of apiKey]
  obtain urls stored' where
    run: "upsertBaseCommittees apiKey faults committeesData stored = (urls, stored', Committed)"
    and st: "\<forall>code. committeeStored stored' code
       = (committeeStored stored code \<or> Some code \<in> cm_systemCode ` set committeesData)"
    by blast
  from committed_batch_is_linked [OF run dist child declared(1)]
  obtain cc where cc: "cm_systemCode child = Some cc" "committeeStored stored' cc"
    "parentOf stored' cc = cm_parent child" by blast
  from declared obtain pc where pc: "cm_systemCode parent = Some pc"
    by (cases "cm_systemCode parent") (simp_all add: truthy_def)
  from parent pc have "Some pc \<in> cm_systemCode ` set committeesData"
    by (metis imageI)
  then have ps: "committeeStored stored' pc" by (simp add: st)
  have link: "\<exists>childCode parentCode.
            cm_systemCode child = Some childCode \<and> cm_systemCode parent = Some parentCode
            \<and> committeeStored stored' childCode \<and> committeeStored stored' parentCode
            \<and> parentOf stored' childCode = Some parentCode"
    using cc pc ps declared by simp
  have p1: "parentOf (tx_db (snd (committeePass1 apiKey committeesData t))) code
             = parentOf (tx_db t) code"
    by (rule committeePass1_sets_no_parent)
  from link p1 show ?thesis unfolding run by simp
qed

lemmas io_eval =
  bindE_def returnE_def throwE_def catchE_def whenE_def query_def commit_def rollback_def
  upsertBy_def passing_def failing_def refused_def

theorem two_pass_links_parent_witness:
  "snd (snd (upsertBaseCommittees ''KEY'' [] exampleCommittees emptyDb)) = Committed
   \<and> distinct (map cm_systemCode exampleCommittees)
   \<and> committeeStored (fst (snd (upsertBaseCommittees ''KEY'' [] exampleCommittees emptyDb))) ''HSAG00''
   \<and> committeeStored (fst (snd (upsertBaseCommittees ''KEY'' [] exampleCommittees emptyDb))) ''HSAG''
   \<and> parentOf (fst (snd (upsertBaseCommittees ''KEY'' [] exampleCommittees emptyDb))) ''HSAG00''
       = Some ''HSAG''"
proof -
  have columns: "\<forall>c \<in> set exampleCommittees.
      cm_systemCode c \<noteq> None \<and> cm_name c \<noteq> None \<and> cm_chamber c \<noteq> None"
    by (simp add: exampleCommittees_def)
  have parents: "\<forall>c \<in> set exampleCommittees. truthy (cm_parent c) \<longrightarrow>
      cm_parent c \<in> cm_systemCode ` set exampleCommittees
      \<or> committeeStored emptyDb (the (cm_parent c))"
    by (simp add: exampleCommittees_def truthy_def)
  have faults: "True \<notin> set []"
    by simp
  have dist: "distinct (map cm_systemCode exampleCommittees)"
    by (simp add: exampleCommittees_def)
  have child: "exampleCommittees ! 0 \<in> set exampleCommittees"
    and parent: "exampleCommittees ! 1 \<in> set exampleCommittees"
    by (simp_all add: exampleCommittees_def)
  have declared: "truthy (cm_parent (exampleCommittees ! 0))"
    "cm_parent (exampleCommittees ! 0) = cm_systemCode (exampleCommittees ! 1)"
    by (simp_all add: exampleCommittees_def truthy_def)
  have codes: "cm_systemCode (exampleCommittees ! 0) = Some ''HSAG00''"
    "cm_systemCode (exampleCommittees ! 1) = Some ''HSAG''"
    by (simp_all add: exampleCommittees_def)
  from two_pass_links_parent [OF columns parents faults dist child parent declared,
      of "''KEY''"] codes dist
  show ?thesis by simp
qed

text \<open>
  The hypothesis on the parents is needed: one committee whose declared parent is
  neither in the batch nor stored fails the foreign key in pass 2, and the whole batch is
  rolled back, the pair \<open>HSAG00\<close>/\<open>HSAG\<close> with it.
\<close>

lemma orphan_rolls_back_batch:
  "snd (upsertBaseCommittees ''KEY'' [] exampleWithOrphan emptyDb) = (emptyDb, RolledBack)"
  by (simp add: upsertBaseCommittees_def committeePass1_def committeePass2_def
        pushDetailUrl_def insertBaseCommittee_def updateCommitteeParent_def
        committeeStored_def exampleWithOrphan_def exampleCommittees_def emptyDb_def
        truthy_def io_eval)

section \<open>The stored chamber of a committee\<close>

lemma insertCommitteeStub_chamberOf:
  assumes s: "insertCommitteeStub sc nm chamber d = Inr (u, d')"
    and known: "chamberOf d code = Some ch" "ch \<noteq> ''Unknown''"
  shows "chamberOf d' code = Some ch"
proof -
  from s have d': "committees d' = upsertBy (\<lambda>r. c_system_code r = sc)
         (\<lambda>r. r\<lparr>c_name := nm,
                c_chamber := (if c_chamber r = ''Unknown'' then chamber else c_chamber r)\<rparr>)
         \<lparr>c_system_code = sc, c_name = nm, c_chamber = chamber,
          c_committee_type_code = None, c_parent_committee_system_code = None,
          c_is_current = None, c_updated_at = None\<rparr>
         (committees d)"
    by (auto simp: insertCommitteeStub_def)
  from known obtain r where r: "find (\<lambda>r. c_system_code r = code) (committees d) = Some r"
    "c_chamber r = ch"
    by (auto simp: chamberOf_def split: option.splits)
  show ?thesis
    unfolding chamberOf_def d'
    by (subst find_upsertBy) (use r known in auto)
qed

lemma ensureCommitteeExists_keeps_chamber:
  assumes known: "ch \<noteq> ''Unknown''"
  shows "ioValid (\<lambda>t. chamberOf (tx_db t) code = Some ch) (ensureCommitteeExists committee)
           (\<lambda>u t. chamberOf (tx_db t) code = Some ch) (\<lambda>t. chamberOf (tx_db t) code = Some ch)"
proof (cases "truthy (cm_systemCode committee)")
  case False
  then show ?thesis by (simp add: ensureCommitteeExists_def ioValid_returnE)
next
  case True
  have body: "ioValid (\<lambda>t. chamberOf (tx_db t) code = Some ch)
     (case inferChamber committee of
                None \<Rightarrow> throwE RangeError
              | Some chamber \<Rightarrow>
                  query (insertCommitteeStub (the (cm_systemCode committee))
                           (orElse (cm_name committee) ''Unknown Committee'') chamber))
     (\<lambda>u t. chamberOf (tx_db t) code = Some ch) (\<lambda>t. chamberOf (tx_db t) code = Some ch)"
  proof (cases "inferChamber committee")
    case None
    then show ?thesis by (simp add: ioValid_throwE)
  next
    case (Some chamber)
    have "ioValid (\<lambda>t. chamberOf (tx_db t) code = Some ch)
       (query (insertCommitteeStub (the (cm_systemCode committee))
                           (orElse (cm_name committee) ''Unknown Committee'') chamber))
       (\<lambda>u t. chamberOf (tx_db t) code = Some ch) (\<lambda>t. chamberOf (tx_db t) code = Some ch)"
      by (rule ioValid_query) (simp_all add: insertCommitteeStub_chamberOf known)
    with Some show ?thesis by simp
  qed
  have "ioValid (\<lambda>t. chamberOf (tx_db t) code = Some ch)
     (catchE (case inferChamber committee of
                None \<Rightarrow> throwE RangeError
              | Some chamber \<Rightarrow>
                  query (insertCommitteeStub (the (cm_systemCode committee))
                           (orElse (cm_name committee) ''Unknown Committee'') chamber))
             (\<lambda>e. returnE ()))
     (\<lambda>u t. chamberOf (tx_db t) code = Some ch) (\<lambda>t. chamberOf (tx_db t) code = Some ch)"
    by (rule ioValid_catchE [OF body]) (simp add: ioValid_returnE)
  with True show ?thesis by (simp add: ensureCommitteeExists_def)
qed

lemma insertBaseCommittee_chamberOf:
  assumes "insertBaseCommittee c d = Inr (u, d')" and "cm_systemCode c = Some code"
  shows "chamberOf d' code = cm_chamber c"
proof -
  from assms obtain nm ch where c: "cm_chamber c = Some ch"
    and d': "committees d' = upsertBy (\<lambda>r. c_system_code r = code)
              (\<lambda>r. r\<lparr>c_name := nm, c_chamber := ch,
                     c_committee_type_code := cm_committeeTypeCode c\<rparr>)
              \<lparr>c_system_code = code, c_name = nm, c_chamber = ch,
               c_committee_type_code = cm_committeeTypeCode c,
               c_parent_committee_system_code = None, c_is_current = None,
               c_updated_at = None\<rparr>
              (committees d)"
    by (auto elim: insertBaseCommittee_Inr)
  have k: "\<And>r. find (\<lambda>r. c_system_code r = code) (committees d) = Some r \<Longrightarrow> c_system_code r = code"
    by (auto simp: find_Some_iff)
  show ?thesis
    unfolding chamberOf_def d' c
    by (subst find_upsertBy)
       (auto simp: find_None_list_ex [symmetric] split: option.splits dest: k)
qed

text \<open>
  Claim C5, as the code has it.  \<open>ensureCommitteeExists\<close>, the upsert of the bill script
  and the only one that infers a chamber, leaves every stored chamber other than
  \<open>Unknown\<close> as it is, whatever the payload and however the call ends.  The pass-1
  statement of the committee script stores the chamber of its payload.
\<close>

theorem known_chamber_kept_by_bill_script:
  "(chamberOf (tx_db t) code = Some ch \<and> ch \<noteq> ''Unknown''
      \<longrightarrow> chamberOf (tx_db (snd (ensureCommitteeExists committee t))) code = Some ch)
   \<and> (insertBaseCommittee payload d = Inr (u, d') \<and> cm_systemCode payload = Some code'
      \<longrightarrow> chamberOf d' code' = cm_chamber payload)"
proof (intro conjI impI)
  assume a: "chamberOf (tx_db t) code = Some ch \<and> ch \<noteq> ''Unknown''"
  obtain r t' where e: "ensureCommitteeExists committee t = (r, t')"
    by (cases "ensureCommitteeExists committee t")
  from a have v: "ioValid (\<lambda>t. chamberOf (tx_db t) code = Some ch) (ensureCommitteeExists committee)
           (\<lambda>u t. chamberOf (tx_db t) code = Some ch) (\<lambda>t. chamberOf (tx_db t) code = Some ch)"
    by (simp add: ensureCommitteeExists_keeps_chamber)
  have "chamberOf (tx_db t') code = Some ch"
  proof (cases r)
    case (Inl x)
    with ioValidD_error [OF v _ e [unfolded Inl]] a show ?thesis by simp
  next
    case (Inr x)
    with ioValidD_value [OF v _ e [unfolded Inr]] a show ?thesis by simp
  qed
  with e show "chamberOf (tx_db (snd (ensureCommitteeExists committee t))) code = Some ch"
    by simp
next
  assume "insertBaseCommittee payload d = Inr (u, d') \<and> cm_systemCode payload = Some code'"
  then show "chamberOf d' code' = cm_chamber payload"
    using insertBaseCommittee_chamberOf by blast
qed

theorem known_chamber_kept_by_bill_script_witness:
  "chamberOf (tx_db (beginTx storedHouse [])) ''HSAG'' = Some ''House''
   \<and> ''House'' \<noteq> ''Unknown''
   \<and> chamberOf (tx_db (snd (ensureCommitteeExists payloadUnknown (beginTx storedHouse []))))
        ''HSAG'' = Some ''House''
   \<and> insertBaseCommittee payloadUnknown storedHouse
       = Inr ((), storedHouse\<lparr>committees :=
           [\<lparr>c_system_code = ''HSAG'', c_name = ''Agriculture Committee'',
             c_chamber = ''Unknown'', c_committee_type_code = None,
             c_parent_committee_system_code = None, c_is_current = None,
             c_updated_at = None\<rparr>]\<rparr>)
   \<and> cm_systemCode payloadUnknown = Some ''HSAG''
   \<and> chamberOf (storedHouse\<lparr>committees :=
           [\<lparr>c_system_code = ''HSAG'', c_name = ''Agriculture Committee'',
             c_chamber = ''Unknown'', c_committee_type_code = None,
             c_parent_committee_system_code = None, c_is_current = None,
             c_updated_at = None\<rparr>]\<rparr>) ''HSAG'' = cm_chamber payloadUnknown"
proof -
  have h1: "chamberOf (tx_db (beginTx storedHouse [])) ''HSAG'' = Some ''House''"
    by (simp add: chamberOf_def beginTx_def storedHouse_def emptyDb_def)
  have h2: "''House'' \<noteq> ''Unknown''" by simp
  have h3: "insertBaseCommittee payloadUnknown storedHouse
       = Inr ((), storedHouse\<lparr>committees :=
           [\<lparr>c_system_code = ''HSAG'', c_name = ''Agriculture Committee'',
             c_chamber = ''Unknown'', c_committee_type_code = None,
             c_parent_committee_system_code = None, c_is_current = None,
             c_updated_at = None\<rparr>]\<rparr>)"
    by (simp add: insertBaseCommittee_def payloadUnknown_def storedHouse_def emptyDb_def
          upsertBy_def)
  have h4: "cm_systemCode payloadUnknown = Some ''HSAG''" by (simp add: payloadUnknown_def)
  from known_chamber_kept_by_bill_script [of "beginTx storedHouse []" "''HSAG''" "''House''"
      payloadUnknown payloadUnknown storedHouse "()" _ "''HSAG''"] h1 h2 h3 h4
  show ?thesis by simp
qed

text \<open>
  Claim C5 as stated fails on the committee script: its pass-1 upsert replaces the
  stored chamber \<open>House\<close> of \<open>HSAG\<close> by the \<open>Unknown\<close> of the payload.
\<close>

theorem committee_script_overwrites_chamber:
  "chamberOf storedHouse ''HSAG'' = Some ''House''
   \<and> upsertBaseCommittees ''KEY'' [] [payloadUnknown] storedHouse
       = ([''c/HSAG?format=json&api_key=KEY''],
          storedHouse\<lparr>committees :=
            [\<lparr>c_system_code = ''HSAG'', c_name = ''Agriculture Committee'',
              c_chamber = ''Unknown'', c_committee_type_code = None,
              c_parent_committee_system_code = None, c_is_current = None,
              c_updated_at = None\<rparr>]\<rparr>,
          Committed)
   \<and> chamberOf (fst (snd (upsertBaseCommittees ''KEY'' [] [payloadUnknown] storedHouse))) ''HSAG''
       = Some ''Unknown''"
  by (simp add: upsertBaseCommittees_def committeePass1_def committeePass2_def
        pushDetailUrl_def insertBaseCommittee_def updateCommitteeParent_def
        committeeStored_def payloadUnknown_def storedHouse_def emptyDb_def truthy_def
        chamberOf_def io_eval)

section \<open>What the statements of the bill script do to the watermarks\<close>

lemma keeps_returnE: "keeps I (returnE x)"
  unfolding keeps_def by (rule ioValid_returnE)

lemma keeps_throwE: "keeps I (throwE e)"
  unfolding keeps_def by (rule ioValid_throwE)

lemma keeps_bindE: "keeps I m \<Longrightarrow> (\<And>x. keeps I (f x)) \<Longrightarrow> keeps I (bindE m f)"
  unfolding keeps_def by (rule ioValid_bindE)

lemma keeps_catchE: "keeps I m \<Longrightarrow> (\<And>e. keeps I (h e)) \<Longrightarrow> keeps I (catchE m h)"
  unfolding keeps_def by (rule ioValid_catchE)

lemma keeps_whenE: "(c \<Longrightarrow> keeps I m) \<Longrightarrow> keeps I (whenE c m)"
  unfolding keeps_def by (rule ioValid_whenE)

lemma keeps_foreachE: "(\<And>x. keeps I (f x)) \<Longrightarrow> keeps I (foreachE xs f)"
  unfolding keeps_def by (rule ioValid_foreachE)

lemma keepsD: "keeps I m \<Longrightarrow> I t \<Longrightarrow> I (snd (m t))"
proof -
  assume k: "keeps I m" and i: "I t"
  obtain r t' where m: "m t = (r, t')" by (cases "m t")
  show "I (snd (m t))"
  proof (cases r)
    case (Inl e)
    with ioValidD_error [OF k [unfolded keeps_def] i m [unfolded Inl]] m show ?thesis by simp
  next
    case (Inr x)
    with ioValidD_value [OF k [unfolded keeps_def] i m [unfolded Inr]] m show ?thesis by simp
  qed
qed

lemmas keeps_intros =
  keeps_returnE keeps_throwE keeps_bindE keeps_catchE keeps_whenE keeps_foreachE

lemma watermarkOf_same_bills: "bills d' = bills d \<Longrightarrow> watermarkOf d' = watermarkOf d"
  by (rule ext) (simp add: watermarkOf_def)

lemma selectMembers_wm: "selectMembers ids d = Inr (r, d') \<Longrightarrow> watermarkOf d' = watermarkOf d"
  by (auto simp: selectMembers_def)

lemma insertMemberStub_wm: "insertMemberStub m d = Inr (r, d') \<Longrightarrow> watermarkOf d' = watermarkOf d"
  by (rule watermarkOf_same_bills) (auto simp: insertMemberStub_def split: option.splits)

lemma insertCommitteeStub_wm:
  "insertCommitteeStub sc nm ch d = Inr (r, d') \<Longrightarrow> watermarkOf d' = watermarkOf d"
  by (rule watermarkOf_same_bills) (auto simp: insertCommitteeStub_def)

lemma insertAction_wm: "insertAction b a d = Inr (r, d') \<Longrightarrow> watermarkOf d' = watermarkOf d"
  by (rule watermarkOf_same_bills) (auto simp: insertAction_def Let_def split: option.splits)

lemma insertActionCommittee_wm:
  "insertActionCommittee a c d = Inr (r, d') \<Longrightarrow> watermarkOf d' = watermarkOf d"
  by (rule watermarkOf_same_bills) (auto simp: insertActionCommittee_def split: if_splits)

lemma insertBillCommittee_wm:
  "insertBillCommittee b c a d = Inr (r, d') \<Longrightarrow> watermarkOf d' = watermarkOf d"
  by (rule watermarkOf_same_bills)
     (auto simp: insertBillCommittee_def split: option.splits if_splits)

lemma insertCosponsor_wm:
  "insertCosponsor b i c d = Inr (r, d') \<Longrightarrow> watermarkOf d' = watermarkOf d"
  by (rule watermarkOf_same_bills)
     (auto simp: insertCosponsor_def split: option.splits if_splits)

lemma upsertCommitteeReport_wm:
  "upsertCommitteeReport c d = Inr (r, d') \<Longrightarrow> watermarkOf d' = watermarkOf d"
  by (rule watermarkOf_same_bills)
     (auto simp: upsertCommitteeReport_def Let_def split: option.splits if_splits)

lemma insertReportAssociatedBill_wm:
  "insertReportAssociatedBill b i d = Inr (r, d') \<Longrightarrow> watermarkOf d' = watermarkOf d"
  by (rule watermarkOf_same_bills) (auto simp: insertReportAssociatedBill_def)

lemma insertRelatedBill_wm:
  "insertRelatedBill b i c d = Inr (r, d') \<Longrightarrow> watermarkOf d' = watermarkOf d"
  by (rule watermarkOf_same_bills) (auto simp: insertRelatedBill_def split: option.splits)

lemma insertSummary_wm: "insertSummary b s d = Inr (r, d') \<Longrightarrow> watermarkOf d' = watermarkOf d"
  by (rule watermarkOf_same_bills) (auto simp: insertSummary_def)

lemma insertSubject_wm: "insertSubject b s d = Inr (r, d') \<Longrightarrow> watermarkOf d' = watermarkOf d"
  by (rule watermarkOf_same_bills) (auto simp: insertSubject_def split: option.splits)

lemma insertTitle_wm: "insertTitle b s d = Inr (r, d') \<Longrightarrow> watermarkOf d' = watermarkOf d"
  by (rule watermarkOf_same_bills) (auto simp: insertTitle_def)

lemma insertTextVersion_wm:
  "insertTextVersion b s f d = Inr (r, d') \<Longrightarrow> watermarkOf d' = watermarkOf d"
  by (rule watermarkOf_same_bills) (auto simp: insertTextVersion_def split: option.splits)

lemma insertCboCostEstimate_wm:
  "insertCboCostEstimate b s d = Inr (r, d') \<Longrightarrow> watermarkOf d' = watermarkOf d"
  by (rule watermarkOf_same_bills) (auto simp: insertCboCostEstimate_def)

text \<open>A stub of a bill gets no watermark, and an existing row keeps the one it has.\<close>

lemma stub_upsert_wm:
  assumes upd: "\<And>r. b_last_processed_at (upd r) = b_last_processed_at r"
      "\<And>r. (b_congress (upd r), b_type (upd r), b_number (upd r)) = (b_congress r, b_type r, b_number r)"
    and new: "b_last_processed_at new = None"
  shows "(case find (\<lambda>r. (b_congress r, b_type r, b_number r) = k) (upsertBy same upd new rows) of
            None \<Rightarrow> None | Some r \<Rightarrow> b_last_processed_at r)
       = (case find (\<lambda>r. (b_congress r, b_type r, b_number r) = k) rows of
            None \<Rightarrow> None | Some r \<Rightarrow> b_last_processed_at r)"
  by (subst find_upsertBy) (auto simp: upd new split: option.splits)

lemma upsertRelatedBillStub_wm:
  assumes "upsertRelatedBillStub rb d = Inr (r, d')"
  shows "watermarkOf d' = watermarkOf d"
proof (rule ext)
  fix k
  from assms obtain same upd new where
    "bills d' = upsertBy same upd new (bills d)"
    "\<And>r. b_last_processed_at (upd r) = b_last_processed_at r"
    "\<And>r. (b_congress (upd r), b_type (upd r), b_number (upd r)) = (b_congress r, b_type r, b_number r)"
    "b_last_processed_at new = None"
    by (auto simp: upsertRelatedBillStub_def Let_def split: option.splits)
  then show "watermarkOf d' k = watermarkOf d k"
    unfolding watermarkOf_def by (simp add: stub_upsert_wm)
qed

lemma upsertAssociatedBillStub_wm:
  assumes "upsertAssociatedBillStub ab d = Inr (r, d')"
  shows "watermarkOf d' = watermarkOf d"
proof (rule ext)
  fix k
  from assms obtain c t n where
    d': "bills d' = upsertBy (\<lambda>r. b_congress r = c \<and> b_type r = t \<and> b_number r = n)
          (\<lambda>r. r\<lparr>b_congress := c\<rparr>)
          \<lparr>b_id = freshId (map b_id (bills d)), b_congress = c,
                     b_type = t, b_number = n, b_origin_chamber = None,
                     b_title = None, b_introduced_date = None, b_policy_area_name = None,
                     b_sponsor_bioguide_id = None, b_is_by_request = None,
                     b_constitutional_authority_statement_text = None, b_updated_at = None,
                     b_updated_at_including_text = None, b_last_processed_at = None\<rparr> (bills d)"
    by (auto simp: upsertAssociatedBillStub_def Let_def split: option.splits)
  have m: "map (\<lambda>r. if b_congress r = c \<and> b_type r = t \<and> b_number r = n
                      then r\<lparr>b_congress := c\<rparr> else r) (bills d) = bills d"
    by (induction "bills d") (auto simp: map_idI)
  show "watermarkOf d' k = watermarkOf d k"
    unfolding watermarkOf_def d' upsertBy_def
    by (auto simp: m find_append_new find_None_list_ex [symmetric] split: option.splits)
qed

section \<open>What the parts of \<open>saveBillBatchToDb\<close> keep\<close>

lemma keeps_query_qstable:
  assumes st: "qstable I"
    and stmt: "\<And>d r d'. stmt d = Inr (r, d') \<Longrightarrow> watermarkOf d' = watermarkOf d"
  shows "keeps I (query stmt)"
  unfolding keeps_def
proof (rule ioValid_query)
  fix t r d
  assume "I t" "\<not> tx_failed t" "tx_faults t = [] \<or> \<not> hd (tx_faults t)"
    "stmt (tx_db t) = Inr (r, d)"
  with st stmt [of "tx_db t" r d] show "I (passing d t)"
    unfolding qstable_def by (metis (full_types))
next
  fix t assume "I t" "tx_failed t"
  with st show "I (refused t)" unfolding qstable_def by (metis (full_types))
next
  fix t assume "I t" "\<not> tx_failed t"
  with st show "I (failing t)" unfolding qstable_def by (metis (full_types))
qed

lemma keeps_query_fstable:
  assumes st: "fstable I"
  shows "keeps I (query stmt)"
  unfolding keeps_def
proof (rule ioValid_query)
  fix t r d
  assume "I t" "\<not> tx_failed t" "tx_faults t = [] \<or> \<not> hd (tx_faults t)"
  with st show "I (passing d t)"
    unfolding fstable_def by (metis (full_types))
next
  fix t assume "I t" "tx_failed t"
  with st show "I (refused t)" unfolding fstable_def by (metis (full_types))
next
  fix t assume "I t" "\<not> tx_failed t"
  with st show "I (failing t)" unfolding fstable_def by (metis (full_types))
qed

lemma fstable_qstable: "fstable I \<Longrightarrow> qstable I"
  unfolding fstable_def qstable_def by (metis (full_types))

lemma qstable_observe:
  assumes mono: "\<And>w. Q False w \<Longrightarrow> Q True w"
  shows "qstable (observe Q)"
  unfolding qstable_def observe_def using mono by auto

lemmas statement_wm =
  selectMembers_wm insertMemberStub_wm insertCommitteeStub_wm insertAction_wm
  insertActionCommittee_wm insertBillCommittee_wm insertCosponsor_wm upsertCommitteeReport_wm
  insertReportAssociatedBill_wm insertRelatedBill_wm insertSummary_wm insertSubject_wm
  insertTitle_wm insertTextVersion_wm insertCboCostEstimate_wm upsertRelatedBillStub_wm

lemma ensureCommitteeExists_keeps:
  assumes st: "qstable I"
  shows "keeps I (ensureCommitteeExists committee)"
  unfolding ensureCommitteeExists_def
  by (auto intro!: keeps_intros keeps_query_qstable [OF st] intro: statement_wm split: option.split)

lemma insertMissingMembers_keeps:
  assumes st: "qstable I"
  shows "keeps I (insertMissingMembers fetchMember ids)"
  unfolding insertMissingMembers_def
  by (auto intro!: keeps_intros keeps_query_qstable [OF st] intro: statement_wm
        split: option.split response.split)

lemma saveActions_keeps:
  assumes st: "qstable I"
  shows "keeps I (saveActions billId bill)"
  unfolding saveActions_def
  by (auto intro!: keeps_intros keeps_query_qstable [OF st] ensureCommitteeExists_keeps [OF st]
        intro: statement_wm split: option.split)

lemma saveBillCommittees_keeps:
  assumes st: "qstable I"
  shows "keeps I (saveBillCommittees billId bill)"
  unfolding saveBillCommittees_def
  by (auto intro!: keeps_intros keeps_query_qstable [OF st] ensureCommitteeExists_keeps [OF st]
        intro: statement_wm split: option.split)

lemma saveCosponsors_keeps:
  assumes st: "qstable I"
  shows "keeps I (saveCosponsors fetchMember billId bill)"
  unfolding saveCosponsors_def
  by (auto intro!: keeps_intros keeps_query_qstable [OF st] insertMissingMembers_keeps [OF st]
        intro: statement_wm split: option.split)

lemma saveCommitteeReports_keeps:
  assumes st: "qstable I"
  shows "keeps I (saveCommitteeReports billId bill)"
  unfolding saveCommitteeReports_def
  by (auto intro!: keeps_intros keeps_query_qstable [OF st] intro: statement_wm
        split: option.split response.split)

lemma saveRelatedBills_keeps:
  assumes st: "qstable I"
  shows "keeps I (saveRelatedBills billId bill)"
  unfolding saveRelatedBills_def
  by (auto intro!: keeps_intros keeps_query_qstable [OF st] intro: statement_wm split: option.split)

lemma saveSummaries_keeps:
  assumes st: "qstable I"
  shows "keeps I (saveSummaries billId bill)"
  unfolding saveSummaries_def
  by (auto intro!: keeps_intros keeps_query_qstable [OF st] intro: statement_wm split: option.split)

lemma saveSubjects_keeps:
  assumes st: "qstable I"
  shows "keeps I (saveSubjects billId bill)"
  unfolding saveSubjects_def
  by (auto intro!: keeps_intros keeps_query_qstable [OF st] intro: statement_wm
        split: option.split list.split)

lemma saveTitles_keeps:
  assumes st: "qstable I"
  shows "keeps I (saveTitles billId bill)"
  unfolding saveTitles_def
  by (auto intro!: keeps_intros keeps_query_qstable [OF st] intro: statement_wm split: option.split)

lemma saveTextVersions_keeps:
  assumes st: "qstable I"
  shows "keeps I (saveTextVersions billId bill)"
  unfolding saveTextVersions_def
  by (auto intro!: keeps_intros keeps_query_qstable [OF st] intro: statement_wm split: option.split)

lemma saveCboCostEstimates_keeps:
  assumes st: "qstable I"
  shows "keeps I (saveCboCostEstimates billId bill)"
  unfolding saveCboCostEstimates_def
  by (auto intro!: keeps_intros keeps_query_qstable [OF st] intro: statement_wm split: option.split)

lemma saveSubResources_keeps:
  assumes st: "qstable I"
  shows "keeps I (saveSubResources fetchMember billId bill)"
  unfolding saveSubResources_def
  by (intro keeps_bindE saveActions_keeps saveBillCommittees_keeps
        saveCosponsors_keeps saveCommitteeReports_keeps saveRelatedBills_keeps
        saveSummaries_keeps saveSubjects_keeps saveTitles_keeps
        saveTextVersions_keeps saveCboCostEstimates_keeps st)

lemma saveBill_keeps:
  assumes st: "fstable I"
  shows "keeps I (saveBill now fetchMember bill)"
  unfolding saveBill_def
  by (intro keeps_bindE keeps_query_fstable saveSubResources_keeps fstable_qstable st)

lemma saveBatch_keeps:
  assumes st: "fstable I"
  shows "keeps I (saveBatch now fetchMember billDataBatch)"
  unfolding saveBatch_def
  by (intro keeps_bindE keeps_foreachE insertMissingMembers_keeps saveBill_keeps
        fstable_qstable st)

section \<open>Atomicity of a batch\<close>

lemma fstable_log: "fstable (\<lambda>t. True \<in> set (tx_log t) \<longrightarrow> tx_failed t)"
  unfolding fstable_def by simp

lemma saveBatch_log:
  "True \<in> set (tx_log (snd (saveBatch now fetchMember billDataBatch (beginTx stored faults))))
   \<Longrightarrow> tx_failed (snd (saveBatch now fetchMember billDataBatch (beginTx stored faults)))"
  using keepsD [OF saveBatch_keeps [OF fstable_log], of "beginTx stored faults" now fetchMember
      billDataBatch]
  by (simp add: beginTx_def)

text \<open>
  Claim C1.  If any statement that \<open>saveBillBatchToDb\<close> sends for a batch fails, whatever
  the statement and the reason, or if anything else in the batch throws, the stored rows
  after the call are the stored rows before it: nothing of the batch is kept.  The call
  itself returns, so that the batches after it are processed.
\<close>

theorem failed_batch_leaves_store:
  "batchWriteFailed now fetchMember faults billDataBatch stored
     \<or> batchThrew now fetchMember faults billDataBatch stored
   \<Longrightarrow> fst (saveBillBatchToDb now fetchMember faults billDataBatch stored) = stored"
proof -
  assume a: "batchWriteFailed now fetchMember faults billDataBatch stored
     \<or> batchThrew now fetchMember faults billDataBatch stored"
  obtain r t where run: "saveBatch now fetchMember billDataBatch (beginTx stored faults) = (r, t)"
    by (cases "saveBatch now fetchMember billDataBatch (beginTx stored faults)")
  show ?thesis
  proof (cases r)
    case (Inl e)
    with run show ?thesis by (simp add: saveBillBatchToDb_def rollback_def)
  next
    case (Inr u)
    with a run have "True \<in> set (tx_log t)"
      by (simp add: batchWriteFailed_def batchThrew_def)
    with saveBatch_log [of now fetchMember billDataBatch stored faults] run
    have "tx_failed t" by simp
    with run Inr show ?thesis by (simp add: saveBillBatchToDb_def commit_def)
  qed
qed

lemmas bill_eval =
  saveBillBatchToDb_def saveBatch_def saveBill_def saveSubResources_def saveActions_def
  saveBillCommittees_def saveCosponsors_def saveCommitteeReports_def saveRelatedBills_def
  saveSummaries_def saveSubjects_def saveTitles_def saveTextVersions_def
  saveCboCostEstimates_def insertMissingMembers_def sponsorIds_def billSponsorId_def
  billIsByRequest_def upsertBill_def selectMembers_def insertMemberStub_def
  ensureCommitteeExists_def insertCommitteeStub_def memberStored_def committeeStored_def
  beginTx_def freshId_def orElse_def truthy_def emptyDb_def plainBill_def noMember_def
  io_eval

text \<open>
  Two runs on the empty store.  In the first the second bill of the batch has no
  congress, and its insert fails.  In the second the only statement that fails is the
  upsert of a committee, whose error \<open>ensureCommitteeExists\<close> swallows: the script goes on
  to \<open>COMMIT\<close> and prints that the batch was committed, and the store is unchanged all the
  same.
\<close>

theorem failed_batch_leaves_store_witness:
  "batchWriteFailed 1000 noMember [] [plainBill (Some 119) ''HR'' 1, plainBill None ''HR'' 2] emptyDb
   \<and> saveBillBatchToDb 1000 noMember [] [plainBill (Some 119) ''HR'' 1, plainBill None ''HR'' 2]
        emptyDb = (emptyDb, Some RolledBack)
   \<and> batchWriteFailed 1000 noMember [False, True]
        [(plainBill (Some 119) ''HR'' 1)\<lparr>bl_committees := Some [houseCommittee]\<rparr>] emptyDb
   \<and> saveBillBatchToDb 1000 noMember [False, True]
        [(plainBill (Some 119) ''HR'' 1)\<lparr>bl_committees := Some [houseCommittee]\<rparr>] emptyDb
       = (emptyDb, Some Committed)"
proof -
  have f1: "batchWriteFailed 1000 noMember []
      [plainBill (Some 119) ''HR'' 1, plainBill None ''HR'' 2] emptyDb"
    by (simp add: batchWriteFailed_def bill_eval)
  have o1: "snd (saveBillBatchToDb 1000 noMember []
      [plainBill (Some 119) ''HR'' 1, plainBill None ''HR'' 2] emptyDb) = Some RolledBack"
    by (simp add: bill_eval)
  have i2: "inferChamber houseCommittee = Some ''House''"
    by (subst inferChamber.simps) (simp add: houseCommittee_def truthy_def)
  have f2: "batchWriteFailed 1000 noMember [False, True]
        [(plainBill (Some 119) ''HR'' 1)\<lparr>bl_committees := Some [houseCommittee]\<rparr>] emptyDb"
    by (simp add: batchWriteFailed_def bill_eval i2 [unfolded houseCommittee_def]
          houseCommittee_def)
  have o2: "snd (saveBillBatchToDb 1000 noMember [False, True]
        [(plainBill (Some 119) ''HR'' 1)\<lparr>bl_committees := Some [houseCommittee]\<rparr>] emptyDb)
      = Some Committed"
    by (simp add: bill_eval i2 [unfolded houseCommittee_def] houseCommittee_def)
  from failed_batch_leaves_store [of 1000 noMember "[]"
      "[plainBill (Some 119) ''HR'' 1, plainBill None ''HR'' 2]" emptyDb] f1
  have s1: "fst (saveBillBatchToDb 1000 noMember []
      [plainBill (Some 119) ''HR'' 1, plainBill None ''HR'' 2] emptyDb) = emptyDb"
    by simp
  from failed_batch_leaves_store [of 1000 noMember "[False, True]"
      "[(plainBill (Some 119) ''HR'' 1)\<lparr>bl_committees := Some [houseCommittee]\<rparr>]" emptyDb] f2
  have s2: "fst (saveBillBatchToDb 1000 noMember [False, True]
        [(plainBill (Some 119) ''HR'' 1)\<lparr>bl_committees := Some [houseCommittee]\<rparr>] emptyDb)
      = emptyDb"
    by simp
  from f1 f2 s1 o1 s2 o2 show ?thesis by (simp add: prod_eq_iff)
qed

section \<open>Watermarks of a batch\<close>

lemma find_upsertBy_same:
  assumes "\<And>r. c r \<Longrightarrow> P (upd r) = P r"
  shows "find P (upsertBy c upd new rows) =
     (if list_ex c rows then map_option (\<lambda>r. if c r then upd r else r) (find P rows)
      else case find P rows of Some r \<Rightarrow> Some r | None \<Rightarrow> if P new then Some new else None)"
proof (cases "list_ex c rows")
  case True
  have "find P (map (\<lambda>r. if c r then upd r else r) rows)
          = map_option (\<lambda>r. if c r then upd r else r) (find P rows)"
    by (rule find_map_same) (simp add: assms)
  with True show ?thesis by (simp add: upsertBy_def)
next
  case False
  then show ?thesis by (simp add: upsertBy_def find_append_new)
qed

lemma find_key: "find P rows = Some r \<Longrightarrow> P r"
  by (auto simp: find_Some_iff)

lemma upsertBill_wm:
  assumes "upsertBill now bill d = Inr (i, d')"
  shows "\<exists>c ty n. bl_congress bill = Some c \<and> bl_type bill = Some ty \<and> bl_number bill = Some n
           \<and> watermarkOf d' = (watermarkOf d)((c, ty, n) := Some now)"
proof -
  from assms obtain c ty n where
    key: "bl_congress bill = Some c" "bl_type bill = Some ty" "bl_number bill = Some n"
    by (auto simp: upsertBill_def split: option.splits)
  define new where "new = \<lparr>b_id = freshId (map b_id (bills d)), b_congress = c,
                        b_type = ty, b_number = n,
                        b_origin_chamber = bl_originChamber bill,
                        b_title = Some (orElse (bl_title bill) ''Untitled Bill''),
                        b_introduced_date = bl_introducedDate bill,
                        b_policy_area_name = bl_policyAreaName bill,
                        b_sponsor_bioguide_id = billSponsorId bill,
                        b_is_by_request = Some (billIsByRequest bill),
                        b_constitutional_authority_statement_text =
                          bl_constitutionalAuthorityStatementText bill,
                        b_updated_at = bl_updateDate bill,
                        b_updated_at_including_text = bl_updateDateIncludingText bill,
                        b_last_processed_at = Some now\<rparr>"
  have new: "b_congress new = c" "b_type new = ty" "b_number new = n"
      "b_last_processed_at new = Some now"
    by (simp_all add: new_def)
  from assms key have d': "bills d' =
      upsertBy (\<lambda>r. b_congress r = c \<and> b_type r = ty \<and> b_number r = n)
               (\<lambda>r. new\<lparr>b_id := b_id r\<rparr>) new (bills d)"
    by (auto simp: upsertBill_def Let_def new_def split: if_splits)
  let ?same = "\<lambda>r. b_congress r = c \<and> b_type r = ty \<and> b_number r = n"
  have "watermarkOf d' k = ((watermarkOf d)((c, ty, n) := Some now)) k" for k
  proof -
    let ?P = "\<lambda>r. (b_congress r, b_type r, b_number r) = k"
    have f: "find ?P (bills d') =
       (if list_ex ?same (bills d)
        then map_option (\<lambda>r. if ?same r then new\<lparr>b_id := b_id r\<rparr> else r) (find ?P (bills d))
        else case find ?P (bills d) of Some r \<Rightarrow> Some r
             | None \<Rightarrow> if ?P new then Some new else None)"
      unfolding d' by (rule find_upsertBy_same) (auto simp: new)
    show ?thesis
    proof (cases "k = (c, ty, n)")
      case True
      have e: "list_ex ?same (bills d) = (find ?P (bills d) \<noteq> None)"
        by (simp add: find_None_list_ex True)
      show ?thesis
      proof (cases "find ?P (bills d)")
        case None
        with e f True new show ?thesis by (simp add: watermarkOf_def)
      next
        case (Some r)
        from find_key [OF Some] True have "?same r" by simp
        with e f True new Some show ?thesis by (simp add: watermarkOf_def)
      qed
    next
      case False
      show ?thesis
      proof (cases "find ?P (bills d)")
        case None
        with f False new show ?thesis by (auto simp: watermarkOf_def)
      next
        case (Some r)
        from find_key [OF Some] False have "\<not> ?same r" by auto
        with f False Some show ?thesis by (auto simp: watermarkOf_def)
      qed
    qed
  qed
  with key show ?thesis by blast
qed

lemma keeps_ioValid: "keeps I m \<Longrightarrow> ioValid I m (\<lambda>u. I) (\<lambda>t. True)"
  unfolding keeps_def by (erule ioValid_weaken) simp_all

lemma saveBill_wm:
  "ioValid (\<lambda>t. watermarkOf (tx_db t) = w) (saveBill now fetchMember bill)
     (\<lambda>u t. \<exists>c ty n. bl_congress bill = Some c \<and> bl_type bill = Some ty
                \<and> bl_number bill = Some n
                \<and> watermarkOf (tx_db t) = w((c, ty, n) := Some now))
     (\<lambda>t. True)"
proof -
  let ?Q = "\<lambda>(f :: bool) w'. \<exists>c ty n. bl_congress bill = Some c \<and> bl_type bill = Some ty
                \<and> bl_number bill = Some n \<and> w' = w((c, ty, n) := Some now)"
  have q: "qstable (observe ?Q)" by (rule qstable_observe) simp
  have first: "ioValid (\<lambda>t. watermarkOf (tx_db t) = w) (query (upsertBill now bill))
     (\<lambda>billId. observe ?Q) (\<lambda>t. True)"
    by (rule ioValid_query) (auto simp: observe_def dest!: upsertBill_wm)
  have "ioValid (\<lambda>t. watermarkOf (tx_db t) = w) (saveBill now fetchMember bill)
          (\<lambda>u. observe ?Q) (\<lambda>t. True)"
    unfolding saveBill_def
    by (rule ioValid_bindE [OF first]) (rule keeps_ioValid [OF saveSubResources_keeps [OF q]])
  then show ?thesis by (simp add: observe_def [abs_def])
qed

lemma inBatch_append:
  "inBatch (before @ [b]) k =
     (inBatch before k \<or> (bl_congress b = Some (fst k) \<and> bl_type b = Some (fst (snd k))
                            \<and> bl_number b = Some (snd (snd k))))"
  by (simp add: inBatch_def)

lemma saveBatch_wm:
  "ioValid (\<lambda>t. watermarkOf (tx_db t) = w) (saveBatch now fetchMember billDataBatch)
     (\<lambda>u t. watermarkOf (tx_db t) = (\<lambda>k. if inBatch billDataBatch k then Some now else w k))
     (\<lambda>t. True)"
proof -
  let ?I = "\<lambda>(before :: bill list) (t :: 'a tx_scheme).
      watermarkOf (tx_db t) = (\<lambda>k. if inBatch before k then Some now else w k)"
  have loop: "ioValid (?I []) (foreachE billDataBatch (saveBill now fetchMember))
     (\<lambda>u. ?I billDataBatch) (\<lambda>t. True)"
  proof (rule ioValid_foreachE_prefix [where I = ?I])
    fix before b after
    have "ioValid (?I before) (saveBill now fetchMember b)
       (\<lambda>u t. \<exists>c ty n. bl_congress b = Some c \<and> bl_type b = Some ty \<and> bl_number b = Some n
                \<and> watermarkOf (tx_db t)
                    = (\<lambda>k. if inBatch before k then Some now else w k)((c, ty, n) := Some now))
       (\<lambda>t. True)"
      by (rule saveBill_wm)
    then show "ioValid (?I before) (saveBill now fetchMember b) (\<lambda>u. ?I (before @ [b])) (\<lambda>t. True)"
      by (rule ioValid_weaken) (auto simp: inBatch_append fun_eq_iff)
  qed
  have q: "qstable (observe (\<lambda>(f :: bool) w'. w' = w))"
    by (rule qstable_observe) simp
  have first: "ioValid (\<lambda>t. watermarkOf (tx_db t) = w)
     (insertMissingMembers fetchMember (sponsorIds billDataBatch)) (\<lambda>u. ?I []) (\<lambda>t. True)"
    using keeps_ioValid [OF insertMissingMembers_keeps [OF q]]
    by (simp add: observe_def [abs_def] inBatch_def)
  show ?thesis
    unfolding saveBatch_def
    by (rule ioValid_bindE [OF first]) (rule loop)
qed

text \<open>
  Claim C8.  After \<open>saveBillBatchToDb\<close> the watermark of a bill identifier is the time of
  the transaction exactly when the transaction was committed and the batch holds a bill
  with that identifier (whose row the transaction then has written); every other
  watermark is what it was before, in particular every watermark after a transaction that
  was rolled back.  The two statements that store a stub of a bill (for a related bill,
  and in the committee script for the bill of a report) leave every watermark as it is.
\<close>

theorem watermark_follows_committed_write:
  "watermarkOf (fst (saveBillBatchToDb now fetchMember faults billDataBatch stored)) k
     = (if batchCommitted now fetchMember faults billDataBatch stored \<and> inBatch billDataBatch k
        then Some now else watermarkOf stored k)
   \<and> watermarkOf (case upsertRelatedBillStub relatedBill d of Inl e \<Rightarrow> d | Inr (i, d') \<Rightarrow> d')
       = watermarkOf d
   \<and> watermarkOf (case upsertAssociatedBillStub associatedBill d of Inl e \<Rightarrow> d | Inr (i, d') \<Rightarrow> d')
       = watermarkOf d"
proof (intro conjI)
  obtain r t where run: "saveBatch now fetchMember billDataBatch (beginTx stored faults) = (r, t)"
    by (cases "saveBatch now fetchMember billDataBatch (beginTx stored faults)")
  show "watermarkOf (fst (saveBillBatchToDb now fetchMember faults billDataBatch stored)) k
     = (if batchCommitted now fetchMember faults billDataBatch stored \<and> inBatch billDataBatch k
        then Some now else watermarkOf stored k)"
  proof (cases r)
    case (Inl e)
    with run show ?thesis
      by (simp add: saveBillBatchToDb_def batchCommitted_def rollback_def)
  next
    case (Inr u)
    have "watermarkOf (tx_db (beginTx stored faults)) = watermarkOf stored"
      by (simp add: beginTx_def)
    from ioValidD_value [OF saveBatch_wm this run [unfolded Inr]]
    have w: "watermarkOf (tx_db t) k
      = (if inBatch billDataBatch k then Some now else watermarkOf stored k)"
      by simp
    show ?thesis
    proof (cases "billDataBatch = []")
      case True
      then show ?thesis by (simp add: saveBillBatchToDb_def inBatch_def)
    next
      case False
      with run Inr w show ?thesis
        by (simp add: saveBillBatchToDb_def batchCommitted_def commit_def)
    qed
  qed
next
  show "watermarkOf (case upsertRelatedBillStub relatedBill d of Inl e \<Rightarrow> d | Inr (i, d') \<Rightarrow> d')
       = watermarkOf d"
    by (cases "upsertRelatedBillStub relatedBill d")
       (auto simp: upsertRelatedBillStub_wm)
next
  show "watermarkOf (case upsertAssociatedBillStub associatedBill d of Inl e \<Rightarrow> d | Inr (i, d') \<Rightarrow> d')
       = watermarkOf d"
    by (cases "upsertAssociatedBillStub associatedBill d")
       (auto simp: upsertAssociatedBillStub_wm)
qed

theorem watermark_follows_committed_write_witness:
  "batchCommitted 1000 noMember [] [billWithRelated] storedS5
   \<and> watermarkOf (fst (saveBillBatchToDb 1000 noMember [] [billWithRelated] storedS5))
        (119, ''HR'', 1) = Some 1000
   \<and> watermarkOf (fst (saveBillBatchToDb 1000 noMember [] [billWithRelated] storedS5))
        (119, ''S'', 5) = Some 500
   \<and> \<not> batchCommitted 1000 noMember [True] [billWithRelated] storedS5
   \<and> watermarkOf (fst (saveBillBatchToDb 1000 noMember [True] [billWithRelated] storedS5))
        (119, ''HR'', 1) = None"
proof -
  have c1: "batchCommitted 1000 noMember [] [billWithRelated] storedS5"
    by (simp add: batchCommitted_def bill_eval upsertRelatedBillStub_def storedS5_def
          stubBillRow_def billWithRelated_def)
  have c2: "\<not> batchCommitted 1000 noMember [True] [billWithRelated] storedS5"
    by (simp add: batchCommitted_def bill_eval upsertRelatedBillStub_def storedS5_def
          stubBillRow_def billWithRelated_def)
  have b: "inBatch [billWithRelated] (119, ''HR'', 1)" "\<not> inBatch [billWithRelated] (119, ''S'', 5)"
    by (simp_all add: inBatch_def billWithRelated_def plainBill_def)
  have s: "watermarkOf storedS5 (119, ''S'', 5) = Some 500"
    "watermarkOf storedS5 (119, ''HR'', 1) = None"
    by (simp_all add: watermarkOf_def storedS5_def stubBillRow_def emptyDb_def)
  from watermark_follows_committed_write [of 1000 noMember "[]" "[billWithRelated]" storedS5
      "(119, ''HR'', 1)"]
    watermark_follows_committed_write [of 1000 noMember "[]" "[billWithRelated]" storedS5
      "(119, ''S'', 5)"]
    watermark_follows_committed_write [of 1000 noMember "[True]" "[billWithRelated]" storedS5
      "(119, ''HR'', 1)"]
    c1 c2 b s
  show ?thesis by simp
qed

section \<open>References to members that the upstream does not resolve\<close>

text \<open>
  Claim C3.  A batch with a bill whose sponsor is not stored, while the member endpoint
  answers the fetch of that sponsor with a status that is not ok: no member row is
  inserted, the insert of the bill violates the foreign key on \<open>sponsor_bioguide_id\<close>,
  and the batch is rolled back.  With an endpoint that answers, the same batch is
  committed, stub and bill.
\<close>

theorem unresolved_sponsor_fails_foreign_key:
  "fst (saveBatch 1000 noMember [billWithSponsor] (beginTx emptyDb [])) = Inl ForeignKeyViolation
   \<and> saveBillBatchToDb 1000 noMember [] [billWithSponsor] emptyDb = (emptyDb, Some RolledBack)
   \<and> batchCommitted 1000 knownMember [] [billWithSponsor] emptyDb
   \<and> map m_bioguide_id
        (members (fst (saveBillBatchToDb 1000 knownMember [] [billWithSponsor] emptyDb)))
       = [''S000001'']
   \<and> map b_sponsor_bioguide_id
        (bills (fst (saveBillBatchToDb 1000 knownMember [] [billWithSponsor] emptyDb)))
       = [Some ''S000001'']"
  by (simp add: batchCommitted_def bill_eval billWithSponsor_def knownMember_def)

text \<open>
  Claim C4.  A batch of two bills, the second with a cosponsor that is not stored, while
  the member endpoint answers the fetch of that cosponsor with a status that is not ok:
  the insert of the cosponsor violates the foreign key on \<open>member_bioguide_id\<close> and the
  whole batch is rolled back, the first bill and the second bill's own row included.
\<close>

theorem unresolved_cosponsor_fails_batch:
  "fst (saveBatch 1000 noMember [plainBill (Some 119) ''HR'' 1, billWithCosponsor]
          (beginTx emptyDb [])) = Inl ForeignKeyViolation
   \<and> saveBillBatchToDb 1000 noMember [] [plainBill (Some 119) ''HR'' 1, billWithCosponsor] emptyDb
       = (emptyDb, Some RolledBack)
   \<and> batchCommitted 1000 knownMember [] [plainBill (Some 119) ''HR'' 1, billWithCosponsor] emptyDb
   \<and> map b_number
        (bills (fst (saveBillBatchToDb 1000 knownMember []
                       [plainBill (Some 119) ''HR'' 1, billWithCosponsor] emptyDb)))
       = [1, 3]
   \<and> map bc_member_bioguide_id
        (bill_cosponsors (fst (saveBillBatchToDb 1000 knownMember []
                                 [plainBill (Some 119) ''HR'' 1, billWithCosponsor] emptyDb)))
       = [''C000001'']"
  by (simp add: batchCommitted_def bill_eval insertCosponsor_def billWithCosponsor_def
        knownMember_def)

section \<open>Running a script twice\<close>

lemmas member_eval =
  processMemberBatch_def saveMember_def upsertMember_def upsertMemberAddress_def
  insertPartyHistory_def upsertTerm_def upsertLeadership_def memberStored_def sameKey_def
  beginTx_def freshId_def emptyDb_def senator_def io_eval

text \<open>
  Claim C9.  The member script run twice on the empty store with the same upstream
  answer, one senator whose term has no district: both runs are committed; the first
  leaves one row in \<open>member_terms\<close>, the second leaves two, the second with a new key
  and otherwise equal to the first.  The table \<open>members\<close> and the table
  \<open>member_party_history\<close> hold one row after either run.  In the committee script the
  statement that stores an item of a committee's history, sent twice with the same
  values, stores two rows.
\<close>

theorem second_run_duplicates_senate_term:
  "snd (processMemberBatch [] [senator] emptyDb) = Some Committed
   \<and> snd (processMemberBatch [] [senator] (fst (processMemberBatch [] [senator] emptyDb)))
       = Some Committed
   \<and> map mt_id (member_terms (fst (processMemberBatch [] [senator] emptyDb))) = [1]
   \<and> map mt_id (member_terms (fst (processMemberBatch [] [senator]
                                      (fst (processMemberBatch [] [senator] emptyDb))))) = [1, 2]
   \<and> map (\<lambda>r. (mt_member_bioguide_id r, mt_congress r, mt_chamber r, mt_district r))
        (member_terms (fst (processMemberBatch [] [senator]
                              (fst (processMemberBatch [] [senator] emptyDb)))))
       = [(''D000001'', 119, ''Senate'', None), (''D000001'', 119, ''Senate'', None)]
   \<and> length (members (fst (processMemberBatch [] [senator]
                              (fst (processMemberBatch [] [senator] emptyDb))))) = 1
   \<and> length (member_party_history (fst (processMemberBatch [] [senator]
                              (fst (processMemberBatch [] [senator] emptyDb))))) = 1
   \<and> map (\<lambda>d. length (committee_history d))
        [storedHouse,
         tx_db (snd (query (insertCommitteeHistory (Some ''HSAG'') historyItem1)
                       (beginTx storedHouse []))),
         tx_db (snd (bindE (query (insertCommitteeHistory (Some ''HSAG'') historyItem1))
                       (\<lambda>u. query (insertCommitteeHistory (Some ''HSAG'') historyItem1))
                       (beginTx storedHouse [])))]
       = [0, 1, 2]"
  by (simp add: member_eval insertCommitteeHistory_def committeeStored_def storedHouse_def
        historyItem1_def)

section \<open>Rate limits in the batch loops\<close>

text \<open>
  Claim C6.  In the bill script and in the member script, an iteration whose fan-out
  holds a \<open>RATE_LIMIT\<close> pauses (3601 seconds and 10 seconds), writes nothing and leaves
  the index where it was, so that the next iteration takes the same slice of URLs; the
  loop goes on from that state with the next answers of the outside.
\<close>

theorem rate_limited_batch_is_retried:
  "(RATE_LIMIT \<in> set (map (br_fetch round) (jsSlice billUrls (ms_i s) (ms_i s + billBatchSize)))
      \<longrightarrow> billIteration billUrls round s = s\<lparr>ms_slept := ms_slept s @ [3601000]\<rparr>
          \<and> jsSlice billUrls (ms_i (billIteration billUrls round s))
               (ms_i (billIteration billUrls round s) + billBatchSize)
             = jsSlice billUrls (ms_i s) (ms_i s + billBatchSize)
          \<and> (ms_i s < int (length billUrls)
               \<longrightarrow> billLoop billUrls (round # rounds) s
                   = billLoop billUrls rounds (s\<lparr>ms_slept := ms_slept s @ [3601000]\<rparr>)))
   \<and> (RATE_LIMIT \<in> set (map (mr_fetch mround)
                            (jsSlice memberUrls (ms_i s) (ms_i s + memberBatchSize)))
      \<longrightarrow> memberIteration memberUrls mround s = s\<lparr>ms_slept := ms_slept s @ [10000]\<rparr>
          \<and> jsSlice memberUrls (ms_i (memberIteration memberUrls mround s))
               (ms_i (memberIteration memberUrls mround s) + memberBatchSize)
             = jsSlice memberUrls (ms_i s) (ms_i s + memberBatchSize)
          \<and> (ms_i s < int (length memberUrls)
               \<longrightarrow> memberLoop memberUrls (mround # mrounds) s
                   = memberLoop memberUrls mrounds (s\<lparr>ms_slept := ms_slept s @ [10000]\<rparr>)))"
proof (intro conjI impI)
  assume a: "RATE_LIMIT \<in> set (map (br_fetch round)
               (jsSlice billUrls (ms_i s) (ms_i s + billBatchSize)))"
  then show e: "billIteration billUrls round s = s\<lparr>ms_slept := ms_slept s @ [3601000]\<rparr>"
    by (simp add: billIteration_def Let_def)
  then show "jsSlice billUrls (ms_i (billIteration billUrls round s))
               (ms_i (billIteration billUrls round s) + billBatchSize)
             = jsSlice billUrls (ms_i s) (ms_i s + billBatchSize)"
    by simp
  assume "ms_i s < int (length billUrls)"
  with e show "billLoop billUrls (round # rounds) s
                   = billLoop billUrls rounds (s\<lparr>ms_slept := ms_slept s @ [3601000]\<rparr>)"
    by simp
next
  assume a: "RATE_LIMIT \<in> set (map (mr_fetch mround)
               (jsSlice memberUrls (ms_i s) (ms_i s + memberBatchSize)))"
  then show e: "memberIteration memberUrls mround s = s\<lparr>ms_slept := ms_slept s @ [10000]\<rparr>"
    by (simp add: memberIteration_def Let_def)
  then show "jsSlice memberUrls (ms_i (memberIteration memberUrls mround s))
               (ms_i (memberIteration memberUrls mround s) + memberBatchSize)
             = jsSlice memberUrls (ms_i s) (ms_i s + memberBatchSize)"
    by simp
  assume "ms_i s < int (length memberUrls)"
  with e show "memberLoop memberUrls (mround # mrounds) s
                   = memberLoop memberUrls mrounds (s\<lparr>ms_slept := ms_slept s @ [10000]\<rparr>)"
    by simp
qed

text \<open>
  Three URLs, the second rate-limited in the first iteration and no URL with data after
  that: both loops pause once for the cooldown, then once after the batch, and end with
  the stored rows they began with.
\<close>

theorem rate_limited_batch_is_retried_witness:
  "RATE_LIMIT \<in> set (map (br_fetch limitedBillRound)
                         (jsSlice [''u1'', ''u2'', ''u3''] 0 (0 + billBatchSize)))
   \<and> (0::int) < int (length [''u1'', ''u2'', ''u3''])
   \<and> billIteration [''u1'', ''u2'', ''u3''] limitedBillRound
        \<lparr>ms_i = 0, ms_stored = storedS5, ms_slept = []\<rparr>
       = \<lparr>ms_i = 0, ms_stored = storedS5, ms_slept = [3601000]\<rparr>
   \<and> billLoop [''u1'', ''u2'', ''u3''] [limitedBillRound, quietBillRound]
        \<lparr>ms_i = 0, ms_stored = storedS5, ms_slept = []\<rparr>
       = Some \<lparr>ms_i = 15, ms_stored = storedS5, ms_slept = [3601000, 2000]\<rparr>
   \<and> RATE_LIMIT \<in> set (map (mr_fetch limitedMemberRound)
                         (jsSlice [''u1'', ''u2'', ''u3''] 0 (0 + memberBatchSize)))
   \<and> memberLoop [''u1'', ''u2'', ''u3''] [limitedMemberRound, quietMemberRound]
        \<lparr>ms_i = 0, ms_stored = storedS5, ms_slept = []\<rparr>
       = Some \<lparr>ms_i = 50, ms_stored = storedS5, ms_slept = [10000, 1000]\<rparr>"
proof -
  let ?s = "\<lparr>ms_i = 0, ms_stored = storedS5, ms_slept = []\<rparr>"
  let ?urls = "[''u1'', ''u2'', ''u3'']"
  have h1: "RATE_LIMIT \<in> set (map (br_fetch limitedBillRound)
                         (jsSlice ?urls (ms_i ?s) (ms_i ?s + billBatchSize)))"
    by (simp add: limitedBillRound_def jsSlice_def billBatchSize_def)
  have h2: "RATE_LIMIT \<in> set (map (mr_fetch limitedMemberRound)
                         (jsSlice ?urls (ms_i ?s) (ms_i ?s + memberBatchSize)))"
    by (simp add: limitedMemberRound_def jsSlice_def memberBatchSize_def)
  have h3: "ms_i ?s < int (length ?urls)" by simp
  have q1: "billLoop ?urls [quietBillRound] (?s\<lparr>ms_slept := ms_slept ?s @ [3601000]\<rparr>)
       = Some \<lparr>ms_i = 15, ms_stored = storedS5, ms_slept = [3601000, 2000]\<rparr>"
    by (simp add: billIteration_def quietBillRound_def jsSlice_def billBatchSize_def
          fetchedData_def List.map_filter_simps saveBillBatchToDb_def)
  have q2: "memberLoop ?urls [quietMemberRound] (?s\<lparr>ms_slept := ms_slept ?s @ [10000]\<rparr>)
       = Some \<lparr>ms_i = 50, ms_stored = storedS5, ms_slept = [10000, 1000]\<rparr>"
    by (simp add: memberIteration_def quietMemberRound_def jsSlice_def memberBatchSize_def
          fetchedData_def List.map_filter_simps)
  from rate_limited_batch_is_retried [of limitedBillRound ?urls ?s "[quietBillRound]"
      limitedMemberRound ?urls "[quietMemberRound]"] h1 h2 h3 q1 q2
  show ?thesis by simp
qed

end
